(* ===== verification/Prelude.thy ===== *)
theory Prelude
  imports Main
begin

text \<open>
  Shared vocabulary of the development. The two controllers of the repository keep no
  data structure of their own: their state is a handful of DOM values, a closure flag and
  the requests they have sent. What they share is the browser: an append-only log of the
  observable actions a handler performs (requests, navigation, broadcast events,
  native form submissions), strings of UTF-16 code units, and the cart item keys that
  name cart lines. This theory names those types and collects the generic lemmas on
  lists and logs that the component proofs use through \<open>simp\<close>.
\<close>

named_theorems handler_defs
  "definitions of DOM-level helpers that the handler proofs unfold"

named_theorems log_simps
  "rewrite rules that count the entries of an action log"

type_synonym item_key = string
  \<comment> \<open>the opaque cart line key issued by the cart (\<open>data-item-key\<close>)\<close>

type_synonym 'e action_log = "'e list"
  \<comment> \<open>observable actions in the order the page performed them\<close>

text \<open>
  Responses of the network arrive in any order: the model removes the answered request
  from the list of outstanding ones by its position.
\<close>

definition remove_nth :: "nat \<Rightarrow> 'a list \<Rightarrow> 'a list" where
  "remove_nth i xs = take i xs @ drop (Suc i) xs"

subsection \<open>Counting entries of a log\<close>

lemma count_filter_append [log_simps]:
  "length (filter P (xs @ ys)) = length (filter P xs) + length (filter P ys)"
  by simp

lemma count_filter_snoc [log_simps]:
  "length (filter P (xs @ [x])) = length (filter P xs) + (if P x then 1 else 0)"
  by simp

lemma filter_empty_append [log_simps]:
  "filter P (xs @ ys) = [] \<longleftrightarrow> filter P xs = [] \<and> filter P ys = []"
  by simp

subsection \<open>Removing one element of a list by position\<close>

lemma remove_nth_length_append [simp]: "remove_nth (length xs) (xs @ [x]) = xs"
  by (simp add: remove_nth_def)

lemma remove_nth_length [simp]:
  "i < length xs \<Longrightarrow> length (remove_nth i xs) = length xs - 1"
  by (simp add: remove_nth_def)

lemma remove_nth_filter_length:
  assumes "i < length xs"
  shows "length (filter P (remove_nth i xs)) =
           length (filter P xs) - (if P (xs ! i) then 1 else 0)"
proof -
  have xs: "xs = take i xs @ [xs ! i] @ drop (Suc i) xs"
    using assms by (simp add: Cons_nth_drop_Suc)
  have "length (filter P xs) =
          length (filter P (take i xs)) + (if P (xs ! i) then 1 else 0) +
          length (filter P (drop (Suc i) xs))"
    by (subst xs) simp
  then show ?thesis by (simp add: remove_nth_def)
qed

lemma set_remove_nth_subset: "set (remove_nth i xs) \<subseteq> set xs"
  by (auto simp: remove_nth_def dest: in_set_takeD in_set_dropD)

subsection \<open>Scanning lists from either end\<close>

lemma all_set_dropWhile: "(\<forall>x \<in> set (dropWhile P xs). P x) \<longleftrightarrow> (\<forall>x \<in> set xs. P x)"
  by (induction xs) auto

lemma dropWhile_hd_not:
  "dropWhile P xs \<noteq> [] \<Longrightarrow> \<not> P (hd (dropWhile P xs))"
  by (induction xs) auto

lemma last_dropWhile: "dropWhile P xs \<noteq> [] \<Longrightarrow> last (dropWhile P xs) = last xs"
  by (induction xs) auto

lemma dropWhile_not_hd: "xs \<noteq> [] \<Longrightarrow> \<not> P (hd xs) \<Longrightarrow> dropWhile P xs = xs"
  by (cases xs) auto

lemma takeWhile_all: "\<forall>c \<in> set xs. P c \<Longrightarrow> takeWhile P xs = xs"
  by (induction xs) auto

lemma funpow_invariant: "(\<And>x. g (f x) = g x) \<Longrightarrow> g ((f ^^ n) x) = g x"
  by (induction n) simp_all

lemma foldl_invariant: "(\<And>x y. g (f x y) = g x) \<Longrightarrow> g (foldl f x ys) = g x"
  by (induction ys arbitrary: x) simp_all

lemma funpow_preserves: "(\<And>x. P x \<Longrightarrow> P (f x)) \<Longrightarrow> P x \<Longrightarrow> P ((f ^^ n) x)"
  by (induction n) simp_all

end
