(* ===== verification/JsRuntime.thy ===== *)
theory JsRuntime
  imports Prelude
begin

text \<open>
  The parts of the JavaScript runtime the two controllers depend on, modelled from the
  ECMAScript specification: \<open>String.prototype.trim\<close>, \<open>parseInt(s, 10)\<close>,
  \<open>Number.prototype.toString\<close> on integers, the truthiness test \<open>!x\<close> on strings and
  on the results of optional chaining, and \<open>JSON.stringify\<close> on the plain objects the
  controllers build. Strings are lists of UTF-16 code units; the model admits the code
  units below 256 (\<open>char\<close>), which contain every whitespace unit of that range
  (tab, line feed, vertical tab, form feed, carriage return, space, no-break space).
  Numbers that parse from decimal digits are kept as exact integers: the cart's variant
  ids and quantities are far below \<open>2^53\<close>, where a JavaScript number is exact.
\<close>

subsection \<open>Whitespace and trim\<close>

definition js_ws :: "char \<Rightarrow> bool" where
  "js_ws c \<longleftrightarrow> of_char c \<in> {9, 10, 11, 12, 13, 32, 160 :: nat}"

definition js_trim :: "string \<Rightarrow> string" where
  "js_trim s = rev (dropWhile js_ws (rev (dropWhile js_ws s)))"

definition js_truthy_str :: "string \<Rightarrow> bool" where
  \<comment> \<open>\<open>!s\<close> is true exactly for the empty string\<close>
  "js_truthy_str s \<longleftrightarrow> s \<noteq> []"

definition js_truthy_opt :: "string option \<Rightarrow> bool" where
  \<comment> \<open>the result of \<open>el?.value\<close>: \<open>undefined\<close> (no element) is falsy\<close>
  "js_truthy_opt v \<longleftrightarrow> (case v of None \<Rightarrow> False | Some s \<Rightarrow> js_truthy_str s)"

subsection \<open>Decimal digits, parseInt and integer printing\<close>

definition is_dec_digit :: "char \<Rightarrow> bool" where
  "is_dec_digit c \<longleftrightarrow> (48 :: nat) \<le> of_char c \<and> of_char c \<le> (57 :: nat)"

definition digit_value :: "char \<Rightarrow> nat" where
  "digit_value c = of_char c - 48"

definition dec_value :: "string \<Rightarrow> nat" where
  "dec_value ds = foldl (\<lambda>acc c. 10 * acc + digit_value c) 0 ds"

datatype jsnum = Num int | NaN
  \<comment> \<open>the integral JavaScript numbers the code produces, and \<open>NaN\<close>\<close>

definition js_parseInt :: "string \<Rightarrow> jsnum" where
  \<comment> \<open>\<open>parseInt(s, 10)\<close>: skip leading whitespace, one optional sign, the longest
      prefix of decimal digits; \<open>NaN\<close> when that prefix is empty\<close>
  "js_parseInt s =
     (let t = dropWhile js_ws s;
          (sg, u) = (case t of
                        c # r \<Rightarrow> if c = CHR ''-'' then (-1 :: int, r)
                                 else if c = CHR ''+'' then (1, r) else (1, t)
                      | [] \<Rightarrow> (1, []));
          z = takeWhile is_dec_digit u
      in if z = [] then NaN else Num (sg * int (dec_value z)))"

fun dec_string :: "nat \<Rightarrow> string" where
  "dec_string n =
     (if n < 10 then [char_of (48 + n)] else dec_string (n div 10) @ [char_of (48 + n mod 10)])"

declare dec_string.simps [simp del]

definition js_int_string :: "int \<Rightarrow> string" where
  \<comment> \<open>\<open>String(i)\<close> for an integral number \<open>i\<close> of magnitude below \<open>10^21\<close>\<close>
  "js_int_string i = (if i < 0 then CHR ''-'' # dec_string (nat (- i)) else dec_string (nat i))"

subsection \<open>JSON values and JSON.stringify\<close>

datatype json =
    JNull
  | JBool bool
  | JNum int
  | JStr string
  | JArr "json list"
  | JObj "(string \<times> json) list"

datatype jsval =
    JsUndefined
  | JsNull
  | JsBool bool
  | JsNumber jsnum
  | JsString string
  | JsArray "jsval list"
  | JsObject "(string \<times> jsval) list"

text \<open>
  \<open>JSON.stringify\<close> drops object members whose value is \<open>undefined\<close>, writes
  \<open>null\<close> for \<open>NaN\<close> and for \<open>undefined\<close> array elements, and returns
  \<open>undefined\<close> (here \<open>None\<close>) for a top-level \<open>undefined\<close>.
\<close>

fun json_of :: "jsval \<Rightarrow> json option"
and json_members :: "(string \<times> jsval) list \<Rightarrow> (string \<times> json) list"
and json_elems :: "jsval list \<Rightarrow> json list" where
  "json_of JsUndefined = None"
| "json_of JsNull = Some JNull"
| "json_of (JsBool b) = Some (JBool b)"
| "json_of (JsNumber (Num i)) = Some (JNum i)"
| "json_of (JsNumber NaN) = Some JNull"
| "json_of (JsString s) = Some (JStr s)"
| "json_of (JsArray vs) = Some (JArr (json_elems vs))"
| "json_of (JsObject ms) = Some (JObj (json_members ms))"
| "json_members [] = []"
| "json_members ((k, v) # ms) =
     (case json_of v of None \<Rightarrow> json_members ms | Some j \<Rightarrow> (k, j) # json_members ms)"
| "json_elems [] = []"
| "json_elems (v # vs) = (case json_of v of None \<Rightarrow> JNull | Some j \<Rightarrow> j) # json_elems vs"

definition js_num_json :: "jsnum \<Rightarrow> json" where
  "js_num_json n = (case n of Num i \<Rightarrow> JNum i | NaN \<Rightarrow> JNull)"

definition js_opt_string :: "string option \<Rightarrow> jsval" where
  \<comment> \<open>a DOM read that may be \<open>undefined\<close>, such as \<open>form.dataset.productHandle\<close>\<close>
  "js_opt_string v = (case v of None \<Rightarrow> JsUndefined | Some s \<Rightarrow> JsString s)"

text \<open>
  Reading a member of a parsed JSON response: \<open>JSON.parse\<close> keeps the last of
  duplicate keys; a member of \<open>null\<close> throws a \<open>TypeError\<close> (\<open>None\<close>); a member that
  is absent, or asked of a value that is not an object, is \<open>undefined\<close>
  (\<open>Some None\<close>).
\<close>

definition json_get :: "json \<Rightarrow> string \<Rightarrow> json option option" where
  "json_get j k =
     (case j of JNull \<Rightarrow> None
      | JObj ms \<Rightarrow> Some (map_of (rev ms) k)
      | _ \<Rightarrow> Some None)"

subsection \<open>ToString on primitive values\<close>

fun js_to_string :: "jsval \<Rightarrow> string"
and js_join_elems :: "jsval list \<Rightarrow> string" where
  "js_to_string JsUndefined = ''undefined''"
| "js_to_string JsNull = ''null''"
| "js_to_string (JsBool b) = (if b then ''true'' else ''false'')"
| "js_to_string (JsNumber (Num i)) = js_int_string i"
| "js_to_string (JsNumber NaN) = ''NaN''"
| "js_to_string (JsString s) = s"
| "js_to_string (JsArray vs) = js_join_elems vs"
| "js_to_string (JsObject ms) = ''[object Object]''"
| "js_join_elems [] = []"
| "js_join_elems (v # vs) =
     (case v of JsUndefined \<Rightarrow> [] | JsNull \<Rightarrow> [] | _ \<Rightarrow> js_to_string v) @
     (if vs = [] then [] else CHR '','' # js_join_elems vs)"

subsection \<open>fetch\<close>

text \<open>
  A call of \<open>fetch(url, {method, headers, body: JSON.stringify(obj)})\<close> is recorded
  with the JSON value of its body. A response is either a rejected promise (network
  error) or an HTTP status with a body that is JSON or not; \<open>response.ok\<close> is a
  status in 200..299.
\<close>

record fetch_call =
  fc_url :: string
  fc_method :: string
  fc_headers :: "(string \<times> string) list"
  fc_body :: json

definition json_post :: "string \<Rightarrow> (string \<times> jsval) list \<Rightarrow> fetch_call" where
  "json_post url members =
     \<lparr>fc_url = url, fc_method = ''POST'',
      fc_headers = [(''Content-Type'', ''application/json''), (''Accept'', ''application/json'')],
      fc_body = JObj (json_members members)\<rparr>"

datatype fetch_response = FetchRejected | HttpResponse nat "json option"

definition http_ok :: "nat \<Rightarrow> bool" where
  "http_ok st \<longleftrightarrow> 200 \<le> st \<and> st \<le> 299"

definition response_ok :: "fetch_response \<Rightarrow> bool" where
  "response_ok r \<longleftrightarrow> (case r of FetchRejected \<Rightarrow> False | HttpResponse st _ \<Rightarrow> http_ok st)"

subsection \<open>Trim and parseInt\<close>

lemma js_trim_Nil [simp]: "js_trim [] = []"
  by (simp add: js_trim_def)

lemma js_trim_empty_iff: "js_trim s = [] \<longleftrightarrow> (\<forall>c \<in> set s. js_ws c)"
  unfolding js_trim_def by (simp only: rev_is_Nil_conv dropWhile_eq_Nil_conv set_rev all_set_dropWhile)

lemma js_trim_last: "js_trim s \<noteq> [] \<Longrightarrow> \<not> js_ws (last (js_trim s))"
  unfolding js_trim_def by (simp add: last_rev dropWhile_hd_not)

lemma js_trim_hd: "js_trim s \<noteq> [] \<Longrightarrow> \<not> js_ws (hd (js_trim s))"
proof -
  assume ne: "js_trim s \<noteq> []"
  let ?d = "dropWhile js_ws s"
  have ne2: "dropWhile js_ws (rev ?d) \<noteq> []" using ne by (simp add: js_trim_def)
  then have ne3: "?d \<noteq> []" by (metis dropWhile.simps(1) rev.simps(1))
  have "hd (js_trim s) = last (dropWhile js_ws (rev ?d))"
    using ne2 by (simp add: js_trim_def hd_rev)
  also have "\<dots> = last (rev ?d)" using ne2 by (rule last_dropWhile)
  also have "\<dots> = hd ?d" using ne3 by (simp add: last_rev)
  finally show ?thesis using ne3 dropWhile_hd_not by (metis)
qed

lemma js_trim_fixed:
  assumes "t \<noteq> []" "\<not> js_ws (hd t)" "\<not> js_ws (last t)"
  shows "js_trim t = t"
proof -
  have "dropWhile js_ws t = t" using assms(1,2) by (rule dropWhile_not_hd)
  moreover have "dropWhile js_ws (rev t) = rev t"
    using assms(1,3) by (simp add: dropWhile_not_hd hd_rev)
  ultimately show ?thesis by (simp add: js_trim_def)
qed

lemma js_trim_idem: "js_trim (js_trim s) = js_trim s"
proof (cases "js_trim s = []")
  case True
  moreover have "js_trim [] = []" by (simp add: js_trim_def)
  ultimately show ?thesis by simp
next
  case False
  then show ?thesis by (simp add: js_trim_fixed js_trim_hd js_trim_last)
qed

lemma dec_value_snoc: "dec_value (xs @ [c]) = 10 * dec_value xs + digit_value c"
  by (simp add: dec_value_def)

lemma dec_string_digits: "\<forall>c \<in> set (dec_string n). is_dec_digit c"
proof (induction n rule: dec_string.induct)
  case (1 n)
  then show ?case
    by (subst dec_string.simps) (auto simp: is_dec_digit_def)
qed

lemma dec_string_value: "dec_value (dec_string n) = n"
proof (induction n rule: dec_string.induct)
  case (1 n)
  then show ?case
    by (subst dec_string.simps)
       (auto simp: dec_value_snoc digit_value_def dec_value_def)
qed

lemma dec_string_ne: "dec_string n \<noteq> []"
  by (subst dec_string.simps) simp

lemma digit_not_ws: "is_dec_digit c \<Longrightarrow> \<not> js_ws c"
  by (auto simp: is_dec_digit_def js_ws_def)

lemma js_parseInt_digits:
  assumes "ds \<noteq> []" "\<forall>c \<in> set ds. is_dec_digit c"
  shows "js_parseInt ds = Num (int (dec_value ds))"
    and "js_parseInt (CHR ''-'' # ds) = Num (- int (dec_value ds))"
proof -
  obtain c r where cr: "ds = c # r" using assms(1) by (cases ds) auto
  have "is_dec_digit c" using assms(2) cr by simp
  then have "\<not> js_ws c" "c \<noteq> CHR ''-''" "c \<noteq> CHR ''+''"
    by (auto simp: is_dec_digit_def js_ws_def)
  moreover have "takeWhile is_dec_digit ds = ds" using assms(2) by (rule takeWhile_all)
  ultimately show "js_parseInt ds = Num (int (dec_value ds))"
    and "js_parseInt (CHR ''-'' # ds) = Num (- int (dec_value ds))"
    using assms(1) cr by (simp_all add: js_parseInt_def js_ws_def)
qed

lemma js_parseInt_int_string: "js_parseInt (js_int_string i) = Num i"
proof (cases "i < 0")
  case True
  then have "js_int_string i = CHR ''-'' # dec_string (nat (- i))"
    by (simp add: js_int_string_def)
  with True show ?thesis
    by (simp add: js_parseInt_digits(2) dec_string_ne dec_string_digits dec_string_value)
next
  case False
  then have "js_int_string i = dec_string (nat i)"
    by (simp add: js_int_string_def)
  with False show ?thesis
    by (simp add: js_parseInt_digits(1) dec_string_ne dec_string_digits dec_string_value)
qed

subsection \<open>Numbers in JSON\<close>

lemma js_int_string_one [simp]: "js_int_string 1 = ''1''"
  by code_simp

lemma js_num_json_Num [simp]: "js_num_json (Num i) = JNum i"
  by (simp add: js_num_json_def)

lemma json_of_number [simp]: "json_of (JsNumber n) = Some (js_num_json n)"
  by (cases n) (simp_all add: js_num_json_def)

end
