(* ===== verification/GiftWrap.thy ===== *)
theory GiftWrap
  imports JsRuntime
begin

text \<open>
  The add-time controller, \<open>src/assets/gift-wrap.js\<close>. \<open>initializeGiftWrap\<close> finds the
  gift-wrap block of a product form and attaches a \<open>change\<close> listener to its checkbox
  and a \<open>submit\<close> listener to the form; the two listeners share the closure variable
  \<open>isAddingGiftWrap\<close>. A checked submission is intercepted and replaced by one
  \<open>/cart/add.js\<close> request that carries the main product and the gift-wrap product.

  The state \<open>gw_state\<close> holds the DOM values the code reads and writes, the
  \<open>isAddingGiftWrap\<close> flag of every initialised instance (the function runs on
  \<open>DOMContentLoaded\<close> and again on every \<open>shopify:section:load\<close>, and each run
  attaches new listeners with a fresh flag), the requests still awaiting a response, and
  the log of observable actions. Every handler is a function on this state; the async
  \<open>addProductsToCart\<close> is split at its \<open>await fetch\<close> into the part that runs
  with the event and the part that runs with the response.
\<close>

subsection \<open>Data\<close>

datatype gw_error = NotConfigured | RecipientRequired | VariantNotFound | AddFailed

datatype gw_effect =
    GwFetch fetch_call
  | GwNativeSubmit
  | GwNavigate string
  | GwDispatch string

record gw_state =
  gw_has_container :: bool
  gw_has_checkbox :: bool
  gw_has_fields :: bool
  gw_has_error :: bool
  gw_has_variant_input :: bool
  gw_in_form :: bool
  gw_checked :: bool
  gw_aria_expanded :: string
  gw_fields_display :: string
  gw_to :: "string option"
  gw_from :: "string option"
  gw_message :: "string option"
  gw_error_text :: string
  gw_error_display :: string
  gw_focus_to :: bool
  gw_variant_id :: string
  gw_main_id :: "string option"
  gw_quantity :: "string option"
  gw_handle :: "string option"
  gw_flags :: "bool list"
  gw_pending :: "(nat \<times> fetch_call) list"
  gw_log :: "gw_effect list"

definition gw_error_message :: "gw_error \<Rightarrow> string" where
  "gw_error_message e =
     (case e of
        NotConfigured \<Rightarrow> ''Gift wrap product not configured. Please contact the store.''
      | RecipientRequired \<Rightarrow> ''Please enter recipient'' @ [CHR 0x27] @ ''s name''
      | VariantNotFound \<Rightarrow> ''Main product variant not found. Please refresh the page.''
      | AddFailed \<Rightarrow> ''Could not add products to cart. Please try again.'')"

subsection \<open>DOM helpers: setExpanded, showError, hideError\<close>

definition gw_showError :: "string \<Rightarrow> gw_state \<Rightarrow> gw_state" where
  "gw_showError msg s =
     s\<lparr>gw_error_text := (if js_truthy_str msg then msg
                         else ''Please check gift wrap details and try again.''),
       gw_error_display := ''block''\<rparr>"

definition gw_hideError :: "gw_state \<Rightarrow> gw_state" where
  "gw_hideError s = s\<lparr>gw_error_text := [], gw_error_display := ''none''\<rparr>"

definition gw_clear_fields :: "gw_state \<Rightarrow> gw_state" where
  \<comment> \<open>\<open>fields.querySelectorAll('input[type="text"], textarea')\<close>: the recipient and
      sender inputs and the message textarea\<close>
  "gw_clear_fields s =
     s\<lparr>gw_to := map_option (\<lambda>_. []) (gw_to s),
       gw_from := map_option (\<lambda>_. []) (gw_from s),
       gw_message := map_option (\<lambda>_. []) (gw_message s)\<rparr>"

definition gw_setExpanded :: "bool \<Rightarrow> gw_state \<Rightarrow> gw_state" where
  "gw_setExpanded expanded s =
     (let s1 = s\<lparr>gw_aria_expanded := (if expanded then ''true'' else ''false''),
                 gw_fields_display := (if expanded then ''block'' else ''none'')\<rparr>
      in if \<not> expanded then gw_hideError (gw_clear_fields s1) else s1)"

subsection \<open>addProductsToCart\<close>

text \<open>The request body built from the form (lines 57--94).\<close>

definition gw_quantity_value :: "gw_state \<Rightarrow> jsval" where
  \<comment> \<open>\<open>form.querySelector('input[name="quantity"]')?.value || 1\<close>\<close>
  "gw_quantity_value s =
     (case gw_quantity s of
        Some q \<Rightarrow> if js_truthy_str q then JsString q else JsNumber (Num 1)
      | None \<Rightarrow> JsNumber (Num 1))"

definition gw_trimmed_or_empty :: "string option \<Rightarrow> string" where
  \<comment> \<open>\<open>el?.value?.trim() || ''\<close>\<close>
  "gw_trimmed_or_empty v = (case v of None \<Rightarrow> [] | Some x \<Rightarrow> js_trim x)"

definition gw_gift_properties :: "gw_state \<Rightarrow> string \<Rightarrow> (string \<times> jsval) list" where
  "gw_gift_properties s to =
     [(''_GiftWrap'', JsString ''Yes''),
      (''_MainProductHandle'', js_opt_string (gw_handle s)),
      (''To'', JsString to),
      (''From'', JsString (gw_trimmed_or_empty (gw_from s))),
      (''Message'', JsString (gw_trimmed_or_empty (gw_message s)))]"

definition gw_items :: "gw_state \<Rightarrow> string \<Rightarrow> string \<Rightarrow> string \<Rightarrow> jsval" where
  "gw_items s mainVariantId giftVariantId to =
     JsArray
       [JsObject [(''id'', JsNumber (js_parseInt mainVariantId)),
                  (''quantity'', JsNumber (js_parseInt (js_to_string (gw_quantity_value s))))],
        JsObject [(''id'', JsNumber (js_parseInt giftVariantId)),
                  (''quantity'', JsNumber (Num 1)),
                  (''properties'', JsObject (gw_gift_properties s to))]]"

text \<open>
  The part of \<open>addProductsToCart\<close> that runs with the submit event (lines 42--94): the
  three validations, each an early \<open>return false\<close> with its message, then the
  \<open>fetch\<close>. \<open>Inl\<close> is a validation failure, \<open>Inr\<close> the request sent.
\<close>

definition addProductsToCart_start ::
  "gw_state \<Rightarrow> (gw_error \<times> gw_state) + (fetch_call \<times> gw_state)" where
  "addProductsToCart_start s =
     (let giftVariantId = gw_variant_id s in
      if \<not> js_truthy_str giftVariantId
      then Inl (NotConfigured, gw_showError (gw_error_message NotConfigured) s)
      else
        let to = map_option js_trim (gw_to s) in
        if \<not> js_truthy_opt to
        then Inl (RecipientRequired,
                  (gw_showError (gw_error_message RecipientRequired) s)
                    \<lparr>gw_focus_to := (gw_to s \<noteq> None)\<rparr>)
        else if \<not> js_truthy_opt (gw_main_id s)
        then Inl (VariantNotFound, gw_showError (gw_error_message VariantNotFound) s)
        else
          let call = json_post ''/cart/add.js''
                       [(''items'', gw_items s (the (gw_main_id s)) giftVariantId (the to))]
          in Inr (call, s))"

text \<open>
  The part that runs with the response (lines 96--117): a rejected fetch, a status
  outside 200..299, a body that is not JSON and a \<open>null\<close> body (whose \<open>.status\<close>
  throws) all reach the \<open>catch\<close>; otherwise a \<open>status\<close> of 303 navigates to the cart
  and anything else broadcasts \<open>cart:updated\<close>. The boolean is the function's result.
\<close>

definition addProductsToCart_finish :: "fetch_response \<Rightarrow> gw_state \<Rightarrow> bool \<times> gw_state" where
  "addProductsToCart_finish r s =
     (let fail = (False, gw_showError (gw_error_message AddFailed) s) in
      case r of
        FetchRejected \<Rightarrow> fail
      | HttpResponse st body \<Rightarrow>
          if \<not> http_ok st then fail
          else (case body of
                  None \<Rightarrow> fail
                | Some result \<Rightarrow>
                    (case json_get result ''status'' of
                       None \<Rightarrow> fail
                     | Some status \<Rightarrow>
                         if status = Some (JNum 303)
                         then (True, s\<lparr>gw_log := gw_log s @ [GwNavigate ''/cart'']\<rparr>)
                         else (True, s\<lparr>gw_log := gw_log s @ [GwDispatch ''cart:updated'']\<rparr>))))"

subsection \<open>Listeners\<close>

text \<open>
  The submit listener of instance \<open>i\<close> (lines 126--145). The boolean is whether it
  called \<open>preventDefault\<close>. The validation failure releases the flag, as the
  \<open>if (!success)\<close> branch does; a request sent keeps it set until its response.
\<close>

definition gw_on_submit :: "nat \<Rightarrow> gw_state \<Rightarrow> bool \<times> gw_state" where
  "gw_on_submit i s =
     (if \<not> gw_checked s then (False, s)
      else if gw_flags s ! i then (False, s)
      else
        let s1 = gw_hideError (s\<lparr>gw_flags := (gw_flags s)[i := True]\<rparr>) in
        (case addProductsToCart_start s1 of
           Inl (e, s2) \<Rightarrow> (True, s2\<lparr>gw_flags := (gw_flags s2)[i := False]\<rparr>)
         | Inr (call, s2) \<Rightarrow>
             (True, s2\<lparr>gw_pending := gw_pending s2 @ [(i, call)],
                       gw_log := gw_log s2 @ [GwFetch call]\<rparr>)))"

text \<open>
  A submit event runs the listeners of all instances in the order they were attached;
  the browser submits the form itself unless one of them prevented it.
\<close>

fun gw_submit_all :: "nat list \<Rightarrow> bool \<times> gw_state \<Rightarrow> bool \<times> gw_state" where
  "gw_submit_all [] ps = ps"
| "gw_submit_all (i # ixs) (p, s) =
     (let (p', s') = gw_on_submit i s in gw_submit_all ixs (p \<or> p', s'))"

definition gw_submit :: "gw_state \<Rightarrow> gw_state" where
  "gw_submit s =
     (let (prevented, s') = gw_submit_all [0..<length (gw_flags s)] (False, s) in
      if prevented then s' else s'\<lparr>gw_log := gw_log s' @ [GwNativeSubmit]\<rparr>)"

text \<open>
  The response to the \<open>k\<close>-th outstanding request resumes the \<open>submit\<close> listener of
  the instance that sent it: a \<open>false\<close> result releases that instance's flag.
\<close>

definition gw_respond :: "nat \<Rightarrow> fetch_response \<Rightarrow> gw_state \<Rightarrow> gw_state" where
  "gw_respond k r s =
     (if k < length (gw_pending s) then
        let i = fst (gw_pending s ! k);
            (ok, s1) = addProductsToCart_finish r (s\<lparr>gw_pending := remove_nth k (gw_pending s)\<rparr>)
        in if ok then s1 else s1\<lparr>gw_flags := (gw_flags s1)[i := False]\<rparr>
      else s)"

text \<open>The change listener of every instance calls \<open>setExpanded(this.checked)\<close>.\<close>

definition gw_change :: "bool \<Rightarrow> gw_state \<Rightarrow> gw_state" where
  "gw_change c s = (gw_setExpanded c ^^ length (gw_flags s)) (s\<lparr>gw_checked := c\<rparr>)"

text \<open>\<open>initializeGiftWrap\<close> (lines 1--14 and 147--148): the early returns when an
  element is missing, then a new instance with its flag, then \<open>setExpanded\<close>.\<close>

definition gw_elements_found :: "gw_state \<Rightarrow> bool" where
  \<comment> \<open>\<open>if (!giftWrap) return;\<close> and
      \<open>if (!checkbox || !fields || !error || !variantIdInput || !form) return;\<close>\<close>
  "gw_elements_found s \<longleftrightarrow>
     gw_has_container s \<and> gw_has_checkbox s \<and> gw_has_fields s \<and> gw_has_error s
     \<and> gw_has_variant_input s \<and> gw_in_form s"

definition initializeGiftWrap :: "gw_state \<Rightarrow> gw_state" where
  "initializeGiftWrap s =
     (if gw_elements_found s
      then gw_setExpanded (gw_checked s) (s\<lparr>gw_flags := gw_flags s @ [False]\<rparr>)
      else s)"

subsection \<open>Events and runs\<close>

datatype gw_field = FieldTo | FieldFrom | FieldMessage

datatype gw_event =
    GwLoad
  | GwCheck bool
  | GwType gw_field string
  | GwSubmitEvent
  | GwResponse nat fetch_response

definition gw_type :: "gw_field \<Rightarrow> string \<Rightarrow> gw_state \<Rightarrow> gw_state" where
  \<comment> \<open>the shopper edits a field that is on the page\<close>
  "gw_type f v s =
     (case f of
        FieldTo \<Rightarrow> s\<lparr>gw_to := map_option (\<lambda>_. v) (gw_to s)\<rparr>
      | FieldFrom \<Rightarrow> s\<lparr>gw_from := map_option (\<lambda>_. v) (gw_from s)\<rparr>
      | FieldMessage \<Rightarrow> s\<lparr>gw_message := map_option (\<lambda>_. v) (gw_message s)\<rparr>)"

fun gw_step :: "gw_state \<Rightarrow> gw_event \<Rightarrow> gw_state" where
  "gw_step s GwLoad = initializeGiftWrap s"
| "gw_step s (GwCheck c) = gw_change c s"
| "gw_step s (GwType f v) = gw_type f v s"
| "gw_step s GwSubmitEvent = gw_submit s"
| "gw_step s (GwResponse k r) = gw_respond k r s"

definition gw_run :: "gw_state \<Rightarrow> gw_event list \<Rightarrow> gw_state" where
  "gw_run s es = foldl gw_step s es"

inductive gw_reachable :: "gw_state \<Rightarrow> bool" where
  page: "gw_flags s = [] \<Longrightarrow> gw_pending s = [] \<Longrightarrow> gw_log s = [] \<Longrightarrow> gw_reachable s"
| step: "gw_reachable s \<Longrightarrow> gw_reachable (gw_step s e)"

definition gw_is_fetch :: "gw_effect \<Rightarrow> bool" where
  "gw_is_fetch a \<longleftrightarrow> (case a of GwFetch _ \<Rightarrow> True | _ \<Rightarrow> False)"

text \<open>
  A product page as the theme renders it, used by the witnesses: all elements present,
  the box unchecked, a configured gift-wrap variant, no product handle.
\<close>

definition gw_example_page :: gw_state where
  "gw_example_page =
     \<lparr>gw_has_container = True, gw_has_checkbox = True, gw_has_fields = True,
      gw_has_error = True, gw_has_variant_input = True, gw_in_form = True,
      gw_checked = False, gw_aria_expanded = ''false'', gw_fields_display = ''none'',
      gw_to = Some [], gw_from = Some [], gw_message = Some [],
      gw_error_text = [], gw_error_display = ''none'', gw_focus_to = False,
      gw_variant_id = ''4001'', gw_main_id = Some ''123'', gw_quantity = Some ''1'',
      gw_handle = None, gw_flags = [], gw_pending = [], gw_log = []\<rparr>"

text \<open>An outstanding request, and a run that loads the page, checks the box, types a
  recipient and submits twice.\<close>

definition gw_example_call :: fetch_call where
  "gw_example_call = json_post ''/cart/add.js'' []"

definition gw_example_run :: "gw_event list" where
  "gw_example_run = [GwLoad, GwCheck True, GwType FieldTo ''Alice'', GwSubmitEvent, GwSubmitEvent]"

text \<open>
  The invariant of the \<open>isAddingGiftWrap\<close> guard: every outstanding request belongs to
  an initialised instance whose flag is set, and no instance has two.
\<close>

definition gw_inv :: "gw_state \<Rightarrow> bool" where
  "gw_inv s \<longleftrightarrow>
     (\<forall>p \<in> set (gw_pending s). fst p < length (gw_flags s) \<and> gw_flags s ! fst p) \<and>
     (\<forall>i. length (filter (\<lambda>p. fst p = i) (gw_pending s)) \<le> 1)"

subsection \<open>Frame lemmas and the guard invariant\<close>

declare gw_showError_def [handler_defs] gw_hideError_def [handler_defs]
  gw_clear_fields_def [handler_defs] gw_setExpanded_def [handler_defs]

lemma gw_setExpanded_frame [simp]:
  "gw_flags (gw_setExpanded e s) = gw_flags s"
  "gw_pending (gw_setExpanded e s) = gw_pending s"
  "gw_log (gw_setExpanded e s) = gw_log s"
  "gw_checked (gw_setExpanded e s) = gw_checked s"
  by (simp_all add: handler_defs Let_def)

lemma gw_setExpanded_idem: "gw_setExpanded e (gw_setExpanded e s) = gw_setExpanded e s"
  by (simp add: handler_defs Let_def option.map_comp o_def)

lemma gw_setExpanded_funpow:
  "0 < n \<Longrightarrow> (gw_setExpanded e ^^ n) s = gw_setExpanded e s"
proof (induction n)
  case 0
  then show ?case by simp
next
  case (Suc n)
  then show ?case by (cases n) (simp_all add: gw_setExpanded_idem)
qed

lemma gw_setExpanded_funpow_frame [simp]:
  "gw_flags ((gw_setExpanded e ^^ n) s) = gw_flags s"
  "gw_pending ((gw_setExpanded e ^^ n) s) = gw_pending s"
  "gw_log ((gw_setExpanded e ^^ n) s) = gw_log s"
  by (induction n) simp_all

lemma addProductsToCart_start_Inl:
  "addProductsToCart_start s = Inl (e, s') \<Longrightarrow>
     gw_flags s' = gw_flags s \<and> gw_pending s' = gw_pending s \<and> gw_log s' = gw_log s"
  by (auto simp: addProductsToCart_start_def handler_defs Let_def split: if_splits)

lemma addProductsToCart_start_Inr:
  "addProductsToCart_start s = Inr (c, s') \<Longrightarrow> s' = s"
  by (auto simp: addProductsToCart_start_def Let_def split: if_splits)

lemma addProductsToCart_finish_frame:
  "addProductsToCart_finish r s = (ok, s') \<Longrightarrow>
     gw_flags s' = gw_flags s \<and> gw_pending s' = gw_pending s"
  by (auto simp: addProductsToCart_finish_def handler_defs Let_def
           split: fetch_response.splits option.splits if_splits)

lemma gw_inv_init: "gw_pending s = [] \<Longrightarrow> gw_inv s"
  by (simp add: gw_inv_def)

lemma gw_inv_initialize: "gw_inv s \<Longrightarrow> gw_inv (initializeGiftWrap s)"
  by (auto simp: gw_inv_def initializeGiftWrap_def nth_append)

lemma gw_inv_change: "gw_inv s \<Longrightarrow> gw_inv (gw_change c s)"
  by (simp add: gw_inv_def gw_change_def)

lemma gw_inv_type: "gw_inv s \<Longrightarrow> gw_inv (gw_type f v s)"
  by (simp add: gw_inv_def gw_type_def split: gw_field.splits)

lemma gw_inv_idle_none:
  "gw_inv s \<Longrightarrow> i < length (gw_flags s) \<Longrightarrow> \<not> gw_flags s ! i \<Longrightarrow>
     filter (\<lambda>p. fst p = i) (gw_pending s) = []"
  by (auto simp: gw_inv_def filter_empty_conv)

lemma gw_inv_on_submit:
  assumes inv: "gw_inv s" and i: "i < length (gw_flags s)"
  shows "gw_inv (snd (gw_on_submit i s)) \<and> length (gw_flags (snd (gw_on_submit i s))) = length (gw_flags s)"
proof (cases "\<not> gw_checked s \<or> gw_flags s ! i")
  case True
  then show ?thesis using inv by (auto simp: gw_on_submit_def)
next
  case False
  let ?s1 = "gw_hideError (s\<lparr>gw_flags := (gw_flags s)[i := True]\<rparr>)"
  have none: "filter (\<lambda>p. fst p = i) (gw_pending s) = []"
    using inv i False by (simp add: gw_inv_idle_none)
  show ?thesis
  proof (cases "addProductsToCart_start ?s1")
    case (Inl es)
    then obtain e s2 where es: "addProductsToCart_start ?s1 = Inl (e, s2)" by (cases es) auto
    then have "gw_flags s2 = (gw_flags s)[i := True] \<and> gw_pending s2 = gw_pending s"
      by (auto dest: addProductsToCart_start_Inl simp: handler_defs)
    then show ?thesis using False es inv i
      by (auto simp: gw_on_submit_def gw_inv_def nth_list_update)
  next
    case (Inr cs)
    then obtain c s2 where cs: "addProductsToCart_start ?s1 = Inr (c, s2)" by (cases cs) auto
    then have s2: "s2 = ?s1" by (rule addProductsToCart_start_Inr)
    have cnt: "\<forall>j. length (filter (\<lambda>p. fst p = j) (gw_pending s @ [(i, c)])) \<le> 1"
      using inv none by (auto simp: gw_inv_def)
    show ?thesis using False cs s2 inv i cnt
      by (auto simp: gw_on_submit_def gw_inv_def nth_list_update handler_defs)
  qed
qed

lemma gw_inv_submit_all:
  "gw_inv (snd ps) \<Longrightarrow> \<forall>i \<in> set ixs. i < length (gw_flags (snd ps)) \<Longrightarrow>
     gw_inv (snd (gw_submit_all ixs ps)) \<and>
     length (gw_flags (snd (gw_submit_all ixs ps))) = length (gw_flags (snd ps))"
proof (induction ixs arbitrary: ps)
  case Nil
  then show ?case by simp
next
  case (Cons i ixs)
  obtain p s where ps: "ps = (p, s)" by (cases ps)
  obtain p' s' where os: "gw_on_submit i s = (p', s')" by (cases "gw_on_submit i s")
  have "gw_inv s' \<and> length (gw_flags s') = length (gw_flags s)"
    using gw_inv_on_submit [of s i] Cons.prems os ps by simp
  moreover have "gw_submit_all (i # ixs) ps = gw_submit_all ixs (p \<or> p', s')"
    using ps os by simp
  ultimately show ?case using Cons.IH [of "(p \<or> p', s')"] Cons.prems ps by simp
qed

lemma gw_inv_log [simp]: "gw_inv (s\<lparr>gw_log := l\<rparr>) = gw_inv s"
  by (simp add: gw_inv_def)

lemma gw_inv_submit:
  assumes "gw_inv s"
  shows "gw_inv (gw_submit s)"
proof -
  obtain p s' where ps: "gw_submit_all [0..<length (gw_flags s)] (False, s) = (p, s')"
    by (cases "gw_submit_all [0..<length (gw_flags s)] (False, s)")
  have "gw_inv s'" using gw_inv_submit_all [of "(False, s)" "[0..<length (gw_flags s)]"] assms ps
    by simp
  then show ?thesis using ps by (simp add: gw_submit_def)
qed

lemma gw_inv_respond:
  assumes inv: "gw_inv s"
  shows "gw_inv (gw_respond k r s)"
proof (cases "k < length (gw_pending s)")
  case False
  then show ?thesis using inv by (simp add: gw_respond_def)
next
  case True
  let ?i = "fst (gw_pending s ! k)"
  let ?s0 = "s\<lparr>gw_pending := remove_nth k (gw_pending s)\<rparr>"
  obtain ok s1 where fin: "addProductsToCart_finish r ?s0 = (ok, s1)"
    by (cases "addProductsToCart_finish r ?s0")
  have fr: "gw_flags s1 = gw_flags s" "gw_pending s1 = remove_nth k (gw_pending s)"
    using addProductsToCart_finish_frame [OF fin] by simp_all
  have sub: "set (remove_nth k (gw_pending s)) \<subseteq> set (gw_pending s)"
    by (rule set_remove_nth_subset)
  have cnt_le: "length (filter (\<lambda>p. fst p = j) (remove_nth k (gw_pending s))) \<le> 1" for j
  proof -
    have "length (filter (\<lambda>p. fst p = j) (remove_nth k (gw_pending s)))
            \<le> length (filter (\<lambda>p. fst p = j) (gw_pending s))"
      using True by (simp add: remove_nth_filter_length)
    also have "\<dots> \<le> 1" using inv by (simp add: gw_inv_def)
    finally show ?thesis .
  qed
  have gone: "filter (\<lambda>p. fst p = ?i) (remove_nth k (gw_pending s)) = []"
  proof -
    have "length (filter (\<lambda>p. fst p = ?i) (gw_pending s)) \<le> 1" using inv by (simp add: gw_inv_def)
    then have "length (filter (\<lambda>p. fst p = ?i) (remove_nth k (gw_pending s))) = 0"
      using True by (simp add: remove_nth_filter_length)
    then show ?thesis by simp
  qed
  have inv1: "gw_inv s1" using inv sub cnt_le fr by (auto simp: gw_inv_def)
  show ?thesis
  proof (cases ok)
    case True
    then show ?thesis using \<open>k < length (gw_pending s)\<close> fin inv1 by (simp add: gw_respond_def Let_def)
  next
    case False
    have "gw_inv (s1\<lparr>gw_flags := (gw_flags s1)[?i := False]\<rparr>)"
      using inv1 gone fr by (fastforce simp: gw_inv_def nth_list_update filter_empty_conv)
    then show ?thesis using False \<open>k < length (gw_pending s)\<close> fin by (simp add: gw_respond_def Let_def)
  qed
qed

lemma gw_inv_step: "gw_inv s \<Longrightarrow> gw_inv (gw_step s e)"
  by (cases e) (simp_all add: gw_inv_initialize gw_inv_change gw_inv_type gw_inv_submit gw_inv_respond)

lemma gw_reachable_inv: "gw_reachable s \<Longrightarrow> gw_inv s"
  by (induction rule: gw_reachable.induct) (simp_all add: gw_inv_init gw_inv_step)

text \<open>
  C3: in every reachable state, each initialised instance of the controller has at
  most one \<open>/cart/add.js\<close> request awaiting its response: the
  \<open>isAddingGiftWrap\<close> flag is set before the request is sent and cleared only by
  the response of that request.
\<close>

theorem gw_at_most_one_per_instance:
  "gw_reachable s \<Longrightarrow> length (filter (\<lambda>p. fst p = i) (gw_pending s)) \<le> 1"
  using gw_reachable_inv by (simp add: gw_inv_def)

text \<open>
  C2: at most one add request in flight. On a page where the controller has been
  initialised once, no reachable state has two \<open>/cart/add.js\<close> requests outstanding,
  however the shopper interleaves checking, typing and submitting with the responses.
\<close>

theorem gw_single_instance_one_in_flight:
  assumes "gw_reachable s" and "length (gw_flags s) \<le> 1"
  shows "length (gw_pending s) \<le> 1"
proof -
  have inv: "gw_inv s" using assms(1) by (rule gw_reachable_inv)
  then have "\<forall>p \<in> set (gw_pending s). fst p = 0" using assms(2) by (auto simp: gw_inv_def)
  then have "filter (\<lambda>p. fst p = 0) (gw_pending s) = gw_pending s" by (simp add: filter_id_conv)
  with inv show ?thesis by (metis gw_inv_def)
qed

subsection \<open>The submit listener and the response\<close>

lemma gw_submit_single:
  "gw_flags s = [b] \<Longrightarrow>
     gw_submit s = (let (p, s') = gw_on_submit 0 s in
                    if p then s' else s'\<lparr>gw_log := gw_log s' @ [GwNativeSubmit]\<rparr>)"
  by (simp add: gw_submit_def split: prod.splits)

lemma gw_submit_all_idle:
  "(\<forall>i \<in> set ixs. gw_on_submit i s = (False, s)) \<Longrightarrow> gw_submit_all ixs (p, s) = (p, s)"
  by (induction ixs) auto

lemma gw_submit_no_listener_acts:
  "(\<forall>i < length (gw_flags s). gw_on_submit i s = (False, s)) \<Longrightarrow>
     gw_submit s = s\<lparr>gw_log := gw_log s @ [GwNativeSubmit]\<rparr>"
  by (simp add: gw_submit_def gw_submit_all_idle)

text \<open>
  C4: with the gift-wrap box unchecked, a submission is not intercepted:
  no listener changes the page, no request is sent, and the browser submits the form.
\<close>

theorem gw_submit_unchecked_native:
  "\<not> gw_checked s \<Longrightarrow> gw_submit s = s\<lparr>gw_log := gw_log s @ [GwNativeSubmit]\<rparr>"
  by (rule gw_submit_no_listener_acts) (simp add: gw_on_submit_def)

text \<open>
  C9: a second submission while the add request is outstanding sends no second
  request, but it is not prevented either: the listener returns before
  \<open>preventDefault\<close>, so the browser submits the form natively.
\<close>

theorem gw_submit_while_adding_native:
  "gw_flags s = [True] \<Longrightarrow> gw_submit s = s\<lparr>gw_log := gw_log s @ [GwNativeSubmit]\<rparr>"
  by (rule gw_submit_no_listener_acts) (simp add: gw_on_submit_def)

lemma gw_on_submit_valid:
  assumes "i < length (gw_flags s)" "\<not> gw_flags s ! i" "gw_checked s"
      and "gw_variant_id s \<noteq> []" "gw_to s = Some t" "js_trim t \<noteq> []"
      and "gw_main_id s = Some m" "m \<noteq> []"
  shows "gw_on_submit i s =
           (let c = json_post ''/cart/add.js'' [(''items'', gw_items s m (gw_variant_id s) (js_trim t))]
            in (True, (gw_hideError s)\<lparr>gw_flags := (gw_flags s)[i := True],
                        gw_pending := gw_pending s @ [(i, c)], gw_log := gw_log s @ [GwFetch c]\<rparr>))"
  using assms
  by (simp add: gw_on_submit_def addProductsToCart_start_def handler_defs
                gw_items_def gw_quantity_value_def gw_gift_properties_def Let_def
                js_truthy_str_def js_truthy_opt_def)

lemma gw_submit_valid_call:
  assumes "gw_flags s = [False]" "gw_checked s"
      and "gw_variant_id s \<noteq> []" "gw_to s = Some t" "js_trim t \<noteq> []"
      and "gw_main_id s = Some m" "m \<noteq> []"
  shows "gw_submit s =
           (let c = json_post ''/cart/add.js'' [(''items'', gw_items s m (gw_variant_id s) (js_trim t))]
            in (gw_hideError s)\<lparr>gw_flags := [True], gw_pending := gw_pending s @ [(0, c)],
                                gw_log := gw_log s @ [GwFetch c]\<rparr>)"
  using assms gw_on_submit_valid [of 0 s t m] by (simp add: gw_submit_single Let_def)

lemma gw_items_json:
  "json_members [(''items'', gw_items s m g to)] =
     [(''items'', JArr
        [JObj [(''id'', js_num_json (js_parseInt m)),
               (''quantity'', js_num_json (js_parseInt
                   (case gw_quantity s of Some q \<Rightarrow> if q = [] then ''1'' else q | None \<Rightarrow> ''1'')))],
         JObj [(''id'', js_num_json (js_parseInt g)), (''quantity'', JNum 1),
               (''properties'', JObj
                  ([(''_GiftWrap'', JStr ''Yes'')] @
                   (case gw_handle s of None \<Rightarrow> [] | Some h \<Rightarrow> [(''_MainProductHandle'', JStr h)]) @
                   [(''To'', JStr to),
                    (''From'', JStr (case gw_from s of None \<Rightarrow> [] | Some v \<Rightarrow> js_trim v)),
                    (''Message'', JStr (case gw_message s of None \<Rightarrow> [] | Some v \<Rightarrow> js_trim v))]))]])]"
  by (simp add: gw_items_def gw_gift_properties_def gw_quantity_value_def gw_trimmed_or_empty_def
                js_opt_string_def js_truthy_str_def
           split: option.splits)

text \<open>
  C1: a checked submission of a valid form is replaced by exactly one request.
  With one idle instance, a configured gift-wrap variant, a recipient that is not blank
  after trimming and a main variant id in the form, the submit listener hides the error,
  sets \<open>isAddingGiftWrap\<close>, records one \<open>POST /cart/add.js\<close> and nothing else, and
  the request body is \<open>{items: [main, gift]}\<close>: the main product with the parsed variant
  id and quantity (1 when the quantity input is empty or absent), and the gift-wrap
  product with quantity 1 and the properties \<open>_GiftWrap = Yes\<close>, the product handle
  when the form has one, and the trimmed recipient, sender and message.
\<close>

theorem gw_submit_sends_one_add:
  assumes "gw_flags s = [False]" "gw_checked s"
      and "gw_variant_id s \<noteq> []" "gw_to s = Some t" "js_trim t \<noteq> []"
      and "gw_main_id s = Some m" "m \<noteq> []"
  shows "\<exists>c. gw_submit s =
             s\<lparr>gw_error_text := [], gw_error_display := ''none'', gw_flags := [True],
               gw_pending := gw_pending s @ [(0, c)], gw_log := gw_log s @ [GwFetch c]\<rparr>
           \<and> fc_url c = ''/cart/add.js'' \<and> fc_method c = ''POST''
           \<and> fc_body c = JObj [(''items'', JArr
                [JObj [(''id'', js_num_json (js_parseInt m)),
                       (''quantity'', js_num_json (js_parseInt
                          (case gw_quantity s of Some q \<Rightarrow> if q = [] then ''1'' else q | None \<Rightarrow> ''1'')))],
                 JObj [(''id'', js_num_json (js_parseInt (gw_variant_id s))), (''quantity'', JNum 1),
                       (''properties'', JObj
                          ([(''_GiftWrap'', JStr ''Yes'')] @
                           (case gw_handle s of None \<Rightarrow> [] | Some h \<Rightarrow> [(''_MainProductHandle'', JStr h)]) @
                           [(''To'', JStr (js_trim t)),
                            (''From'', JStr (case gw_from s of None \<Rightarrow> [] | Some v \<Rightarrow> js_trim v)),
                            (''Message'', JStr (case gw_message s of None \<Rightarrow> [] | Some v \<Rightarrow> js_trim v))]))]])]"
proof -
  let ?c = "json_post ''/cart/add.js'' [(''items'', gw_items s m (gw_variant_id s) (js_trim t))]"
  have sub: "gw_submit s =
             s\<lparr>gw_error_text := [], gw_error_display := ''none'', gw_flags := [True],
               gw_pending := gw_pending s @ [(0, ?c)], gw_log := gw_log s @ [GwFetch ?c]\<rparr>"
    using gw_submit_valid_call [OF assms] by (simp add: Let_def handler_defs)
  show ?thesis
    by (rule exI [of _ ?c], simp only: sub)
       (simp add: json_post_def gw_items_json del: json_members.simps)
qed

text \<open>
  C5: a recipient that is empty or whitespace only stops the submission. No
  request is sent, the form is not submitted, the recipient-required message is shown,
  the recipient field gets the focus and the guard is released for the next attempt.
\<close>

theorem gw_submit_blank_recipient:
  assumes "gw_flags s = [False]" "gw_checked s" "gw_variant_id s \<noteq> []"
      and "gw_to s = Some t" "\<forall>c \<in> set t. js_ws c"
  shows "gw_submit s =
           s\<lparr>gw_error_text := ''Please enter recipient'' @ [CHR 0x27] @ ''s name'',
             gw_error_display := ''block'', gw_focus_to := True\<rparr>"
proof -
  have "js_trim t = []" using assms(5) by (simp add: js_trim_empty_iff)
  then show ?thesis using assms
    by (simp add: gw_submit_single gw_on_submit_def addProductsToCart_start_def handler_defs
                  gw_error_message_def Let_def js_truthy_str_def js_truthy_opt_def)
qed

text \<open>
  C6: a failed add request (network error or a status outside 200..299) shows
  the generic failure message, forgets the request and releases the guard, so that the
  shopper can submit again; nothing else is logged.
\<close>

theorem gw_respond_failure_releases:
  assumes "gw_pending s = [(0, c)]" "gw_flags s = [True]" "\<not> response_ok r"
  shows "gw_respond 0 r s =
           s\<lparr>gw_pending := [], gw_error_text := ''Could not add products to cart. Please try again.'',
             gw_error_display := ''block'', gw_flags := [False]\<rparr>"
  using assms
  by (auto simp: gw_respond_def addProductsToCart_finish_def response_ok_def remove_nth_def
                 handler_defs gw_error_message_def js_truthy_str_def Let_def
           split: fetch_response.splits)

text \<open>
  C7: a successful add request whose body is a JSON object navigates to
  \<open>/cart\<close> when its \<open>status\<close> member (the last one, as \<open>JSON.parse\<close> keeps it) is
  303, and otherwise broadcasts \<open>cart:updated\<close>; the guard stays set.
\<close>

theorem gw_respond_success_keeps_guard:
  assumes "gw_pending s = [(0, c)]" "gw_flags s = [True]" "http_ok st"
  shows "gw_respond 0 (HttpResponse st (Some (JObj ms))) s =
           s\<lparr>gw_pending := [],
             gw_log := gw_log s @ [if map_of (rev ms) ''status'' = Some (JNum 303)
                                   then GwNavigate ''/cart'' else GwDispatch ''cart:updated'']\<rparr>"
  using assms
  by (simp add: gw_respond_def addProductsToCart_finish_def remove_nth_def json_get_def Let_def)

text \<open>
  C11: a 2xx response whose body is not JSON, or is the JSON value \<open>null\<close>
  (whose \<open>status\<close> member throws a \<open>TypeError\<close>), is reported as a failure and
  releases the guard, although the cart accepted the items.
\<close>

theorem gw_respond_ok_unreadable_body_fails:
  assumes "gw_pending s = [(0, c)]" "gw_flags s = [True]" "http_ok st"
      and "body = None \<or> body = Some JNull"
  shows "gw_respond 0 (HttpResponse st body) s =
           s\<lparr>gw_pending := [], gw_error_text := ''Could not add products to cart. Please try again.'',
             gw_error_display := ''block'', gw_flags := [False]\<rparr>"
  using assms
  by (auto simp: gw_respond_def addProductsToCart_finish_def remove_nth_def json_get_def
                 handler_defs gw_error_message_def js_truthy_str_def Let_def)

text \<open>
  C8: unchecking the gift-wrap box collapses the field group, empties the
  recipient, sender and message fields that are on the page, and hides the error,
  however many instances listen to the checkbox.
\<close>

theorem gw_uncheck_clears_fields:
  assumes "gw_flags s \<noteq> []"
  shows "gw_to (gw_change False s) = map_option (\<lambda>_. []) (gw_to s)
       \<and> gw_from (gw_change False s) = map_option (\<lambda>_. []) (gw_from s)
       \<and> gw_message (gw_change False s) = map_option (\<lambda>_. []) (gw_message s)
       \<and> gw_error_text (gw_change False s) = [] \<and> gw_error_display (gw_change False s) = ''none''
       \<and> gw_fields_display (gw_change False s) = ''none'' \<and> \<not> gw_checked (gw_change False s)"
  using assms by (simp add: gw_change_def gw_setExpanded_funpow handler_defs)

text \<open>
  C10: \<open>initializeGiftWrap\<close> runs on \<open>DOMContentLoaded\<close> and again on every
  \<open>shopify:section:load\<close>. When it runs twice on the same product form, each run
  attaches a submit listener with its own \<open>isAddingGiftWrap\<close> flag, and one valid
  submission sends two \<open>/cart/add.js\<close> requests.
\<close>

theorem gw_double_init_double_add:
  assumes "gw_elements_found s" "gw_flags s = []" "gw_checked s"
      and "gw_variant_id s \<noteq> []" "gw_to s = Some t" "js_trim t \<noteq> []"
      and "gw_main_id s = Some m" "m \<noteq> []"
  shows "length (filter gw_is_fetch (gw_log (gw_submit (initializeGiftWrap (initializeGiftWrap s)))))
           = length (filter gw_is_fetch (gw_log s)) + 2"
proof -
  let ?s2 = "initializeGiftWrap (initializeGiftWrap s)"
  have s2: "gw_flags ?s2 = [False, False]" "gw_checked ?s2" "gw_variant_id ?s2 = gw_variant_id s"
    "gw_to ?s2 = gw_to s" "gw_main_id ?s2 = gw_main_id s" "gw_log ?s2 = gw_log s"
    "gw_elements_found ?s2"
    using assms by (simp_all add: initializeGiftWrap_def handler_defs Let_def gw_elements_found_def)
  have "[0..<length (gw_flags ?s2)] = [0, 1]" using s2 by (simp add: upt_rec)
  then show ?thesis using s2 assms
    by (simp add: gw_submit_def gw_on_submit_valid Let_def gw_is_fetch_def handler_defs)
qed

subsection \<open>Witnesses\<close>

lemma gw_reachable_run: "gw_reachable s \<Longrightarrow> gw_reachable (gw_run s es)"
proof (induction es arbitrary: s)
  case Nil
  then show ?case by (simp add: gw_run_def)
next
  case (Cons e es)
  then show ?case by (simp add: gw_run_def gw_reachable.step)
qed

lemma gw_example_reachable: "gw_reachable gw_example_page"
  by (rule gw_reachable.page) (simp_all add: gw_example_page_def)

theorem gw_submit_sends_one_add_witness:
  "\<exists>c. gw_submit (gw_example_page\<lparr>gw_checked := True, gw_flags := [False], gw_to := Some '' Alice ''\<rparr>) =
        gw_example_page\<lparr>gw_checked := True, gw_to := Some '' Alice '', gw_error_text := [],
          gw_error_display := ''none'', gw_flags := [True], gw_pending := [(0, c)], gw_log := [GwFetch c]\<rparr>
      \<and> fc_url c = ''/cart/add.js'' \<and> fc_method c = ''POST''
      \<and> fc_body c = JObj [(''items'', JArr
           [JObj [(''id'', JNum 123), (''quantity'', JNum 1)],
            JObj [(''id'', JNum 4001), (''quantity'', JNum 1),
                  (''properties'', JObj [(''_GiftWrap'', JStr ''Yes''), (''To'', JStr ''Alice''),
                                         (''From'', JStr []), (''Message'', JStr [])])]])]"
proof -
  let ?s = "gw_example_page\<lparr>gw_checked := True, gw_flags := [False], gw_to := Some '' Alice ''\<rparr>"
  have ev: "js_trim '' Alice '' = ''Alice''" "js_trim [] = []" "js_parseInt ''123'' = Num 123"
    "js_parseInt ''4001'' = Num 4001" "js_parseInt ''1'' = Num 1"
    by code_simp+
  have "\<exists>c. gw_submit ?s =
             ?s\<lparr>gw_error_text := [], gw_error_display := ''none'', gw_flags := [True],
               gw_pending := gw_pending ?s @ [(0, c)], gw_log := gw_log ?s @ [GwFetch c]\<rparr>
           \<and> fc_url c = ''/cart/add.js'' \<and> fc_method c = ''POST''
           \<and> fc_body c = JObj [(''items'', JArr
                [JObj [(''id'', js_num_json (js_parseInt ''123'')),
                       (''quantity'', js_num_json (js_parseInt
                          (case gw_quantity ?s of Some q \<Rightarrow> if q = [] then ''1'' else q | None \<Rightarrow> ''1'')))],
                 JObj [(''id'', js_num_json (js_parseInt (gw_variant_id ?s))), (''quantity'', JNum 1),
                       (''properties'', JObj
                          ([(''_GiftWrap'', JStr ''Yes'')] @
                           (case gw_handle ?s of None \<Rightarrow> [] | Some h \<Rightarrow> [(''_MainProductHandle'', JStr h)]) @
                           [(''To'', JStr (js_trim '' Alice '')),
                            (''From'', JStr (case gw_from ?s of None \<Rightarrow> [] | Some v \<Rightarrow> js_trim v)),
                            (''Message'', JStr (case gw_message ?s of None \<Rightarrow> [] | Some v \<Rightarrow> js_trim v))]))]])]"
    by (rule gw_submit_sends_one_add) (simp_all add: gw_example_page_def ev)
  then show ?thesis by (simp add: gw_example_page_def ev)
qed

theorem gw_submit_blank_recipient_witness:
  "gw_submit (gw_example_page\<lparr>gw_checked := True, gw_flags := [False], gw_to := Some '' \<newline> ''\<rparr>) =
     gw_example_page\<lparr>gw_checked := True, gw_flags := [False], gw_to := Some '' \<newline> '',
       gw_error_text := ''Please enter recipient'' @ [CHR 0x27] @ ''s name'',
       gw_error_display := ''block'', gw_focus_to := True\<rparr>"
  using gw_submit_blank_recipient
          [of "gw_example_page\<lparr>gw_checked := True, gw_flags := [False], gw_to := Some '' \<newline> ''\<rparr>"
              "'' \<newline> ''"]
  by (simp add: gw_example_page_def js_ws_def)

theorem gw_respond_failure_releases_witness:
  "gw_respond 0 (HttpResponse 500 None)
     (gw_example_page\<lparr>gw_flags := [True], gw_pending := [(0, gw_example_call)]\<rparr>) =
   gw_example_page\<lparr>gw_flags := [False], gw_pending := [],
     gw_error_text := ''Could not add products to cart. Please try again.'', gw_error_display := ''block''\<rparr>"
  using gw_respond_failure_releases
          [of "gw_example_page\<lparr>gw_flags := [True], gw_pending := [(0, gw_example_call)]\<rparr>"
              gw_example_call "HttpResponse 500 None"]
  by (simp add: response_ok_def http_ok_def)

theorem gw_respond_success_keeps_guard_witness:
  "gw_respond 0 (HttpResponse 200 (Some (JObj [(''status'', JNum 303)])))
     (gw_example_page\<lparr>gw_flags := [True], gw_pending := [(0, gw_example_call)]\<rparr>) =
   gw_example_page\<lparr>gw_flags := [True], gw_pending := [], gw_log := [GwNavigate ''/cart'']\<rparr>"
  using gw_respond_success_keeps_guard
          [of "gw_example_page\<lparr>gw_flags := [True], gw_pending := [(0, gw_example_call)]\<rparr>"
              gw_example_call 200 "[(''status'', JNum 303)]"]
  by (simp add: http_ok_def gw_example_page_def)

theorem gw_respond_ok_unreadable_body_fails_witness:
  "gw_respond 0 (HttpResponse 200 (Some JNull))
     (gw_example_page\<lparr>gw_flags := [True], gw_pending := [(0, gw_example_call)]\<rparr>) =
   gw_example_page\<lparr>gw_flags := [False], gw_pending := [],
     gw_error_text := ''Could not add products to cart. Please try again.'', gw_error_display := ''block''\<rparr>"
  using gw_respond_ok_unreadable_body_fails
          [of "gw_example_page\<lparr>gw_flags := [True], gw_pending := [(0, gw_example_call)]\<rparr>"
              gw_example_call 200 "Some JNull"]
  by (simp add: http_ok_def)

theorem gw_uncheck_clears_fields_witness:
  "gw_to (gw_change False (gw_example_page\<lparr>gw_checked := True, gw_flags := [False], gw_to := Some ''Bob''\<rparr>))
     = Some [] \<and>
   gw_error_display (gw_change False (gw_example_page\<lparr>gw_checked := True, gw_flags := [False],
     gw_to := Some ''Bob''\<rparr>)) = ''none''"
  using gw_uncheck_clears_fields
          [of "gw_example_page\<lparr>gw_checked := True, gw_flags := [False], gw_to := Some ''Bob''\<rparr>"]
  by simp

theorem gw_double_init_double_add_witness:
  "length (filter gw_is_fetch (gw_log (gw_submit (initializeGiftWrap (initializeGiftWrap
     (gw_example_page\<lparr>gw_checked := True, gw_to := Some ''Alice''\<rparr>)))))) = 2"
proof -
  have "js_trim ''Alice'' = ''Alice''" by code_simp
  then show ?thesis
    using gw_double_init_double_add
            [of "gw_example_page\<lparr>gw_checked := True, gw_to := Some ''Alice''\<rparr>" "''Alice''" "''123''"]
    by (simp add: gw_example_page_def gw_elements_found_def)
qed

theorem gw_submit_unchecked_native_witness:
  "gw_submit (gw_example_page\<lparr>gw_flags := [False]\<rparr>) =
     gw_example_page\<lparr>gw_flags := [False], gw_log := [GwNativeSubmit]\<rparr>"
  using gw_submit_unchecked_native [of "gw_example_page\<lparr>gw_flags := [False]\<rparr>"]
  by (simp add: gw_example_page_def)

theorem gw_submit_while_adding_native_witness:
  "gw_submit (gw_example_page\<lparr>gw_checked := True, gw_flags := [True], gw_to := Some ''Alice''\<rparr>) =
     gw_example_page\<lparr>gw_checked := True, gw_flags := [True], gw_to := Some ''Alice'',
       gw_log := [GwNativeSubmit]\<rparr>"
  using gw_submit_while_adding_native
          [of "gw_example_page\<lparr>gw_checked := True, gw_flags := [True], gw_to := Some ''Alice''\<rparr>"]
  by (simp add: gw_example_page_def)

theorem gw_at_most_one_per_instance_witness:
  "gw_reachable (gw_run gw_example_page gw_example_run) \<and>
   length (filter (\<lambda>p. fst p = 0) (gw_pending (gw_run gw_example_page gw_example_run))) \<le> 1"
  using gw_at_most_one_per_instance [OF gw_reachable_run [OF gw_example_reachable, of gw_example_run], of 0]
        gw_reachable_run [OF gw_example_reachable, of gw_example_run]
  by simp

theorem gw_single_instance_one_in_flight_witness:
  "gw_reachable (gw_run gw_example_page gw_example_run) \<and>
   length (gw_flags (gw_run gw_example_page gw_example_run)) \<le> 1 \<and>
   length (gw_pending (gw_run gw_example_page gw_example_run)) = 1"
proof -
  have run: "gw_flags (gw_run gw_example_page gw_example_run) = [True]"
    "length (gw_pending (gw_run gw_example_page gw_example_run)) = 1"
    by code_simp+
  have r: "gw_reachable (gw_run gw_example_page gw_example_run)"
    by (rule gw_reachable_run [OF gw_example_reachable])
  have "length (gw_pending (gw_run gw_example_page gw_example_run)) \<le> 1"
    using gw_single_instance_one_in_flight [OF r] run by simp
  then show ?thesis using r run by simp
qed

end
