(* ===== verification/InlineEditor.thy ===== *)
theory InlineEditor
  imports JsRuntime
begin

text \<open>
  The post-add editor on the cart page, the part of \<open>src/assets/cart-gift-wrap-inline.js\<close>
  (class \<open>GiftWrapInlineEditor\<close>) that works on cart lines by their item key:
  \<open>updateGiftWrap\<close>, \<open>removeGiftWrap\<close>, \<open>cancelGiftWrap\<close>, the helpers they call
  (\<open>getGiftWrapFields\<close>, \<open>setLoadingState\<close>, \<open>showSuccess\<close>, \<open>showError\<close>,
  \<open>showFieldError\<close>, \<open>clearErrors\<close>, \<open>refreshCartUI\<close>) and the delegated
  listeners of the cart section (\<open>bindEvents\<close>, \<open>handleCartSectionClick\<close>,
  \<open>handleCartSectionChange\<close>).

  The DOM is a set of maps keyed by item key, as the code finds elements by
  \<open>[data-item-key="K"]\<close>, \<open>[data-gift-wrap-editor-row="K"]\<close> and
  \<open>[data-gift-wrap-toggle-inline="K"]\<close>. The record \<open>ie_state\<close> is extended by the
  drawer theory, so the helpers shared by both (button loading state, success feedback,
  cart refresh) are defined once, on \<open>'a ie_state_scheme\<close>. Time is explicit:
  \<open>setTimeout\<close> adds a timer with its due time, and a \<open>tick\<close> fires the timers that
  fall due, earliest first and in scheduling order among equals.
\<close>

subsection \<open>Data\<close>

record field_el =
  fe_value :: string
  fe_error :: bool
  fe_in_row :: bool

record button_el =
  bt_disabled :: bool
  bt_loading :: bool
  bt_text :: string
  bt_original :: "string option"
  bt_background :: string

record error_el =
  er_text :: string
  er_show :: bool

record row_el =
  row_error :: "error_el option"
  row_has_actions :: bool

datatype field_name = NameTo | NameFrom | NameMessage

datatype button_ref = PageButton item_key | DrawerButton item_key

datatype ie_timer =
    HideRowError item_key
  | RestoreButton button_ref string
  | HideDrawerError item_key

datatype ie_cont = UpdateCont item_key | RemoveCont item_key

datatype ie_effect = IeFetch fetch_call | IeGetCart | IeReload | IeRenderDrawer

record gw_fields =
  gf_to :: string
  gf_from :: string
  gf_message :: string

record ie_state =
  ie_to :: "item_key \<rightharpoonup> field_el"
  ie_from :: "item_key \<rightharpoonup> field_el"
  ie_message :: "item_key \<rightharpoonup> field_el"
  ie_focus :: "(item_key \<times> field_name) option"
  ie_rows :: "item_key \<rightharpoonup> row_el"
  ie_toggles :: "item_key \<rightharpoonup> bool"
  ie_buttons :: "button_ref \<rightharpoonup> button_el"
  ie_cart_api :: bool
  ie_has_section :: bool
  ie_section_bound :: nat
  ie_now :: nat
  ie_timers :: "(nat \<times> ie_timer) list"
  ie_pending :: "(ie_cont \<times> fetch_call) list"
  ie_log :: "ie_effect list"

subsection \<open>Helpers shared with the drawer\<close>

definition set_loading :: "bool \<Rightarrow> button_el \<Rightarrow> button_el" where
  \<comment> \<open>\<open>setLoadingState(button, loading)\<close> on one button\<close>
  "set_loading loading b =
     (if loading
      then b\<lparr>bt_disabled := True, bt_loading := True, bt_original := Some (bt_text b),
             bt_text := ''Updating...''\<rparr>
      else b\<lparr>bt_disabled := False, bt_loading := False,
             bt_text := (case bt_original b of Some t \<Rightarrow> if js_truthy_str t then t else ''Update''
                         | None \<Rightarrow> ''Update'')\<rparr>)"

definition setLoadingState :: "button_ref \<Rightarrow> bool \<Rightarrow> 'a ie_state_scheme \<Rightarrow> 'a ie_state_scheme" where
  "setLoadingState r loading s =
     s\<lparr>ie_buttons := (ie_buttons s)(r := map_option (set_loading loading) (ie_buttons s r))\<rparr>"

definition schedule :: "nat \<Rightarrow> ie_timer \<Rightarrow> 'a ie_state_scheme \<Rightarrow> 'a ie_state_scheme" where
  \<comment> \<open>\<open>setTimeout(callback, delay)\<close>\<close>
  "schedule delay t s = s\<lparr>ie_timers := ie_timers s @ [(ie_now s + delay, t)]\<rparr>"

definition success_background :: string where
  "success_background = ''rgb(var(--color-success, 40, 167, 69))''"

definition showSuccess :: "button_ref \<Rightarrow> 'a ie_state_scheme \<Rightarrow> 'a ie_state_scheme" where
  "showSuccess r s =
     (case ie_buttons s r of
        None \<Rightarrow> s
      | Some b \<Rightarrow>
          let originalText = (case bt_original b of Some t \<Rightarrow> if js_truthy_str t then t else ''Update''
                              | None \<Rightarrow> ''Update'')
          in schedule 2000 (RestoreButton r originalText)
               (s\<lparr>ie_buttons := (ie_buttons s)(r \<mapsto> b\<lparr>bt_text := ''Updated!'',
                                                       bt_background := success_background\<rparr>)\<rparr>))"

definition refreshCartUI :: "'a ie_state_scheme \<Rightarrow> 'a ie_state_scheme" where
  "refreshCartUI s = s\<lparr>ie_log := ie_log s @ [if ie_cart_api s then IeGetCart else IeReload]\<rparr>"

definition send :: "ie_cont \<Rightarrow> fetch_call \<Rightarrow> 'a ie_state_scheme \<Rightarrow> 'a ie_state_scheme" where
  \<comment> \<open>\<open>await fetch(...)\<close>: the request is logged and the handler waits for its response\<close>
  "send k c s = s\<lparr>ie_pending := ie_pending s @ [(k, c)], ie_log := ie_log s @ [IeFetch c]\<rparr>"

subsection \<open>Cart page helpers\<close>

definition field_map :: "field_name \<Rightarrow> 'a ie_state_scheme \<Rightarrow> item_key \<rightharpoonup> field_el" where
  "field_map n s = (case n of NameTo \<Rightarrow> ie_to s | NameFrom \<Rightarrow> ie_from s | NameMessage \<Rightarrow> ie_message s)"

definition update_field_map ::
  "field_name \<Rightarrow> (item_key \<rightharpoonup> field_el) \<Rightarrow> 'a ie_state_scheme \<Rightarrow> 'a ie_state_scheme" where
  "update_field_map n m s =
     (case n of NameTo \<Rightarrow> s\<lparr>ie_to := m\<rparr> | NameFrom \<Rightarrow> s\<lparr>ie_from := m\<rparr>
      | NameMessage \<Rightarrow> s\<lparr>ie_message := m\<rparr>)"

definition field_text :: "field_el option \<Rightarrow> string" where
  \<comment> \<open>\<open>field ? field.value.trim() : ''\<close>\<close>
  "field_text f = (case f of None \<Rightarrow> [] | Some e \<Rightarrow> js_trim (fe_value e))"

definition getGiftWrapFields :: "item_key \<Rightarrow> 'a ie_state_scheme \<Rightarrow> gw_fields" where
  "getGiftWrapFields k s =
     \<lparr>gf_to = field_text (ie_to s k), gf_from = field_text (ie_from s k),
      gf_message = field_text (ie_message s k)\<rparr>"

definition showError :: "item_key \<Rightarrow> string \<Rightarrow> 'a ie_state_scheme \<Rightarrow> 'a ie_state_scheme" where
  \<comment> \<open>an error element created but never attached (no row, or a row without its actions
      block) changes nothing visible, and neither does its timer\<close>
  "showError k msg s =
     (case ie_rows s k of
        None \<Rightarrow> s
      | Some row \<Rightarrow>
          if row_error row = None \<and> \<not> row_has_actions row then s
          else schedule 5000 (HideRowError k)
                 (s\<lparr>ie_rows := (ie_rows s)(k \<mapsto> row\<lparr>row_error := Some \<lparr>er_text = msg, er_show = True\<rparr>\<rparr>)\<rparr>))"

definition showFieldError ::
  "item_key \<Rightarrow> field_name \<Rightarrow> string \<Rightarrow> 'a ie_state_scheme \<Rightarrow> 'a ie_state_scheme" where
  "showFieldError k n msg s =
     showError k msg
       (case field_map n s k of
          None \<Rightarrow> s
        | Some f \<Rightarrow> (update_field_map n ((field_map n s)(k \<mapsto> f\<lparr>fe_error := True\<rparr>)) s)
                      \<lparr>ie_focus := Some (k, n)\<rparr>)"

definition clear_in_row :: "field_el option \<Rightarrow> field_el option" where
  "clear_in_row f = map_option (\<lambda>e. if fe_in_row e then e\<lparr>fe_error := False\<rparr> else e) f"

definition clearErrors :: "item_key \<Rightarrow> 'a ie_state_scheme \<Rightarrow> 'a ie_state_scheme" where
  "clearErrors k s =
     (case ie_rows s k of
        None \<Rightarrow> s
      | Some row \<Rightarrow>
          s\<lparr>ie_to := (ie_to s)(k := clear_in_row (ie_to s k)),
            ie_from := (ie_from s)(k := clear_in_row (ie_from s k)),
            ie_message := (ie_message s)(k := clear_in_row (ie_message s k)),
            ie_rows := (ie_rows s)(k \<mapsto> row\<lparr>row_error :=
                          map_option (\<lambda>e. e\<lparr>er_show := False\<rparr>) (row_error row)\<rparr>)\<rparr>)"

subsection \<open>updateGiftWrap, removeGiftWrap, cancelGiftWrap\<close>

definition change_properties_call :: "item_key \<Rightarrow> gw_fields \<Rightarrow> fetch_call" where
  "change_properties_call k f =
     json_post ''/cart/change.js''
       [(''id'', JsString k),
        (''properties'', JsObject [(''_GiftWrap'', JsString ''Yes''), (''To'', JsString (gf_to f)),
                                   (''From'', JsString (gf_from f)),
                                   (''Message'', JsString (gf_message f))])]"

definition remove_call :: "jsval \<Rightarrow> fetch_call" where
  \<comment> \<open>\<open>{id: itemKey, quantity: 0}\<close>; an \<open>undefined\<close> key is dropped by
      \<open>JSON.stringify\<close>\<close>
  "remove_call k = json_post ''/cart/change.js'' [(''id'', k), (''quantity'', JsNumber (Num 0))]"

text \<open>
  \<open>updateGiftWrap(itemKey, updateButton)\<close> up to its \<open>await fetch\<close> (lines 84--118).
  The early \<open>return\<close> of the validation runs the \<open>finally\<close> block, which clears the
  loading state of a button that was never set loading.
\<close>

definition updateGiftWrap_start :: "item_key \<Rightarrow> 'a ie_state_scheme \<Rightarrow> 'a ie_state_scheme" where
  "updateGiftWrap_start k s =
     (let fields = getGiftWrapFields k s in
      if \<not> js_truthy_str (js_trim (gf_to fields))
      then setLoadingState (PageButton k) False
             (showFieldError k NameTo ''Recipient name is required'' s)
      else send (UpdateCont k) (change_properties_call k fields)
             (clearErrors k (setLoadingState (PageButton k) True s)))"

text \<open>
  The rest of \<open>updateGiftWrap\<close>, run with the response (lines 120--137): a non-2xx
  status, a rejected fetch and a body that is not JSON reach the \<open>catch\<close>.
\<close>

definition updateGiftWrap_finish ::
  "item_key \<Rightarrow> fetch_response \<Rightarrow> 'a ie_state_scheme \<Rightarrow> 'a ie_state_scheme" where
  "updateGiftWrap_finish k r s =
     setLoadingState (PageButton k) False
       (case r of
          HttpResponse st (Some _) \<Rightarrow>
            if http_ok st then refreshCartUI (showSuccess (PageButton k) s)
            else showError k ''Failed to update gift wrap. Please try again.'' s
        | _ \<Rightarrow> showError k ''Failed to update gift wrap. Please try again.'' s)"

definition removeGiftWrap_start :: "jsval \<Rightarrow> 'a ie_state_scheme \<Rightarrow> 'a ie_state_scheme" where
  "removeGiftWrap_start k s =
     send (RemoveCont (js_to_string k)) (remove_call k) s"

definition removeGiftWrap_finish ::
  "item_key \<Rightarrow> fetch_response \<Rightarrow> 'a ie_state_scheme \<Rightarrow> 'a ie_state_scheme" where
  \<comment> \<open>on failure the toggle of the line, when there is one, is checked again\<close>
  "removeGiftWrap_finish k r s =
     (if response_ok r then refreshCartUI s
      else s\<lparr>ie_toggles := (ie_toggles s)(k := map_option (\<lambda>_. True) (ie_toggles s k))\<rparr>)"

definition cancelGiftWrap :: "item_key \<Rightarrow> 'a ie_state_scheme \<Rightarrow> 'a ie_state_scheme" where
  "cancelGiftWrap k s = removeGiftWrap_start (JsString k) s"

subsection \<open>The cart section's listeners\<close>

record click_target =
  ct_update :: "item_key option"
  ct_cancel :: "item_key option"

definition handleCartSectionClick ::
  "click_target \<Rightarrow> 'a ie_state_scheme \<Rightarrow> 'a ie_state_scheme" where
  \<comment> \<open>two independent \<open>if\<close>s: a target with both attributes runs both operations\<close>
  "handleCartSectionClick t s =
     (let s1 = (case ct_update t of Some k \<Rightarrow> updateGiftWrap_start k s | None \<Rightarrow> s)
      in case ct_cancel t of Some k \<Rightarrow> cancelGiftWrap k s1 | None \<Rightarrow> s1)"

definition handleCartSectionChange ::
  "item_key \<Rightarrow> bool \<Rightarrow> 'a ie_state_scheme \<Rightarrow> 'a ie_state_scheme" where
  "handleCartSectionChange k checked s =
     (if \<not> checked then removeGiftWrap_start (JsString k) s else s)"

subsection \<open>Timers and responses\<close>

definition fire_page_timer :: "ie_timer \<Rightarrow> 'a ie_state_scheme \<Rightarrow> 'a ie_state_scheme" where
  "fire_page_timer t s =
     (case t of
        HideRowError k \<Rightarrow>
          (case ie_rows s k of
             None \<Rightarrow> s
           | Some row \<Rightarrow> s\<lparr>ie_rows := (ie_rows s)(k \<mapsto> row\<lparr>row_error :=
                          map_option (\<lambda>e. e\<lparr>er_show := False\<rparr>) (row_error row)\<rparr>)\<rparr>)
      | RestoreButton r txt \<Rightarrow>
          s\<lparr>ie_buttons := (ie_buttons s)(r := map_option (\<lambda>b. b\<lparr>bt_text := txt, bt_background := []\<rparr>)
                                                (ie_buttons s r))\<rparr>
      | HideDrawerError k \<Rightarrow> s)"

text \<open>
  Time passes by \<open>d\<close> milliseconds: the timers due by then fire, earliest first and, among
  timers due at the same time, in the order they were set. \<open>fire\<close> runs one callback.
\<close>

definition tick ::
  "(ie_timer \<Rightarrow> 'a ie_state_scheme \<Rightarrow> 'a ie_state_scheme) \<Rightarrow> nat \<Rightarrow> 'a ie_state_scheme \<Rightarrow> 'a ie_state_scheme" where
  "tick fire d s =
     (let now' = ie_now s + d;
          due = sort_key fst (filter (\<lambda>p. fst p \<le> now') (ie_timers s));
          s1 = s\<lparr>ie_now := now', ie_timers := filter (\<lambda>p. \<not> fst p \<le> now') (ie_timers s)\<rparr>
      in foldl (\<lambda>s' p. fire (snd p) s') s1 due)"

definition ie_resume :: "ie_cont \<Rightarrow> fetch_response \<Rightarrow> 'a ie_state_scheme \<Rightarrow> 'a ie_state_scheme" where
  "ie_resume c r s =
     (case c of UpdateCont k \<Rightarrow> updateGiftWrap_finish k r s | RemoveCont k \<Rightarrow> removeGiftWrap_finish k r s)"

definition respond :: "nat \<Rightarrow> fetch_response \<Rightarrow> 'a ie_state_scheme \<Rightarrow> 'a ie_state_scheme" where
  "respond i r s =
     (if i < length (ie_pending s)
      then ie_resume (fst (ie_pending s ! i)) r (s\<lparr>ie_pending := remove_nth i (ie_pending s)\<rparr>)
      else s)"

subsection \<open>Events on the cart page\<close>

datatype ie_event =
    IeSectionLoad
  | IeClick click_target
  | IeToggle item_key bool
  | IeInput item_key field_name string
  | IeResponse nat fetch_response
  | IeTick nat

definition click_dispatched :: "click_target \<Rightarrow> 'a ie_state_scheme \<Rightarrow> bool" where
  \<comment> \<open>a disabled update button receives no click\<close>
  "click_dispatched t s =
     (case ct_update t of
        None \<Rightarrow> True
      | Some k \<Rightarrow> (case ie_buttons s (PageButton k) of None \<Rightarrow> True | Some b \<Rightarrow> \<not> bt_disabled b))"

definition bindEvents_section :: "'a ie_state_scheme \<Rightarrow> 'a ie_state_scheme" where
  \<comment> \<open>\<open>bindEvents\<close> adds the section's listeners again, without removing the old ones\<close>
  "bindEvents_section s =
     (if ie_has_section s then s\<lparr>ie_section_bound := Suc (ie_section_bound s)\<rparr> else s)"

definition input_field :: "item_key \<Rightarrow> field_name \<Rightarrow> string \<Rightarrow> 'a ie_state_scheme \<Rightarrow> 'a ie_state_scheme" where
  \<comment> \<open>typing; the \<open>input\<close> listener of \<open>showFieldError\<close> removes the error class\<close>
  "input_field k n v s =
     (case field_map n s k of
        None \<Rightarrow> s
      | Some f \<Rightarrow> update_field_map n ((field_map n s)(k \<mapsto> f\<lparr>fe_value := v, fe_error := False\<rparr>)) s)"

definition toggle_line :: "item_key \<Rightarrow> bool \<Rightarrow> 'a ie_state_scheme \<Rightarrow> 'a ie_state_scheme" where
  \<comment> \<open>the shopper sets the inline checkbox, then its \<open>change\<close> event runs the listeners\<close>
  "toggle_line k c s =
     (case ie_toggles s k of
        None \<Rightarrow> s
      | Some _ \<Rightarrow> (handleCartSectionChange k c ^^ ie_section_bound s)
                    (s\<lparr>ie_toggles := (ie_toggles s)(k \<mapsto> c)\<rparr>))"

fun ie_step :: "'a ie_state_scheme \<Rightarrow> ie_event \<Rightarrow> 'a ie_state_scheme" where
  "ie_step s IeSectionLoad = bindEvents_section s"
| "ie_step s (IeClick t) =
     (if click_dispatched t s then (handleCartSectionClick t ^^ ie_section_bound s) s else s)"
| "ie_step s (IeToggle k c) = toggle_line k c s"
| "ie_step s (IeInput k n v) = input_field k n v s"
| "ie_step s (IeResponse i r) = respond i r s"
| "ie_step s (IeTick d) = tick fire_page_timer d s"

definition ie_run :: "ie_state \<Rightarrow> ie_event list \<Rightarrow> ie_state" where
  "ie_run s es = foldl ie_step s es"

definition ie_page_start :: "ie_state \<Rightarrow> bool" where
  \<comment> \<open>the page right after \<open>new GiftWrapInlineEditor()\<close>: listeners bound once when the
      section is there, no request, no timer, every button idle\<close>
  "ie_page_start s \<longleftrightarrow>
     ie_section_bound s = (if ie_has_section s then 1 else 0) \<and> ie_pending s = [] \<and>
     ie_timers s = [] \<and> ie_log s = [] \<and>
     (\<forall>r b. ie_buttons s r = Some b \<longrightarrow> \<not> bt_loading b \<and> \<not> bt_disabled b)"

inductive ie_reachable :: "ie_state \<Rightarrow> bool" where
  start: "ie_page_start s \<Longrightarrow> ie_reachable s"
| step: "ie_reachable s \<Longrightarrow> ie_reachable (ie_step s e)"

subsection \<open>The single-request invariant and its helpers\<close>

abbreviation update_click :: "item_key \<Rightarrow> click_target" where
  "update_click k \<equiv> \<lparr>ct_update = Some k, ct_cancel = None\<rparr>"

abbreviation cancel_click :: "item_key \<Rightarrow> click_target" where
  "cancel_click k \<equiv> \<lparr>ct_update = None, ct_cancel = Some k\<rparr>"

definition page_busy :: "'a ie_state_scheme \<Rightarrow> item_key \<Rightarrow> (bool \<times> bool) option" where
  "page_busy s k = map_option (\<lambda>b. (bt_disabled b, bt_loading b)) (ie_buttons s (PageButton k))"

definition upd_count :: "'a ie_state_scheme \<Rightarrow> item_key \<Rightarrow> nat" where
  "upd_count s k = length (filter (\<lambda>p. fst p = UpdateCont k) (ie_pending s))"

definition ie_update_inv :: "ie_state \<Rightarrow> bool" where
  "ie_update_inv s \<longleftrightarrow> ie_section_bound s \<le> 1 \<longrightarrow>
     (\<forall>k d l. page_busy s k = Some (d, l) \<longrightarrow> d = l \<and> upd_count s k = (if l then 1 else 0))"

text \<open>The body of the invariant, for a state whose listeners are bound at most once.\<close>

definition busy_ok :: "ie_state \<Rightarrow> bool" where
  "busy_ok s \<longleftrightarrow>
     (\<forall>k d l. page_busy s k = Some (d, l) \<longrightarrow> d = l \<and> upd_count s k = (if l then 1 else 0))"

definition restored_text :: "string option \<Rightarrow> string" where
  "restored_text ot = (case ot of Some t \<Rightarrow> if js_truthy_str t then t else ''Update'' | None \<Rightarrow> ''Update'')"

definition ie_example_field :: "string \<Rightarrow> field_el" where
  "ie_example_field v = \<lparr>fe_value = v, fe_error = False, fe_in_row = True\<rparr>"

definition ie_example_button :: button_el where
  "ie_example_button = \<lparr>bt_disabled = False, bt_loading = False, bt_text = ''Save'', bt_original = None,
                        bt_background = []\<rparr>"

definition ie_example_row :: row_el where
  "ie_example_row = \<lparr>row_error = None, row_has_actions = True\<rparr>"

definition ie_example_page :: ie_state where
  "ie_example_page =
     \<lparr>ie_to = [''K1'' \<mapsto> ie_example_field '' Ann ''], ie_from = [''K1'' \<mapsto> ie_example_field ''Bo''],
      ie_message = [''K1'' \<mapsto> ie_example_field ''Happy birthday''], ie_focus = None,
      ie_rows = [''K1'' \<mapsto> ie_example_row], ie_toggles = [''K1'' \<mapsto> True],
      ie_buttons = [PageButton ''K1'' \<mapsto> ie_example_button], ie_cart_api = True,
      ie_has_section = True, ie_section_bound = 1, ie_now = 0, ie_timers = [], ie_pending = [],
      ie_log = []\<rparr>"

definition ie_example_blank :: ie_state where
  "ie_example_blank = ie_example_page\<lparr>ie_to := [''K1'' \<mapsto> ie_example_field ''  '']\<rparr>"

definition ie_example_loading :: ie_state where
  "ie_example_loading = ie_example_page\<lparr>ie_buttons := [PageButton ''K1'' \<mapsto> set_loading True ie_example_button]\<rparr>"

subsection \<open>Lemmas\<close>

lemmas ie_page_defs = setLoadingState_def schedule_def showSuccess_def refreshCartUI_def send_def
  showError_def showFieldError_def clearErrors_def field_map_def update_field_map_def
  getGiftWrapFields_def field_text_def set_loading_def clear_in_row_def

lemma tick_no_due:
  "\<forall>p \<in> set (ie_timers s). ie_now s + d < fst p \<Longrightarrow>
     tick fire d s = s\<lparr>ie_now := ie_now s + d\<rparr>"
proof -
  assume a: "\<forall>p \<in> set (ie_timers s). ie_now s + d < fst p"
  then have "filter (\<lambda>p. fst p \<le> ie_now s + d) (ie_timers s) = []"
    by (auto simp: filter_empty_conv)
  moreover have "filter (\<lambda>p. \<not> fst p \<le> ie_now s + d) (ie_timers s) = ie_timers s"
    using a by (auto simp: filter_id_conv)
  ultimately show ?thesis by (simp add: tick_def)
qed

lemma tick_one_due:
  "ie_timers s = [(t, x)] \<Longrightarrow> t \<le> ie_now s + d \<Longrightarrow>
     tick fire d s = fire x (s\<lparr>ie_now := ie_now s + d, ie_timers := []\<rparr>)"
  by (simp add: tick_def)

lemma ie_update_inv_cong:
  "ie_section_bound s' = ie_section_bound s \<Longrightarrow> page_busy s' = page_busy s \<Longrightarrow>
     upd_count s' = upd_count s \<Longrightarrow> ie_update_inv s' = ie_update_inv s"
  by (simp add: ie_update_inv_def)

lemma page_busy_passive [simp]:
  "page_busy (showError k m s) = page_busy s"
  "page_busy (showFieldError k n m s) = page_busy s"
  "page_busy (clearErrors k s) = page_busy s"
  "page_busy (refreshCartUI s) = page_busy s"
  "page_busy (showSuccess r s) = page_busy s"
  "page_busy (fire_page_timer t s) = page_busy s"
  "page_busy (send c x s) = page_busy s"
  "page_busy (s\<lparr>ie_toggles := tg\<rparr>) = page_busy s"
  "page_busy (s\<lparr>ie_pending := p\<rparr>) = page_busy s"
  "page_busy (input_field k n v s) = page_busy s"
  by (auto simp: page_busy_def showError_def showFieldError_def clearErrors_def refreshCartUI_def
                 showSuccess_def fire_page_timer_def send_def schedule_def input_field_def
                 update_field_map_def field_map_def fun_eq_iff option.map_comp o_def
           split: option.splits ie_timer.splits field_name.splits button_ref.splits)

lemma upd_count_passive [simp]:
  "upd_count (showError k m s) = upd_count s"
  "upd_count (showFieldError k n m s) = upd_count s"
  "upd_count (clearErrors k s) = upd_count s"
  "upd_count (refreshCartUI s) = upd_count s"
  "upd_count (showSuccess r s) = upd_count s"
  "upd_count (fire_page_timer t s) = upd_count s"
  "upd_count (setLoadingState r l s) = upd_count s"
  "upd_count (s\<lparr>ie_toggles := tg\<rparr>) = upd_count s"
  "upd_count (input_field k n v s) = upd_count s"
  "upd_count (send (RemoveCont k) c s) = upd_count s"
  by (auto simp: upd_count_def showError_def showFieldError_def clearErrors_def refreshCartUI_def
                 showSuccess_def fire_page_timer_def send_def schedule_def input_field_def
                 setLoadingState_def update_field_map_def field_map_def fun_eq_iff
           split: option.splits ie_timer.splits field_name.splits)

lemma upd_count_send_update:
  "upd_count (send (UpdateCont k) c s) k' = upd_count s k' + (if k = k' then 1 else 0)"
  by (simp add: upd_count_def send_def)

lemma set_loading_status [simp]:
  "bt_disabled (set_loading l b) = l" "bt_loading (set_loading l b) = l"
  by (simp_all add: set_loading_def)

lemma page_busy_setLoading:
  "page_busy (setLoadingState (PageButton k) l s) =
     (page_busy s)(k := map_option (\<lambda>_. (l, l)) (page_busy s k))"
  by (simp add: page_busy_def setLoadingState_def fun_eq_iff option.map_comp o_def)

lemma ie_section_bound_ops [simp]:
  "ie_section_bound (showError k m s) = ie_section_bound s"
  "ie_section_bound (showFieldError k n m s) = ie_section_bound s"
  "ie_section_bound (clearErrors k s) = ie_section_bound s"
  "ie_section_bound (refreshCartUI s) = ie_section_bound s"
  "ie_section_bound (showSuccess r s) = ie_section_bound s"
  "ie_section_bound (fire_page_timer t s) = ie_section_bound s"
  "ie_section_bound (setLoadingState r l s) = ie_section_bound s"
  "ie_section_bound (send c x s) = ie_section_bound s"
  "ie_section_bound (input_field k n v s) = ie_section_bound s"
  by (auto simp: showError_def showFieldError_def clearErrors_def refreshCartUI_def
                 showSuccess_def fire_page_timer_def send_def schedule_def input_field_def
                 setLoadingState_def update_field_map_def field_map_def
           split: option.splits ie_timer.splits field_name.splits)

lemma ie_update_inv_busy_ok:
  "ie_update_inv s \<longleftrightarrow> (ie_section_bound s \<le> 1 \<longrightarrow> busy_ok s)"
  by (simp add: ie_update_inv_def busy_ok_def)

lemma busy_ok_passive:
  "page_busy s' = page_busy s \<Longrightarrow> upd_count s' = upd_count s \<Longrightarrow> busy_ok s' = busy_ok s"
  by (simp add: busy_ok_def)

lemma busy_ok_setLoading_False:
  "busy_ok s \<Longrightarrow> page_busy s k = None \<or> upd_count s k = 0 \<Longrightarrow>
     busy_ok (setLoadingState (PageButton k) False s)"
  by (auto simp: busy_ok_def page_busy_setLoading)

lemma busy_ok_start_request:
  assumes "busy_ok s" "page_busy s k = None \<or> upd_count s k = 0"
  shows "busy_ok (send (UpdateCont k) c (clearErrors k (setLoadingState (PageButton k) True s)))"
proof -
  let ?s1 = "clearErrors k (setLoadingState (PageButton k) True s)"
  have b: "page_busy ?s1 = (page_busy s)(k := map_option (\<lambda>_. (True, True)) (page_busy s k))"
    by (simp add: page_busy_setLoading)
  have u: "upd_count ?s1 = upd_count s" by simp
  show ?thesis using assms b u
    by (auto simp: busy_ok_def upd_count_send_update)
qed

lemma busy_okD:
  "busy_ok s \<Longrightarrow> ie_buttons s (PageButton k) = Some b \<Longrightarrow>
     bt_disabled b = bt_loading b \<and> upd_count s k = (if bt_loading b then 1 else 0)"
  unfolding busy_ok_def page_busy_def
  by (erule allE [of _ k], erule allE [of _ "bt_disabled b"], erule allE [of _ "bt_loading b"]) simp

lemma upd_count_zero_if_idle:
  "busy_ok s \<Longrightarrow> ie_buttons s (PageButton k) = Some b \<Longrightarrow> \<not> bt_disabled b \<Longrightarrow> upd_count s k = 0"
  by (drule (1) busy_okD) simp

lemma busy_ok_update_start:
  assumes ok: "busy_ok s" and idle: "\<forall>b. ie_buttons s (PageButton k) = Some b \<longrightarrow> \<not> bt_disabled b"
  shows "busy_ok (updateGiftWrap_start k s)"
proof -
  have zero: "page_busy s k = None \<or> upd_count s k = 0"
  proof (cases "ie_buttons s (PageButton k)")
    case None
    then show ?thesis by (simp add: page_busy_def)
  next
    case (Some b)
    then have "\<not> bt_disabled b" using idle by simp
    then have "upd_count s k = 0" using upd_count_zero_if_idle [OF ok Some] by simp
    then show ?thesis by simp
  qed
  show ?thesis
  proof (cases "js_truthy_str (js_trim (gf_to (getGiftWrapFields k s)))")
    case False
    let ?s1 = "showFieldError k NameTo ''Recipient name is required'' s"
    have "busy_ok ?s1 = busy_ok s" by (rule busy_ok_passive) simp_all
    then have "busy_ok ?s1" using ok by simp
    moreover have "page_busy ?s1 k = None \<or> upd_count ?s1 k = 0" using zero by simp
    ultimately show ?thesis using False
      by (simp add: updateGiftWrap_start_def busy_ok_setLoading_False Let_def)
  next
    case True
    then show ?thesis using ok zero
      by (simp add: updateGiftWrap_start_def busy_ok_start_request Let_def)
  qed
qed

lemma busy_ok_send_remove: "busy_ok s \<Longrightarrow> busy_ok (send (RemoveCont k) c s)"
  by (simp add: busy_ok_def)

lemma busy_ok_handler:
  assumes "busy_ok s" "click_dispatched t s"
  shows "busy_ok (handleCartSectionClick t s)"
proof -
  have "busy_ok (case ct_update t of Some k \<Rightarrow> updateGiftWrap_start k s | None \<Rightarrow> s)"
    using assms by (auto simp: click_dispatched_def intro!: busy_ok_update_start split: option.splits)
  then show ?thesis
    by (simp add: handleCartSectionClick_def cancelGiftWrap_def removeGiftWrap_start_def
                  busy_ok_send_remove Let_def split: option.splits)
qed

lemma ie_section_bound_handler [simp]:
  "ie_section_bound (handleCartSectionClick t s) = ie_section_bound s"
  "ie_section_bound (handleCartSectionChange k c s) = ie_section_bound s"
  by (simp_all add: handleCartSectionClick_def handleCartSectionChange_def cancelGiftWrap_def
                    removeGiftWrap_start_def updateGiftWrap_start_def Let_def split: option.splits)

lemma ie_section_bound_funpow [simp]:
  "ie_section_bound ((handleCartSectionClick t ^^ n) s) = ie_section_bound s"
  "ie_section_bound ((handleCartSectionChange k c ^^ n) s) = ie_section_bound s"
  by (induction n) simp_all

lemma upd_count_remove_nth:
  "i < length (ie_pending s) \<Longrightarrow>
     upd_count (s\<lparr>ie_pending := remove_nth i (ie_pending s)\<rparr>) k =
     upd_count s k - (if fst (ie_pending s ! i) = UpdateCont k then 1 else 0)"
  by (simp add: upd_count_def remove_nth_filter_length)

lemma upd_count_pos:
  "i < length (ie_pending s) \<Longrightarrow> fst (ie_pending s ! i) = UpdateCont k \<Longrightarrow> 0 < upd_count s k"
  by (auto simp: upd_count_def filter_empty_conv nth_mem)

lemma busy_ok_respond:
  assumes ok: "busy_ok s"
  shows "busy_ok (respond i r s)"
proof (cases "i < length (ie_pending s)")
  case False
  then show ?thesis using ok by (simp add: respond_def)
next
  case True
  let ?s0 = "s\<lparr>ie_pending := remove_nth i (ie_pending s)\<rparr>"
  have b0: "page_busy ?s0 = page_busy s" by simp
  show ?thesis
  proof (cases "fst (ie_pending s ! i)")
    case (RemoveCont k)
    have "upd_count ?s0 = upd_count s" using True RemoveCont by (simp add: fun_eq_iff upd_count_remove_nth)
    then have ok0: "busy_ok ?s0" using ok b0 busy_ok_passive by metis
    have "busy_ok (removeGiftWrap_finish k r ?s0) = busy_ok ?s0"
      by (rule busy_ok_passive) (simp_all add: removeGiftWrap_finish_def)
    then show ?thesis using True RemoveCont ok0 by (simp add: respond_def ie_resume_def)
  next
    case (UpdateCont k)
    have cnt: "upd_count ?s0 k' = upd_count s k' - (if k = k' then 1 else 0)" for k'
      using True UpdateCont by (simp add: upd_count_remove_nth)
    have pos: "0 < upd_count s k" using True UpdateCont by (rule upd_count_pos)
    have ok0: "\<forall>k' d l. k' \<noteq> k \<longrightarrow> page_busy ?s0 k' = Some (d, l) \<longrightarrow>
                 d = l \<and> upd_count ?s0 k' = (if l then 1 else 0)"
      using ok cnt by (simp add: busy_ok_def)
    have zero: "page_busy ?s0 k = None \<or> upd_count ?s0 k = 0"
      using ok cnt pos by (cases "page_busy s k") (auto simp: busy_ok_def)
    let ?s1 = "case r of HttpResponse st (Some _) \<Rightarrow>
                 if http_ok st then refreshCartUI (showSuccess (PageButton k) ?s0)
                 else showError k ''Failed to update gift wrap. Please try again.'' ?s0
               | _ \<Rightarrow> showError k ''Failed to update gift wrap. Please try again.'' ?s0"
    have p1: "page_busy ?s1 = page_busy ?s0" and u1: "upd_count ?s1 = upd_count ?s0"
      by (simp_all split: fetch_response.splits option.splits)
    have "busy_ok (setLoadingState (PageButton k) False ?s1)"
      using ok0 zero p1 u1 by (auto simp: busy_ok_def page_busy_setLoading)
    then show ?thesis using True UpdateCont
      by (simp add: respond_def ie_resume_def updateGiftWrap_finish_def)
  qed
qed

lemma busy_ok_foldl_fire:
  "busy_ok s \<Longrightarrow> busy_ok (foldl (\<lambda>s' p. fire_page_timer (snd p) s') s ps)"
proof (induction ps arbitrary: s)
  case Nil
  then show ?case by simp
next
  case (Cons p ps)
  have "busy_ok (fire_page_timer (snd p) s) = busy_ok s" by (rule busy_ok_passive) simp_all
  then show ?case using Cons by simp
qed

lemma busy_ok_clock:
  "busy_ok (s\<lparr>ie_now := n, ie_timers := ts\<rparr>) = busy_ok s"
  by (rule busy_ok_passive) (simp_all add: page_busy_def upd_count_def fun_eq_iff)

lemma busy_ok_tick: "busy_ok s \<Longrightarrow> busy_ok (tick fire_page_timer d s)"
  unfolding tick_def Let_def
  by (rule busy_ok_foldl_fire) (simp only: busy_ok_clock)

lemma busy_ok_change_funpow:
  "busy_ok s \<Longrightarrow> busy_ok ((handleCartSectionChange k c ^^ n) s)"
  by (induction n) (auto simp: handleCartSectionChange_def removeGiftWrap_start_def busy_ok_send_remove)

lemma ie_section_bound_respond [simp]: "ie_section_bound (respond i r s) = ie_section_bound s"
  by (simp add: respond_def ie_resume_def removeGiftWrap_finish_def updateGiftWrap_finish_def
           split: ie_cont.splits fetch_response.splits option.splits)

lemma ie_section_bound_foldl_fire:
  "ie_section_bound (foldl (\<lambda>s' p. fire_page_timer (snd p) s') s ps) = ie_section_bound s"
  by (induction ps arbitrary: s) simp_all

lemma ie_section_bound_tick [simp]: "ie_section_bound (tick fire_page_timer d s) = ie_section_bound s"
  by (simp add: tick_def Let_def ie_section_bound_foldl_fire)

lemma busy_ok_toggle: "busy_ok s \<Longrightarrow> busy_ok (toggle_line k c s)"
proof -
  assume ok: "busy_ok s"
  have "busy_ok (s\<lparr>ie_toggles := (ie_toggles s)(k \<mapsto> c)\<rparr>) = busy_ok s"
    by (rule busy_ok_passive) simp_all
  then show ?thesis using ok
    by (simp add: toggle_line_def busy_ok_change_funpow split: option.splits)
qed

lemma busy_ok_bound:
  "busy_ok (s\<lparr>ie_section_bound := n\<rparr>) = busy_ok s"
  by (rule busy_ok_passive) (simp_all add: page_busy_def upd_count_def fun_eq_iff)

lemma ie_update_invI:
  "(ie_section_bound s' \<le> 1 \<Longrightarrow> busy_ok s') \<Longrightarrow> ie_update_inv s'"
  by (simp add: ie_update_inv_busy_ok)

lemma ie_update_invD:
  "ie_update_inv s \<Longrightarrow> ie_section_bound s \<le> 1 \<Longrightarrow> busy_ok s"
  by (simp add: ie_update_inv_busy_ok)

lemma ie_update_inv_step:
  assumes inv: "ie_update_inv s"
  shows "ie_update_inv (ie_step s e)"
proof (rule ie_update_invI)
  assume le: "ie_section_bound (ie_step s e) \<le> 1"
  show "busy_ok (ie_step s e)"
  proof (cases e)
    case IeSectionLoad
    have "ie_section_bound s \<le> ie_section_bound (ie_step s e)"
      using IeSectionLoad by (simp add: bindEvents_section_def)
    then have "busy_ok s" using inv le by (simp add: ie_update_invD)
    then show ?thesis using IeSectionLoad by (simp add: bindEvents_section_def busy_ok_bound)
  next
    case (IeClick t)
    show ?thesis
    proof (cases "click_dispatched t s")
      case False
      then show ?thesis using IeClick inv le by (simp add: ie_update_invD)
    next
      case True
      have le1: "ie_section_bound s \<le> 1" using IeClick True le by simp
      then have ok: "busy_ok s" by (rule ie_update_invD [OF inv])
      have "ie_section_bound s = 0 \<or> ie_section_bound s = 1" using le1 by arith
      then show ?thesis
      proof
        assume "ie_section_bound s = 0"
        then show ?thesis using IeClick True ok by simp
      next
        assume "ie_section_bound s = 1"
        then show ?thesis using IeClick True ok by (simp add: busy_ok_handler)
      qed
    qed
  next
    case (IeToggle k c)
    have "ie_section_bound s \<le> 1" using IeToggle le by (simp add: toggle_line_def split: option.splits)
    then have "busy_ok s" by (rule ie_update_invD [OF inv])
    then show ?thesis using IeToggle by (simp add: busy_ok_toggle)
  next
    case (IeInput k n v)
    have "ie_section_bound s \<le> 1" using IeInput le by simp
    then have ok: "busy_ok s" by (rule ie_update_invD [OF inv])
    have "busy_ok (input_field k n v s) = busy_ok s" by (rule busy_ok_passive) simp_all
    then show ?thesis using IeInput ok by simp
  next
    case (IeResponse i r)
    have "ie_section_bound s \<le> 1" using IeResponse le by simp
    then have "busy_ok s" by (rule ie_update_invD [OF inv])
    then show ?thesis using IeResponse by (simp add: busy_ok_respond)
  next
    case (IeTick d)
    have "ie_section_bound s \<le> 1" using IeTick le by simp
    then have "busy_ok s" by (rule ie_update_invD [OF inv])
    then show ?thesis using IeTick by (simp add: busy_ok_tick)
  qed
qed

lemma ie_update_inv_start: "ie_page_start s \<Longrightarrow> ie_update_inv s"
  by (auto simp: ie_page_start_def ie_update_inv_def page_busy_def upd_count_def)

lemma ie_reachable_update_inv: "ie_reachable s \<Longrightarrow> ie_update_inv s"
  by (induction rule: ie_reachable.induct) (simp_all add: ie_update_inv_start ie_update_inv_step)

lemma updateGiftWrap_start_valid:
  assumes "ie_to s k = Some t" "js_trim (fe_value t) \<noteq> []"
  shows "updateGiftWrap_start k s =
           send (UpdateCont k) (change_properties_call k (getGiftWrapFields k s))
             (clearErrors k (setLoadingState (PageButton k) True s))"
  using assms
  by (simp add: updateGiftWrap_start_def getGiftWrapFields_def field_text_def js_trim_idem
                js_truthy_str_def Let_def)

lemma updateGiftWrap_start_valid_to:
  assumes "ie_to s k = Some t" "js_trim (fe_value t) \<noteq> []"
  shows "\<exists>t'. ie_to (updateGiftWrap_start k s) k = Some t' \<and> fe_value t' = fe_value t"
  using assms
  by (auto simp: updateGiftWrap_start_valid ie_page_defs split: option.splits)

lemma updateGiftWrap_start_valid_button:
  assumes "ie_to s k = Some t" "js_trim (fe_value t) \<noteq> []"
  shows "ie_buttons (updateGiftWrap_start k s) (PageButton k) =
           map_option (set_loading True) (ie_buttons s (PageButton k))"
  using assms
  by (simp add: updateGiftWrap_start_valid setLoadingState_def send_def clearErrors_def split: option.splits)

lemma updateGiftWrap_start_valid_pending:
  assumes "ie_to s k = Some t" "js_trim (fe_value t) \<noteq> []"
  shows "ie_pending (updateGiftWrap_start k s) =
           ie_pending s @ [(UpdateCont k, change_properties_call k (getGiftWrapFields k s))]"
  using assms
  by (simp add: updateGiftWrap_start_valid setLoadingState_def send_def clearErrors_def split: option.splits)

lemma updateGiftWrap_finish_button:
  "map_option (\<lambda>b. (bt_text b, bt_original b)) (ie_buttons (updateGiftWrap_finish k r s) (PageButton k)) =
     map_option (\<lambda>b. (restored_text (bt_original b), bt_original b)) (ie_buttons s (PageButton k))"
  by (simp add: updateGiftWrap_finish_def ie_page_defs restored_text_def Let_def
           split: fetch_response.splits option.splits)

lemma ie_example_trim: "js_trim '' Ann '' = ''Ann''"
  by code_simp

lemma ie_example_start: "ie_page_start ie_example_page"
  by (simp add: ie_page_start_def ie_example_page_def ie_example_button_def)

lemma ie_example_strings: "js_trim ''Bo'' = ''Bo''" "js_trim ''Happy birthday'' = ''Happy birthday''"
  "js_trim ''  '' = []"
  by code_simp+

subsection \<open>Properties of the cart-page editor\<close>

text \<open>C12. An update click on a line whose recipient is not blank disables the button and shows \<open>Updating...\<close>, clears the line's errors and sends exactly one \<open>POST /cart/change.js\<close> whose body carries the line key and the trimmed recipient, sender and message under \<open>_GiftWrap: Yes\<close>.\<close>

theorem ie_update_sends_change:
  assumes "ie_buttons s (PageButton k) = Some b" "ie_to s k = Some t" "js_trim (fe_value t) \<noteq> []"
  shows "\<exists>c. handleCartSectionClick (update_click k) s =
             (clearErrors k s)\<lparr>ie_buttons := (ie_buttons s)(PageButton k \<mapsto>
                  b\<lparr>bt_disabled := True, bt_loading := True, bt_original := Some (bt_text b),
                    bt_text := ''Updating...''\<rparr>),
               ie_pending := ie_pending s @ [(UpdateCont k, c)], ie_log := ie_log s @ [IeFetch c]\<rparr>
           \<and> fc_url c = ''/cart/change.js'' \<and> fc_method c = ''POST''
           \<and> fc_body c = JObj [(''id'', JStr k), (''properties'', JObj
                [(''_GiftWrap'', JStr ''Yes''), (''To'', JStr (js_trim (fe_value t))),
                 (''From'', JStr (case ie_from s k of None \<Rightarrow> [] | Some f \<Rightarrow> js_trim (fe_value f))),
                 (''Message'', JStr (case ie_message s k of None \<Rightarrow> [] | Some f \<Rightarrow> js_trim (fe_value f)))])]"
proof (intro exI [of _ "change_properties_call k (getGiftWrapFields k s)"] conjI)
  have "js_truthy_str (js_trim (gf_to (getGiftWrapFields k s)))"
    using assms by (simp add: getGiftWrapFields_def field_text_def js_trim_idem js_truthy_str_def)
  then show "handleCartSectionClick (update_click k) s =
             (clearErrors k s)\<lparr>ie_buttons := (ie_buttons s)(PageButton k \<mapsto>
                  b\<lparr>bt_disabled := True, bt_loading := True, bt_original := Some (bt_text b),
                    bt_text := ''Updating...''\<rparr>),
               ie_pending := ie_pending s @ [(UpdateCont k, change_properties_call k (getGiftWrapFields k s))],
               ie_log := ie_log s @ [IeFetch (change_properties_call k (getGiftWrapFields k s))]\<rparr>"
    using assms
    by (simp add: handleCartSectionClick_def updateGiftWrap_start_def clearErrors_def setLoadingState_def
                  send_def set_loading_def Let_def split: option.splits)
qed (use assms in \<open>simp_all add: change_properties_call_def json_post_def getGiftWrapFields_def
                                  field_text_def split: option.splits\<close>)

theorem ie_update_sends_change_witness:
  "\<exists>c. ie_pending (handleCartSectionClick (update_click ''K1'') ie_example_page) = [(UpdateCont ''K1'', c)]
      \<and> fc_url c = ''/cart/change.js''
      \<and> fc_body c = JObj [(''id'', JStr ''K1''), (''properties'', JObj
           [(''_GiftWrap'', JStr ''Yes''), (''To'', JStr ''Ann''), (''From'', JStr ''Bo''),
            (''Message'', JStr ''Happy birthday'')])]"
proof -
  obtain c where "handleCartSectionClick (update_click ''K1'') ie_example_page =
             (clearErrors ''K1'' ie_example_page)\<lparr>ie_buttons := (ie_buttons ie_example_page)(PageButton ''K1'' \<mapsto>
                  ie_example_button\<lparr>bt_disabled := True, bt_loading := True,
                    bt_original := Some (bt_text ie_example_button), bt_text := ''Updating...''\<rparr>),
               ie_pending := ie_pending ie_example_page @ [(UpdateCont ''K1'', c)],
               ie_log := ie_log ie_example_page @ [IeFetch c]\<rparr>
           \<and> fc_url c = ''/cart/change.js'' \<and> fc_method c = ''POST''
           \<and> fc_body c = JObj [(''id'', JStr ''K1''), (''properties'', JObj
                [(''_GiftWrap'', JStr ''Yes''), (''To'', JStr (js_trim '' Ann '')),
                 (''From'', JStr (case ie_from ie_example_page ''K1'' of None \<Rightarrow> []
                                  | Some f \<Rightarrow> js_trim (fe_value f))),
                 (''Message'', JStr (case ie_message ie_example_page ''K1'' of None \<Rightarrow> []
                                     | Some f \<Rightarrow> js_trim (fe_value f)))])]"
    using ie_update_sends_change [where s = ie_example_page and k = "''K1''" and b = ie_example_button
                                    and t = "ie_example_field '' Ann ''"]
    by (auto simp: ie_example_page_def ie_example_field_def ie_example_trim)
  then show ?thesis
    by (intro exI [of _ c]) (simp add: ie_example_page_def ie_example_field_def ie_example_trim
                                       ie_example_strings clearErrors_def)
qed

text \<open>C13. In every reachable state in which the section listeners are bound at most once, a line has at most one update request in flight, and its update button is disabled exactly while one is in flight: the disabled button is the guard against overlapping updates.\<close>

theorem ie_page_one_update_in_flight:
  assumes "ie_reachable s" "ie_section_bound s \<le> 1" "ie_buttons s (PageButton k) = Some b"
  shows "length (filter (\<lambda>p. fst p = UpdateCont k) (ie_pending s)) \<le> 1
       \<and> (bt_disabled b \<longleftrightarrow> (\<exists>c. (UpdateCont k, c) \<in> set (ie_pending s)))"
proof -
  have "busy_ok s" using ie_reachable_update_inv [OF assms(1)] assms(2) by (rule ie_update_invD)
  then have b: "bt_disabled b = bt_loading b \<and> upd_count s k = (if bt_loading b then 1 else 0)"
    using assms(3) by (rule busy_okD)
  have "(\<exists>c. (UpdateCont k, c) \<in> set (ie_pending s)) \<longleftrightarrow> 0 < upd_count s k"
    by (force simp: upd_count_def filter_empty_conv length_greater_0_conv)
  then show ?thesis using b by (auto simp: upd_count_def split: if_splits)
qed

theorem ie_page_one_update_in_flight_witness:
  "length (filter (\<lambda>p. fst p = UpdateCont ''K1'')
      (ie_pending (ie_step ie_example_page (IeClick (update_click ''K1''))))) \<le> 1
   \<and> (bt_disabled (set_loading True ie_example_button) \<longleftrightarrow>
      (\<exists>c. (UpdateCont ''K1'', c) \<in> set (ie_pending (ie_step ie_example_page (IeClick (update_click ''K1''))))))"
proof -
  have b: "ie_buttons (ie_step ie_example_page (IeClick (update_click ''K1''))) (PageButton ''K1'') =
             Some (set_loading True ie_example_button)"
    by (simp add: ie_example_page_def click_dispatched_def ie_example_button_def handleCartSectionClick_def
                  updateGiftWrap_start_valid_button ie_example_field_def ie_example_trim)
  show ?thesis
    by (rule ie_page_one_update_in_flight [OF ie_reachable.step [OF ie_reachable.start [OF ie_example_start]] _ b])
       (simp add: ie_example_page_def)
qed

text \<open>C14. When the section listeners are bound twice (a second \<open>bindEvents\<close>), one update click sends two requests, and once both have been answered, whatever the responses, the button label is left at \<open>Updating...\<close>: the second handler saved the loading label as the original text.\<close>

theorem ie_double_bind_label_stuck:
  assumes "ie_section_bound s = 2" "ie_buttons s (PageButton k) = Some b" "\<not> bt_disabled b"
      and "ie_to s k = Some t" "js_trim (fe_value t) \<noteq> []" "ie_pending s = []"
  shows "length (ie_pending (ie_step s (IeClick (update_click k)))) = 2
       \<and> map_option bt_text (ie_buttons (ie_step (ie_step (ie_step s (IeClick (update_click k)))
             (IeResponse 0 r1)) (IeResponse 0 r2)) (PageButton k)) = Some ''Updating...''"
proof -
  have h: "handleCartSectionClick (update_click k) = updateGiftWrap_start k"
    by (simp add: handleCartSectionClick_def fun_eq_iff)
  have disp: "click_dispatched (update_click k) s" using assms(2,3) by (simp add: click_dispatched_def)
  let ?s1 = "updateGiftWrap_start k s"
  obtain t1 where t1: "ie_to ?s1 k = Some t1" "fe_value t1 = fe_value t"
    using updateGiftWrap_start_valid_to [OF assms(4,5)] by blast
  let ?s2 = "updateGiftWrap_start k ?s1"
  have step: "ie_step s (IeClick (update_click k)) = ?s2"
    using assms(1) disp by (simp add: h numeral_2_eq_2)
  have b2: "ie_buttons ?s2 (PageButton k) = Some (set_loading True (set_loading True b))"
    using assms t1
    by (simp add: updateGiftWrap_start_valid_button [OF t1(1)] updateGiftWrap_start_valid_button [OF assms(4,5)])
  obtain c1 c2 where p2: "ie_pending ?s2 = [(UpdateCont k, c1), (UpdateCont k, c2)]"
    using assms t1 by (simp add: updateGiftWrap_start_valid_pending [OF t1(1)] updateGiftWrap_start_valid_pending [OF assms(4,5)])
  let ?s3 = "updateGiftWrap_finish k r1 (?s2\<lparr>ie_pending := [(UpdateCont k, c2)]\<rparr>)"
  have r1: "ie_step ?s2 (IeResponse 0 r1) = ?s3"
    using p2 by (simp add: respond_def ie_resume_def remove_nth_def)
  have r2: "ie_step ?s3 (IeResponse 0 r2) = updateGiftWrap_finish k r2 (?s3\<lparr>ie_pending := []\<rparr>)"
  proof -
    have "ie_pending ?s3 = [(UpdateCont k, c2)]"
      by (simp add: updateGiftWrap_finish_def ie_page_defs split: fetch_response.splits option.splits)
    then show ?thesis by (simp add: respond_def ie_resume_def remove_nth_def)
  qed
  have "map_option (\<lambda>b. (bt_text b, bt_original b)) (ie_buttons ?s3 (PageButton k)) =
          Some (''Updating...'', Some ''Updating...'')"
    using b2 by (simp add: updateGiftWrap_finish_button set_loading_def restored_text_def js_truthy_str_def)
  then obtain b3 where b3: "ie_buttons ?s3 (PageButton k) = Some b3" "bt_original b3 = Some ''Updating...''"
    by (cases "ie_buttons ?s3 (PageButton k)") auto
  have "map_option (\<lambda>b. (bt_text b, bt_original b))
               (ie_buttons (updateGiftWrap_finish k r2 (?s3\<lparr>ie_pending := []\<rparr>)) (PageButton k)) =
          Some (''Updating...'', Some ''Updating...'')"
    using updateGiftWrap_finish_button [of k r2 "?s3\<lparr>ie_pending := []\<rparr>"] b3
    by (simp add: restored_text_def js_truthy_str_def)
  then show ?thesis using step p2 r1 r2 by (auto split: option.splits)
qed

theorem ie_double_bind_label_stuck_witness:
  "length (ie_pending (ie_step (ie_example_page\<lparr>ie_section_bound := 2\<rparr>) (IeClick (update_click ''K1'')))) = 2
   \<and> map_option bt_text (ie_buttons (ie_step (ie_step (ie_step (ie_example_page\<lparr>ie_section_bound := 2\<rparr>)
        (IeClick (update_click ''K1''))) (IeResponse 0 (HttpResponse 200 (Some (JObj [])))))
        (IeResponse 0 (HttpResponse 200 (Some (JObj []))))) (PageButton ''K1'')) = Some ''Updating...''"
  by (rule ie_double_bind_label_stuck [where b = ie_example_button and t = "ie_example_field '' Ann ''"])
     (simp_all add: ie_example_page_def ie_example_button_def ie_example_field_def ie_example_trim)

text \<open>C15. An update with a blank recipient sends nothing: it marks the recipient field, focuses it, shows \<open>Recipient name is required\<close> for five seconds and runs the \<open>finally\<close> block, which resets the button label to its saved text or \<open>Update\<close>.\<close>

theorem ie_update_blank_recipient:
  assumes "ie_buttons s (PageButton k) = Some b" "ie_to s k = Some t" "\<forall>c \<in> set (fe_value t). js_ws c"
      and "ie_rows s k = Some row" "row_has_actions row"
  shows "handleCartSectionClick (update_click k) s =
           s\<lparr>ie_to := (ie_to s)(k \<mapsto> t\<lparr>fe_error := True\<rparr>), ie_focus := Some (k, NameTo),
             ie_rows := (ie_rows s)(k \<mapsto> row\<lparr>row_error :=
                          Some \<lparr>er_text = ''Recipient name is required'', er_show = True\<rparr>\<rparr>),
             ie_timers := ie_timers s @ [(ie_now s + 5000, HideRowError k)],
             ie_buttons := (ie_buttons s)(PageButton k \<mapsto>
                b\<lparr>bt_disabled := False, bt_loading := False,
                  bt_text := (case bt_original b of None \<Rightarrow> ''Update''
                              | Some x \<Rightarrow> if x = [] then ''Update'' else x)\<rparr>)\<rparr>"
proof -
  have "js_trim (fe_value t) = []" using assms(3) by (simp add: js_trim_empty_iff)
  then show ?thesis using assms
    by (cases b) (simp add: handleCartSectionClick_def updateGiftWrap_start_def ie_page_defs js_trim_idem
                  js_truthy_str_def Let_def split: option.splits)
qed

theorem ie_update_blank_recipient_witness:
  "ie_rows (handleCartSectionClick (update_click ''K1'') ie_example_blank) ''K1'' =
     Some (ie_example_row\<lparr>row_error := Some \<lparr>er_text = ''Recipient name is required'', er_show = True\<rparr>\<rparr>)
   \<and> ie_pending (handleCartSectionClick (update_click ''K1'') ie_example_blank) = []
   \<and> map_option bt_text (ie_buttons (handleCartSectionClick (update_click ''K1'') ie_example_blank)
        (PageButton ''K1'')) = Some ''Update''"
  using ie_update_blank_recipient [where s = ie_example_blank and k = "''K1''" and b = ie_example_button
          and t = "ie_example_field ''  ''" and row = ie_example_row]
  by (simp add: ie_example_blank_def ie_example_page_def ie_example_field_def ie_example_button_def
                ie_example_row_def js_ws_def)

text \<open>C16. A 2xx response with a JSON body refreshes the cart and schedules the button restore, but the \<open>finally\<close> block restores the original label at once, so \<open>Updated!\<close> is never left on the button.\<close>

theorem ie_update_success:
  assumes "ie_buttons s (PageButton k) = Some b" "bt_original b = Some ot" "ot \<noteq> []" "http_ok st"
  shows "updateGiftWrap_finish k (HttpResponse st (Some j)) s =
           s\<lparr>ie_buttons := (ie_buttons s)(PageButton k \<mapsto>
                b\<lparr>bt_text := ot, bt_background := success_background, bt_disabled := False,
                  bt_loading := False\<rparr>),
             ie_timers := ie_timers s @ [(ie_now s + 2000, RestoreButton (PageButton k) ot)],
             ie_log := ie_log s @ [if ie_cart_api s then IeGetCart else IeReload]\<rparr>"
  using assms
  by (cases b) (simp add: updateGiftWrap_finish_def ie_page_defs js_truthy_str_def Let_def)

theorem ie_update_success_witness:
  "map_option bt_text (ie_buttons (updateGiftWrap_finish ''K1'' (HttpResponse 200 (Some (JObj []))) ie_example_loading)
      (PageButton ''K1'')) = Some ''Save''
   \<and> ie_log (updateGiftWrap_finish ''K1'' (HttpResponse 200 (Some (JObj []))) ie_example_loading) = [IeGetCart]
   \<and> ie_timers (updateGiftWrap_finish ''K1'' (HttpResponse 200 (Some (JObj []))) ie_example_loading) =
       [(2000, RestoreButton (PageButton ''K1'') ''Save'')]"
  using ie_update_success [where s = ie_example_loading and k = "''K1''" and b = "set_loading True ie_example_button"
          and ot = "''Save''" and st = 200 and j = "JObj []"]
  by (simp add: ie_example_loading_def ie_example_page_def ie_example_button_def set_loading_def http_ok_def)

text \<open>C17. A failed update (rejected fetch, non-2xx status, unreadable body) leaves the entered values in place, shows \<open>Failed to update gift wrap. Please try again.\<close> with a five-second timer and re-enables the button.\<close>

theorem ie_update_failure_keeps_fields:
  assumes "ie_buttons s (PageButton k) = Some b" "ie_rows s k = Some row" "row_has_actions row"
      and "\<not> response_ok r \<or> r = HttpResponse st None"
  shows "updateGiftWrap_finish k r s =
           s\<lparr>ie_rows := (ie_rows s)(k \<mapsto> row\<lparr>row_error :=
                Some \<lparr>er_text = ''Failed to update gift wrap. Please try again.'', er_show = True\<rparr>\<rparr>),
             ie_timers := ie_timers s @ [(ie_now s + 5000, HideRowError k)],
             ie_buttons := (ie_buttons s)(PageButton k \<mapsto>
                b\<lparr>bt_disabled := False, bt_loading := False,
                  bt_text := (case bt_original b of None \<Rightarrow> ''Update''
                              | Some x \<Rightarrow> if x = [] then ''Update'' else x)\<rparr>)\<rparr>"
  using assms
  by (auto simp: updateGiftWrap_finish_def ie_page_defs response_ok_def js_truthy_str_def
           split: fetch_response.splits option.splits)

theorem ie_update_failure_keeps_fields_witness:
  "ie_to (updateGiftWrap_finish ''K1'' (HttpResponse 500 None) ie_example_loading) = ie_to ie_example_loading
   \<and> ie_rows (updateGiftWrap_finish ''K1'' (HttpResponse 500 None) ie_example_loading) ''K1'' =
       Some (ie_example_row\<lparr>row_error :=
         Some \<lparr>er_text = ''Failed to update gift wrap. Please try again.'', er_show = True\<rparr>\<rparr>)"
  using ie_update_failure_keeps_fields [where s = ie_example_loading and k = "''K1''"
          and b = "set_loading True ie_example_button" and row = ie_example_row and r = "HttpResponse 500 None" and st = 500]
  by (simp add: ie_example_loading_def ie_example_page_def ie_example_row_def response_ok_def http_ok_def)

text \<open>C18. Unchecking the inline toggle sends one removal request; when it is answered the request is retired, and the toggle ends checked again exactly when the removal failed, the cart being refreshed exactly when it succeeded.\<close>

theorem ie_remove_roundtrip:
  assumes "ie_section_bound s = 1" "ie_toggles s k = Some c"
  shows "ie_toggles (ie_step (ie_step s (IeToggle k False)) (IeResponse (length (ie_pending s)) r)) k
           = Some (\<not> response_ok r)
       \<and> ie_log (ie_step (ie_step s (IeToggle k False)) (IeResponse (length (ie_pending s)) r))
           = ie_log s @ [IeFetch (remove_call (JsString k))]
               @ (if response_ok r then [if ie_cart_api s then IeGetCart else IeReload] else [])
       \<and> ie_pending (ie_step (ie_step s (IeToggle k False)) (IeResponse (length (ie_pending s)) r))
           = ie_pending s"
  using assms
  by (simp add: toggle_line_def handleCartSectionChange_def removeGiftWrap_start_def send_def
                respond_def ie_resume_def removeGiftWrap_finish_def refreshCartUI_def)

theorem ie_remove_roundtrip_witness:
  "ie_toggles (ie_step (ie_step ie_example_page (IeToggle ''K1'' False)) (IeResponse 0 FetchRejected)) ''K1''
     = Some True"
  using ie_remove_roundtrip [where s = ie_example_page and k = "''K1''" and c = True and r = FetchRejected]
  by (simp add: ie_example_page_def response_ok_def)

text \<open>C19. A second error shown on a line before the first one's five seconds are over is hidden by the first error's timer, earlier than five seconds after it appeared.\<close>

theorem ie_stale_error_timer:
  assumes "ie_rows s k = Some row" "row_has_actions row" "ie_timers s = []" "0 < d" "d < 5000"
  shows "ie_rows (tick fire_page_timer (5000 - d) (showError k m2 (tick fire_page_timer d (showError k m1 s)))) k
           = Some (row\<lparr>row_error := Some \<lparr>er_text = m2, er_show = False\<rparr>\<rparr>)"
proof -
  let ?s1 = "showError k m1 s"
  have s1: "ie_timers ?s1 = [(ie_now s + 5000, HideRowError k)]" "ie_now ?s1 = ie_now s"
    "ie_rows ?s1 k = Some (row\<lparr>row_error := Some \<lparr>er_text = m1, er_show = True\<rparr>\<rparr>)"
    using assms by (simp_all add: showError_def schedule_def)
  let ?s2 = "tick fire_page_timer d ?s1"
  have t2: "?s2 = ?s1\<lparr>ie_now := ie_now s + d\<rparr>"
    using s1 assms(5) by (simp add: tick_no_due)
  let ?s3 = "showError k m2 ?s2"
  have s3: "ie_timers ?s3 = [(ie_now s + 5000, HideRowError k), (ie_now s + d + 5000, HideRowError k)]"
    "ie_now ?s3 = ie_now s + d"
    "ie_rows ?s3 k = Some (row\<lparr>row_error := Some \<lparr>er_text = m2, er_show = True\<rparr>\<rparr>)"
    using s1 t2 by (simp_all add: showError_def schedule_def)
  have "filter (\<lambda>p. fst p \<le> ie_now s + d + (5000 - d)) (ie_timers ?s3) = [(ie_now s + 5000, HideRowError k)]"
    using s3 assms(4,5) by simp
  then show ?thesis using s3 assms(4,5)
    by (simp add: tick_def fire_page_timer_def)
qed

theorem ie_stale_error_timer_witness:
  "ie_rows (tick fire_page_timer (5000 - 3000) (showError ''K1'' ''second''
      (tick fire_page_timer 3000 (showError ''K1'' ''first'' ie_example_page)))) ''K1''
     = Some (ie_example_row\<lparr>row_error := Some \<lparr>er_text = ''second'', er_show = False\<rparr>\<rparr>)"
  by (rule ie_stale_error_timer) (simp_all add: ie_example_page_def ie_example_row_def)

text \<open>C20. The failure message of an update stays visible for 4999 milliseconds and is hidden at 5000.\<close>

theorem ie_failure_error_hidden_after_5s:
  assumes "ie_buttons s (PageButton k) = Some b" "ie_rows s k = Some row" "row_has_actions row"
      and "ie_timers s = []" "\<not> response_ok r"
  shows "ie_rows (tick fire_page_timer 4999 (updateGiftWrap_finish k r s)) k =
           Some (row\<lparr>row_error := Some \<lparr>er_text = ''Failed to update gift wrap. Please try again.'',
                                         er_show = True\<rparr>\<rparr>)
       \<and> ie_rows (tick fire_page_timer 5000 (updateGiftWrap_finish k r s)) k =
           Some (row\<lparr>row_error := Some \<lparr>er_text = ''Failed to update gift wrap. Please try again.'',
                                         er_show = False\<rparr>\<rparr>)"
proof -
  let ?s = "updateGiftWrap_finish k r s"
  have ts: "ie_timers ?s = [(ie_now s + 5000, HideRowError k)]" "ie_now ?s = ie_now s"
    using assms
    by (auto simp: updateGiftWrap_finish_def ie_page_defs response_ok_def split: fetch_response.splits option.splits)
  have rs: "ie_rows ?s k = Some (row\<lparr>row_error := Some \<lparr>er_text = ''Failed to update gift wrap. Please try again.'',
                                         er_show = True\<rparr>\<rparr>)"
    using assms
    by (auto simp: updateGiftWrap_finish_def ie_page_defs response_ok_def split: fetch_response.splits option.splits)
  have "tick fire_page_timer 4999 ?s = ?s\<lparr>ie_now := ie_now ?s + 4999\<rparr>"
    using ts by (intro tick_no_due) simp
  moreover have "tick fire_page_timer 5000 ?s =
                   fire_page_timer (HideRowError k) (?s\<lparr>ie_now := ie_now ?s + 5000, ie_timers := []\<rparr>)"
    by (rule tick_one_due [OF ts(1)]) (simp add: ts(2))
  ultimately show ?thesis using rs by (simp add: fire_page_timer_def)
qed

theorem ie_failure_error_hidden_after_5s_witness:
  "ie_rows (tick fire_page_timer 4999 (updateGiftWrap_finish ''K1'' FetchRejected ie_example_loading)) ''K1'' =
     Some (ie_example_row\<lparr>row_error := Some \<lparr>er_text = ''Failed to update gift wrap. Please try again.'',
                                             er_show = True\<rparr>\<rparr>)
   \<and> ie_rows (tick fire_page_timer 5000 (updateGiftWrap_finish ''K1'' FetchRejected ie_example_loading)) ''K1'' =
     Some (ie_example_row\<lparr>row_error := Some \<lparr>er_text = ''Failed to update gift wrap. Please try again.'',
                                             er_show = False\<rparr>\<rparr>)"
  by (rule ie_failure_error_hidden_after_5s [where b = "set_loading True ie_example_button"])
     (simp_all add: ie_example_loading_def ie_example_page_def ie_example_row_def response_ok_def)

text \<open>C21. With the listeners bound once, unchecking the inline toggle of a line sends exactly one \<open>POST /cart/change.js\<close> with body \<open>{id: key, quantity: 0}\<close>.\<close>

theorem ie_toggle_off_removes:
  assumes "ie_section_bound s = 1" "ie_toggles s k = Some c"
  shows "\<exists>call. ie_step s (IeToggle k False) =
             s\<lparr>ie_toggles := (ie_toggles s)(k \<mapsto> False), ie_pending := ie_pending s @ [(RemoveCont k, call)],
               ie_log := ie_log s @ [IeFetch call]\<rparr>
           \<and> fc_url call = ''/cart/change.js'' \<and> fc_body call = JObj [(''id'', JStr k), (''quantity'', JNum 0)]"
  using assms
  by (intro exI [of _ "remove_call (JsString k)"])
     (simp add: toggle_line_def handleCartSectionChange_def removeGiftWrap_start_def send_def
                remove_call_def json_post_def)

theorem ie_toggle_off_removes_witness:
  "\<exists>call. ie_pending (ie_step ie_example_page (IeToggle ''K1'' False)) = [(RemoveCont ''K1'', call)]
      \<and> fc_body call = JObj [(''id'', JStr ''K1''), (''quantity'', JNum 0)]"
proof -
  obtain call where "ie_step ie_example_page (IeToggle ''K1'' False) =
             ie_example_page\<lparr>ie_toggles := (ie_toggles ie_example_page)(''K1'' \<mapsto> False),
               ie_pending := ie_pending ie_example_page @ [(RemoveCont ''K1'', call)],
               ie_log := ie_log ie_example_page @ [IeFetch call]\<rparr>
           \<and> fc_url call = ''/cart/change.js'' \<and> fc_body call = JObj [(''id'', JStr ''K1''), (''quantity'', JNum 0)]"
    using ie_toggle_off_removes [where s = ie_example_page and k = "''K1''" and c = True]
    by (auto simp: ie_example_page_def)
  then show ?thesis by (intro exI [of _ call]) (simp add: ie_example_page_def)
qed

text \<open>C22. The cancel button of a line sends the same removal request as unchecking its toggle, and differs only in leaving the toggle as it was.\<close>

theorem ie_cancel_equals_toggle_off:
  assumes "ie_section_bound s = 1" "ie_toggles s k = Some c" "click_dispatched (cancel_click k) s"
  shows "ie_step s (IeClick (cancel_click k)) =
           (ie_step s (IeToggle k False))\<lparr>ie_toggles := ie_toggles s\<rparr>"
  using assms
  by (simp add: toggle_line_def handleCartSectionChange_def handleCartSectionClick_def cancelGiftWrap_def
                removeGiftWrap_start_def send_def)

theorem ie_cancel_equals_toggle_off_witness:
  "ie_step ie_example_page (IeClick (cancel_click ''K1'')) =
     (ie_step ie_example_page (IeToggle ''K1'' False))\<lparr>ie_toggles := ie_toggles ie_example_page\<rparr>"
  by (rule ie_cancel_equals_toggle_off [where c = True])
     (simp_all add: ie_example_page_def click_dispatched_def)

end
