(* ===== verification/CartDrawer.thy ===== *)
theory CartDrawer
  imports InlineEditor
begin

text \<open>
  The cart-drawer half of \<open>src/assets/cart-gift-wrap-inline.js\<close>: the methods
  \<open>toggleCartDrawerEditor\<close>, \<open>showCartDrawerEditor\<close>, \<open>hideCartDrawerEditor\<close>,
  \<open>updateCartDrawerGiftWrap\<close>, \<open>updateCartDrawerDisplay\<close>, \<open>showCartDrawerError\<close>,
  \<open>clearCartDrawerErrors\<close> and the drawer listeners \<open>handleCartDrawerClick\<close> and
  \<open>handleCartDrawerChange\<close>.

  The drawer state extends the cart-page state \<open>ie_state\<close>: the helpers the drawer
  shares with the page (\<open>setLoadingState\<close>, \<open>showSuccess\<close>, \<open>removeGiftWrap\<close>, the
  timers) are the definitions of \<open>InlineEditor\<close>. Each \<open>.cart-drawer__gift-wrap\<close>
  container is named by a \<open>container_id\<close> of the model, and the update button inside
  it is \<open>DrawerButton c\<close>.

  \<open>updateCartDrawerGiftWrap\<close> declares \<open>const giftWrapContainer\<close> twice: once in the
  function body (line 315) and once inside its \<open>try\<close> block (line 373). Block scoping
  makes every use of the name inside the \<open>try\<close> block refer to the inner binding, which
  is uninitialised (in its temporal dead zone) until line 373 runs; a read before that
  throws a \<open>ReferenceError\<close>. The \<open>catch\<close> block is outside the \<open>try\<close> block and
  sees the outer binding. The model makes this explicit: the body of the \<open>try\<close> block
  takes the state of the inner binding (\<open>js_binding\<close>), each read of the name goes
  through \<open>dr_read\<close>, and the method enters the block with the binding
  \<open>Uninitialized\<close>, as the language does. The rest of the block (validation, loading
  state, request, and on its response the summary and the collapse) is translated too,
  but never runs: the first read throws, so no drawer request is ever sent and
  \<open>dr_resume\<close> is never reached.
\<close>

subsection \<open>Data\<close>

type_synonym container_id = string

record display_el =
  dp_visible :: bool
  dp_to :: "string option"
  dp_from :: "string option"
  dp_message :: "string option"

record toggle_el =
  tg_expanded :: bool
  tg_label_edit :: "string option"
  tg_label_cancel :: "string option"

record dr_container =
  dc_key :: "string option"
  dc_to :: "string option"
  dc_from :: "string option"
  dc_message :: "string option"
  dc_display :: "display_el option"
  dc_editor :: "string option"
  dc_toggle :: "toggle_el option"
  dc_error :: "error_el option"
  dc_has_actions :: bool

datatype js_binding = Uninitialized | Initialized container_id

datatype js_exception = ReferenceError | TypeError | UpdateFailed

datatype dr_cont = DrUpdateCont container_id gw_fields js_binding

record dr_state = ie_state +
  dr_containers :: "container_id \<rightharpoonup> dr_container"
  dr_focus :: "container_id option"
  dr_has_drawer :: bool
  dr_render :: bool
  dr_bound :: nat
  dr_pending :: "(dr_cont \<times> fetch_call) list"

text \<open>How the \<open>try\<close> block of \<open>updateCartDrawerGiftWrap\<close> ends before its
  \<open>finally\<close>: normally (its validation \<open>return\<close>), by an exception, or suspended at
  \<open>await fetch\<close>, in which case the \<open>finally\<close> block runs only on resumption.\<close>

datatype 'a completion = Normal 'a | Thrown js_exception 'a | Awaiting 'a

subsection \<open>Container helpers\<close>

definition update_container ::
  "container_id \<Rightarrow> (dr_container \<Rightarrow> dr_container) \<Rightarrow> 'a dr_state_scheme \<Rightarrow> 'a dr_state_scheme" where
  "update_container c f s = s\<lparr>dr_containers := (dr_containers s)(c := map_option f (dr_containers s c))\<rparr>"

definition set_editor_expanded :: "bool \<Rightarrow> dr_container \<Rightarrow> dr_container" where
  \<comment> \<open>the editor block, the two labels and \<open>aria-expanded\<close>, each changed only if present\<close>
  "set_editor_expanded e ct =
     ct\<lparr>dc_editor := map_option (\<lambda>_. if e then ''block'' else ''none'') (dc_editor ct),
        dc_toggle := map_option (\<lambda>t. t\<lparr>tg_expanded := e,
                        tg_label_edit := map_option (\<lambda>_. if e then ''none'' else ''flex'') (tg_label_edit t),
                        tg_label_cancel := map_option (\<lambda>_. if e then ''flex'' else ''none'') (tg_label_cancel t)\<rparr>)
                     (dc_toggle ct)\<rparr>"

definition toggleCartDrawerEditor :: "container_id option \<Rightarrow> 'a dr_state_scheme \<Rightarrow> 'a dr_state_scheme" where
  \<comment> \<open>lines 270--291; the argument is the container of the toggle button, \<open>None\<close> when
      \<open>closest\<close> finds none\<close>
  "toggleCartDrawerEditor cc s =
     (case cc of
        None \<Rightarrow> s
      | Some c \<Rightarrow>
          (case dr_containers s c of
             None \<Rightarrow> s
           | Some ct \<Rightarrow>
               (case dc_toggle ct of
                  None \<Rightarrow> s
                | Some t \<Rightarrow> update_container c (set_editor_expanded (\<not> tg_expanded t)) s)))"

definition showCartDrawerEditor :: "container_id option \<Rightarrow> 'a dr_state_scheme \<Rightarrow> 'a dr_state_scheme" where
  "showCartDrawerEditor cc s =
     (case cc of
        None \<Rightarrow> s
      | Some c \<Rightarrow> update_container c (\<lambda>ct. if dc_display ct \<noteq> None \<and> dc_editor ct \<noteq> None
                    then ct\<lparr>dc_display := map_option (\<lambda>d. d\<lparr>dp_visible := False\<rparr>) (dc_display ct),
                            dc_editor := Some ''block''\<rparr>
                    else ct) s)"

definition hideCartDrawerEditor :: "container_id option \<Rightarrow> 'a dr_state_scheme \<Rightarrow> 'a dr_state_scheme" where
  "hideCartDrawerEditor cc s =
     (case cc of
        None \<Rightarrow> s
      | Some c \<Rightarrow> update_container c (\<lambda>ct. if dc_display ct \<noteq> None \<and> dc_editor ct \<noteq> None
                    then ct\<lparr>dc_display := map_option (\<lambda>d. d\<lparr>dp_visible := True\<rparr>) (dc_display ct),
                            dc_editor := Some ''none''\<rparr>
                    else ct) s)"

definition updateCartDrawerDisplay :: "gw_fields \<Rightarrow> dr_container \<Rightarrow> dr_container" where
  \<comment> \<open>lines 401--412: each span is written only if present\<close>
  "updateCartDrawerDisplay f ct =
     ct\<lparr>dc_display := map_option (\<lambda>d. d\<lparr>dp_to := map_option (\<lambda>_. gf_to f) (dp_to d),
                                       dp_from := map_option (\<lambda>_. gf_from f) (dp_from d),
                                       dp_message := map_option (\<lambda>_. gf_message f) (dp_message d)\<rparr>)
                       (dc_display ct)\<rparr>"

definition showCartDrawerError :: "container_id \<Rightarrow> string \<Rightarrow> 'a dr_state_scheme \<Rightarrow> 'a dr_state_scheme" where
  \<comment> \<open>lines 414--432; an error element created but never attached changes nothing visible\<close>
  "showCartDrawerError c msg s =
     (case dr_containers s c of
        None \<Rightarrow> s
      | Some ct \<Rightarrow>
          if dc_error ct = None \<and> \<not> dc_has_actions ct then s
          else schedule 5000 (HideDrawerError c)
                 (update_container c (\<lambda>ct. ct\<lparr>dc_error := Some \<lparr>er_text = msg, er_show = True\<rparr>\<rparr>) s))"

definition clearCartDrawerErrors :: "container_id \<Rightarrow> 'a dr_state_scheme \<Rightarrow> 'a dr_state_scheme" where
  "clearCartDrawerErrors c s =
     update_container c (\<lambda>ct. ct\<lparr>dc_error := map_option (\<lambda>e. e\<lparr>er_show := False\<rparr>) (dc_error ct)\<rparr>) s"

definition drawer_fields :: "dr_container \<Rightarrow> gw_fields" where
  \<comment> \<open>lines 323--331\<close>
  "drawer_fields ct =
     \<lparr>gf_to = (case dc_to ct of None \<Rightarrow> [] | Some v \<Rightarrow> js_trim v),
      gf_from = (case dc_from ct of None \<Rightarrow> [] | Some v \<Rightarrow> js_trim v),
      gf_message = (case dc_message ct of None \<Rightarrow> [] | Some v \<Rightarrow> js_trim v)\<rparr>"


subsection \<open>updateCartDrawerGiftWrap\<close>

definition dr_read :: "js_binding \<Rightarrow> js_exception + container_id" where
  \<comment> \<open>a read of \<open>giftWrapContainer\<close> inside the \<open>try\<close> block\<close>
  "dr_read b = (case b of Uninitialized \<Rightarrow> Inl ReferenceError | Initialized c \<Rightarrow> Inr c)"

definition drawer_send :: "dr_cont \<Rightarrow> fetch_call \<Rightarrow> 'a dr_state_scheme \<Rightarrow> 'a dr_state_scheme" where
  "drawer_send k call s = s\<lparr>ie_log := ie_log s @ [IeFetch call], dr_pending := dr_pending s @ [(k, call)]\<rparr>"

text \<open>The \<open>try\<close> block up to \<open>await fetch\<close> (lines 323--363), for the update button of
  container \<open>c\<close> and the item key \<open>k\<close> read before the block.\<close>

definition drawer_try_start ::
  "js_binding \<Rightarrow> container_id \<Rightarrow> item_key \<Rightarrow> 'a dr_state_scheme \<Rightarrow> 'a dr_state_scheme completion" where
  "drawer_try_start b c k s =
     (case dr_read b of
        Inl e \<Rightarrow> Thrown e s
      | Inr g \<Rightarrow>
          (case dr_containers s g of
             None \<Rightarrow> Thrown TypeError s
           | Some ct \<Rightarrow>
               (let flds = drawer_fields ct in
                if \<not> js_truthy_str (gf_to flds)
                then (let s1 = showCartDrawerError g ''Recipient name is required'' s
                      in Normal (if dc_to ct = None then s1 else s1\<lparr>dr_focus := Some g\<rparr>))
                else Awaiting (drawer_send (DrUpdateCont c flds b) (change_properties_call k flds)
                                 (clearCartDrawerErrors g (setLoadingState (DrawerButton c) True s))))))"

text \<open>The rest of the \<open>try\<close> block, run with the response (lines 365--391). Line 373
  initialises the inner binding with \<open>updateButton.closest(...)\<close>, the container
  \<open>c\<close> of the button.\<close>

definition drawer_try_finish ::
  "js_binding \<Rightarrow> container_id \<Rightarrow> gw_fields \<Rightarrow> fetch_response \<Rightarrow> 'a dr_state_scheme
     \<Rightarrow> 'a dr_state_scheme completion" where
  "drawer_try_finish b c flds r s =
     (if \<not> response_ok r then Thrown UpdateFailed s
      else (case dr_read b of
              Inl e \<Rightarrow> Thrown e s
            | Inr g \<Rightarrow>
                (case dr_containers s g of
                   None \<Rightarrow> Thrown TypeError s
                 | Some _ \<Rightarrow>
                     (let s1 = update_container g (updateCartDrawerDisplay flds) s in
                      case dr_containers s1 c of
                        None \<Rightarrow> Thrown TypeError s1
                      | Some _ \<Rightarrow>
                          (let s2 = update_container c (\<lambda>ct. if dc_editor ct \<noteq> None \<and> dc_toggle ct \<noteq> None
                                                              then set_editor_expanded False ct else ct) s1;
                               s3 = showSuccess (DrawerButton c) s2
                           in Normal (if dr_has_drawer s3 \<and> dr_render s3
                                      then s3\<lparr>ie_log := ie_log s3 @ [IeRenderDrawer]\<rparr> else s3))))))"

definition drawer_complete ::
  "container_id \<Rightarrow> 'a dr_state_scheme completion \<Rightarrow> 'a dr_state_scheme" where
  \<comment> \<open>\<open>catch\<close> (the outer \<open>giftWrapContainer\<close>, line 395) and \<open>finally\<close> (line 397)\<close>
  "drawer_complete c r =
     (case r of
        Normal s \<Rightarrow> setLoadingState (DrawerButton c) False s
      | Thrown _ s \<Rightarrow> setLoadingState (DrawerButton c) False
                       (showCartDrawerError c ''Failed to update gift wrap. Please try again.'' s)
      | Awaiting s \<Rightarrow> s)"

definition updateCartDrawerGiftWrap :: "container_id option \<Rightarrow> 'a dr_state_scheme \<Rightarrow> 'a dr_state_scheme" where
  \<comment> \<open>lines 314--399; the argument is the container of the update button\<close>
  "updateCartDrawerGiftWrap cc s =
     (case cc of
        None \<Rightarrow> s
      | Some c \<Rightarrow>
          (case dr_containers s c of
             None \<Rightarrow> s
           | Some ct \<Rightarrow>
               (case dc_key ct of
                  None \<Rightarrow> s
                | Some k \<Rightarrow> if \<not> js_truthy_str k then s
                            else drawer_complete c (drawer_try_start Uninitialized c k s))))"

definition dr_resume :: "dr_cont \<Rightarrow> fetch_response \<Rightarrow> 'a dr_state_scheme \<Rightarrow> 'a dr_state_scheme" where
  "dr_resume k r s = (case k of DrUpdateCont c flds b \<Rightarrow> drawer_complete c (drawer_try_finish b c flds r s))"

definition dr_respond :: "nat \<Rightarrow> fetch_response \<Rightarrow> 'a dr_state_scheme \<Rightarrow> 'a dr_state_scheme" where
  "dr_respond i r s =
     (if i < length (dr_pending s)
      then dr_resume (fst (dr_pending s ! i)) r (s\<lparr>dr_pending := remove_nth i (dr_pending s)\<rparr>)
      else s)"

subsection \<open>The drawer's listeners\<close>

record dr_click =
  dk_toggle :: "container_id option option"
  dk_update :: "container_id option option"

definition handleCartDrawerClick :: "dr_click \<Rightarrow> 'a dr_state_scheme \<Rightarrow> 'a dr_state_scheme" where
  \<comment> \<open>lines 38--50: \<open>dk_toggle\<close> is the container of the closest toggle button, when there
      is one; \<open>dk_update\<close> the container of the target when it is an update button\<close>
  "handleCartDrawerClick t s =
     (case dk_toggle t of
        Some cc \<Rightarrow> toggleCartDrawerEditor cc s
      | None \<Rightarrow> (case dk_update t of Some cc \<Rightarrow> updateCartDrawerGiftWrap cc s | None \<Rightarrow> s))"

definition handleCartDrawerChange :: "jsval \<Rightarrow> bool \<Rightarrow> 'a dr_state_scheme \<Rightarrow> 'a dr_state_scheme" where
  \<comment> \<open>lines 52--59: the key is \<open>dataset.giftWrapToggleInline\<close>, \<open>undefined\<close> when absent\<close>
  "handleCartDrawerChange k checked s = (if \<not> checked then removeGiftWrap_start k s else s)"

definition dr_click_dispatched :: "dr_click \<Rightarrow> 'a dr_state_scheme \<Rightarrow> bool" where
  "dr_click_dispatched t s =
     (case (dk_toggle t, dk_update t) of
        (None, Some (Some c)) \<Rightarrow>
          (case ie_buttons s (DrawerButton c) of None \<Rightarrow> True | Some b \<Rightarrow> \<not> bt_disabled b)
      | _ \<Rightarrow> True)"

definition bindEvents_drawer :: "'a dr_state_scheme \<Rightarrow> 'a dr_state_scheme" where
  "bindEvents_drawer s = (if dr_has_drawer s then s\<lparr>dr_bound := Suc (dr_bound s)\<rparr> else s)"

definition fire_drawer_timer :: "ie_timer \<Rightarrow> 'a dr_state_scheme \<Rightarrow> 'a dr_state_scheme" where
  "fire_drawer_timer t s =
     (case t of
        HideDrawerError c \<Rightarrow>
          update_container c (\<lambda>ct. ct\<lparr>dc_error := map_option (\<lambda>e. e\<lparr>er_show := False\<rparr>) (dc_error ct)\<rparr>) s
      | _ \<Rightarrow> fire_page_timer t s)"

text \<open>
  The events of the page with the drawer. There is no change event for the drawer's
  listener: \<open>handleCartDrawerChange\<close> acts only on a target with the class
  \<open>cart-drawer__gift-wrap-toggle\<close>, and a shopper's click on such a target is a click
  whose closest \<open>.cart-drawer__gift-wrap-toggle\<close> is the target itself, which
  \<open>handleCartDrawerClick\<close> cancels with \<open>preventDefault\<close> (line 42). The drawer's
  click and change listeners are bound together, so a checkbox with that class never
  changes state and never fires \<open>change\<close>: such a click is \<open>DrClick\<close> with
  \<open>dk_toggle\<close> set. \<open>handleCartDrawerChange\<close> is translated above, and no event
  of the model runs it.
\<close>

datatype dr_event =
    DrPage ie_event
  | DrClick dr_click
  | DrResponse nat fetch_response

fun dr_step :: "dr_state \<Rightarrow> dr_event \<Rightarrow> dr_state" where
  "dr_step s (DrPage IeSectionLoad) = bindEvents_section (bindEvents_drawer s)"
| "dr_step s (DrPage (IeTick d)) = tick fire_drawer_timer d s"
| "dr_step s (DrPage e) = ie_step s e"
| "dr_step s (DrClick t) =
     (if dr_click_dispatched t s then (handleCartDrawerClick t ^^ dr_bound s) s else s)"
| "dr_step s (DrResponse i r) = dr_respond i r s"

subsection \<open>Examples\<close>

definition dr_example_container :: dr_container where
  "dr_example_container =
     \<lparr>dc_key = Some ''K1'', dc_to = Some '' Ann '', dc_from = Some ''Bo'', dc_message = Some ''Happy birthday'',
      dc_display = Some \<lparr>dp_visible = True, dp_to = Some ''Al'', dp_from = Some ''Bo'', dp_message = Some []\<rparr>,
      dc_editor = Some ''none'',
      dc_toggle = Some \<lparr>tg_expanded = False, tg_label_edit = Some ''flex'', tg_label_cancel = Some ''none''\<rparr>,
      dc_error = None, dc_has_actions = True\<rparr>"

definition dr_example_state :: dr_state where
  "dr_example_state =
     \<lparr>ie_to = Map.empty, ie_from = Map.empty, ie_message = Map.empty, ie_focus = None,
      ie_rows = Map.empty, ie_toggles = Map.empty,
      ie_buttons = [DrawerButton ''C1'' \<mapsto> ie_example_button], ie_cart_api = True,
      ie_has_section = False, ie_section_bound = 0, ie_now = 0, ie_timers = [], ie_pending = [],
      ie_log = [], dr_containers = [''C1'' \<mapsto> dr_example_container], dr_focus = None,
      dr_has_drawer = True, dr_render = True, dr_bound = 1, dr_pending = []\<rparr>"

abbreviation dr_toggle_click :: "container_id \<Rightarrow> dr_click" where
  "dr_toggle_click c \<equiv> \<lparr>dk_toggle = Some (Some c), dk_update = None\<rparr>"

subsection \<open>Lemmas\<close>

lemma drawer_try_start_tdz: "drawer_try_start Uninitialized c k s = Thrown ReferenceError s"
  by (simp add: drawer_try_start_def dr_read_def)

lemma dr_obs_container_ops [simp]:
  "ie_log (update_container c f s) = ie_log s" "ie_pending (update_container c f s) = ie_pending s"
  "dr_pending (update_container c f s) = dr_pending s"
  "ie_buttons (update_container c f s) = ie_buttons s"
  "ie_timers (update_container c f s) = ie_timers s" "ie_now (update_container c f s) = ie_now s"
  by (simp_all add: update_container_def)

lemma dr_obs_showCartDrawerError [simp]:
  "ie_log (showCartDrawerError c m s) = ie_log s" "ie_pending (showCartDrawerError c m s) = ie_pending s"
  "dr_pending (showCartDrawerError c m s) = dr_pending s"
  "ie_buttons (showCartDrawerError c m s) = ie_buttons s"
  by (simp_all add: showCartDrawerError_def schedule_def split: option.splits)

lemma dr_obs_setLoadingState [simp]:
  "ie_log (setLoadingState r l s) = ie_log s" "ie_pending (setLoadingState r l s) = ie_pending s"
  "dr_pending (setLoadingState r l s) = dr_pending s"
  "dr_containers (setLoadingState r l s) = dr_containers s"
  "ie_timers (setLoadingState r l s) = ie_timers s"
  by (simp_all add: setLoadingState_def)

lemma updateCartDrawerGiftWrap_tdz:
  "updateCartDrawerGiftWrap (Some c) s =
     (case dr_containers s c of
        None \<Rightarrow> s
      | Some ct \<Rightarrow>
          if dc_key ct = None \<or> dc_key ct = Some [] then s
          else setLoadingState (DrawerButton c) False
                 (showCartDrawerError c ''Failed to update gift wrap. Please try again.'' s))"
  by (auto simp: updateCartDrawerGiftWrap_def drawer_try_start_tdz drawer_complete_def js_truthy_str_def
           split: option.splits)

lemma updateCartDrawerGiftWrap_obs:
  "ie_log (updateCartDrawerGiftWrap cc s) = ie_log s \<and> ie_pending (updateCartDrawerGiftWrap cc s) = ie_pending s
   \<and> dr_pending (updateCartDrawerGiftWrap cc s) = dr_pending s"
  by (cases cc) (simp_all add: updateCartDrawerGiftWrap_def drawer_try_start_tdz drawer_complete_def split: option.splits)

lemma handleCartDrawerClick_obs:
  "(ie_log (handleCartDrawerClick t s), ie_pending (handleCartDrawerClick t s), dr_pending (handleCartDrawerClick t s))
     = (ie_log s, ie_pending s, dr_pending s)"
  using updateCartDrawerGiftWrap_obs [of _ s]
  by (simp add: handleCartDrawerClick_def toggleCartDrawerEditor_def split: option.splits)

lemma dr_step_click_obs:
  "ie_log (dr_step s (DrClick t)) = ie_log s \<and> ie_pending (dr_step s (DrClick t)) = ie_pending s
   \<and> dr_pending (dr_step s (DrClick t)) = dr_pending s"
proof -
  have "\<And>n. (\<lambda>x. (ie_log x, ie_pending x, dr_pending x)) ((handleCartDrawerClick t ^^ n) s)
           = (ie_log s, ie_pending s, dr_pending s)"
    by (rule funpow_invariant) (rule handleCartDrawerClick_obs)
  then show ?thesis by simp
qed

lemma toggle_step:
  "dr_containers s c = Some ct \<Longrightarrow> dc_toggle ct = Some t \<Longrightarrow>
     dr_containers (toggleCartDrawerEditor (Some c) s) c = Some (set_editor_expanded (\<not> tg_expanded t) ct)"
  by (simp add: toggleCartDrawerEditor_def update_container_def)

lemma toggle_funpow:
  assumes "dr_containers s c = Some ct" "dc_toggle ct = Some t"
  shows "\<exists>ct' t'. dr_containers ((toggleCartDrawerEditor (Some c) ^^ n) s) c = Some ct'
           \<and> dc_toggle ct' = Some t' \<and> tg_expanded t' = (tg_expanded t \<noteq> odd n)
           \<and> dc_to ct' = dc_to ct \<and> dc_from ct' = dc_from ct \<and> dc_message ct' = dc_message ct"
proof (induction n)
  case 0
  then show ?case using assms by simp
next
  case (Suc n)
  then obtain ct' t' where ih: "dr_containers ((toggleCartDrawerEditor (Some c) ^^ n) s) c = Some ct'"
    "dc_toggle ct' = Some t'" "tg_expanded t' = (tg_expanded t \<noteq> odd n)"
    "dc_to ct' = dc_to ct" "dc_from ct' = dc_from ct" "dc_message ct' = dc_message ct"
    by blast
  have "dr_containers ((toggleCartDrawerEditor (Some c) ^^ Suc n) s) c =
          Some (set_editor_expanded (\<not> tg_expanded t') ct')"
    using toggle_step [OF ih(1,2)] by simp
  then show ?case using ih(2-6) by (simp add: set_editor_expanded_def)
qed

subsection \<open>Properties of the drawer editor\<close>

text \<open>C23. No click in the cart drawer sends a request or changes the requests in flight, whatever the target and however many times the drawer listeners are bound: the toggle only shows or hides the editor, and the update throws before its fetch. This includes a click on a toggle checkbox: it is cancelled, so unchecking it never removes the gift wrap.\<close>

theorem dr_click_never_sends:
  "ie_log (dr_step s (DrClick t)) = ie_log s \<and> ie_pending (dr_step s (DrClick t)) = ie_pending s
   \<and> dr_pending (dr_step s (DrClick t)) = dr_pending s"
  by (rule dr_step_click_obs)

text \<open>C24. A click on the update button of a drawer container that has an item key always ends in the failure message \<open>Failed to update gift wrap. Please try again.\<close> with its five-second timer, without any request and whatever the fields hold: the first read of the block-scoped \<open>giftWrapContainer\<close> (line 323) is in its temporal dead zone and throws a \<open>ReferenceError\<close>; the \<open>finally\<close> block then resets the button.\<close>

theorem dr_update_always_fails:
  assumes "dr_containers s c = Some ct" "dc_key ct = Some k" "k \<noteq> []"
      and "dc_error ct \<noteq> None \<or> dc_has_actions ct" "ie_buttons s (DrawerButton c) = Some b"
  shows "map_option dc_error (dr_containers (updateCartDrawerGiftWrap (Some c) s) c)
           = Some (Some \<lparr>er_text = ''Failed to update gift wrap. Please try again.'', er_show = True\<rparr>)
       \<and> ie_timers (updateCartDrawerGiftWrap (Some c) s) = ie_timers s @ [(ie_now s + 5000, HideDrawerError c)]
       \<and> ie_buttons (updateCartDrawerGiftWrap (Some c) s) (DrawerButton c) = Some (set_loading False b)
       \<and> ie_log (updateCartDrawerGiftWrap (Some c) s) = ie_log s"
  using assms
  by (auto simp: updateCartDrawerGiftWrap_tdz showCartDrawerError_def schedule_def update_container_def
                 setLoadingState_def)

theorem dr_update_always_fails_witness:
  "map_option dc_error (dr_containers (updateCartDrawerGiftWrap (Some ''C1'') dr_example_state) ''C1'')
     = Some (Some \<lparr>er_text = ''Failed to update gift wrap. Please try again.'', er_show = True\<rparr>)
   \<and> ie_timers (updateCartDrawerGiftWrap (Some ''C1'') dr_example_state) = [(5000, HideDrawerError ''C1'')]
   \<and> ie_buttons (updateCartDrawerGiftWrap (Some ''C1'') dr_example_state) (DrawerButton ''C1'')
       = Some (set_loading False ie_example_button)
   \<and> ie_log (updateCartDrawerGiftWrap (Some ''C1'') dr_example_state) = []"
  using dr_update_always_fails [where s = dr_example_state and c = "''C1''" and ct = dr_example_container
          and k = "''K1''" and b = ie_example_button]
  by (simp add: dr_example_state_def dr_example_container_def)

text \<open>C25. A click on a drawer toggle flips \<open>aria-expanded\<close> once per bound copy of the drawer listener, so it is flipped exactly when the listener is bound an odd number of times; the field values are left as they were (no clearing on collapse).\<close>

theorem dr_toggle_parity:
  assumes "dr_containers s c = Some ct" "dc_toggle ct = Some t"
  shows "\<exists>ct' t'. dr_containers (dr_step s (DrClick \<lparr>dk_toggle = Some (Some c), dk_update = None\<rparr>)) c = Some ct'
           \<and> dc_toggle ct' = Some t' \<and> tg_expanded t' = (tg_expanded t \<noteq> odd (dr_bound s))
           \<and> dc_to ct' = dc_to ct \<and> dc_from ct' = dc_from ct \<and> dc_message ct' = dc_message ct"
proof -
  have h: "handleCartDrawerClick \<lparr>dk_toggle = Some (Some c), dk_update = None\<rparr> = toggleCartDrawerEditor (Some c)"
    by (simp add: handleCartDrawerClick_def fun_eq_iff)
  have d: "dr_click_dispatched \<lparr>dk_toggle = Some (Some c), dk_update = None\<rparr> s"
    by (simp add: dr_click_dispatched_def)
  have "dr_step s (DrClick \<lparr>dk_toggle = Some (Some c), dk_update = None\<rparr>) =
          (toggleCartDrawerEditor (Some c) ^^ dr_bound s) s"
    by (simp only: dr_step.simps d h if_True)
  then show ?thesis using toggle_funpow [OF assms, of "dr_bound s"] by (simp only:)
qed

theorem dr_toggle_parity_witness:
  "map_option (map_option tg_expanded \<circ> dc_toggle)
      (dr_containers (dr_step (dr_example_state\<lparr>dr_bound := 2\<rparr>) (DrClick (dr_toggle_click ''C1''))) ''C1'')
     = Some (Some False)"
proof -
  obtain ct' t' where "dr_containers (dr_step (dr_example_state\<lparr>dr_bound := 2\<rparr>) (DrClick (dr_toggle_click ''C1''))) ''C1''
                        = Some ct'" "dc_toggle ct' = Some t'" "tg_expanded t' = (False \<noteq> odd (2::nat))"
    using dr_toggle_parity [where s = "dr_example_state\<lparr>dr_bound := 2\<rparr>" and c = "''C1''"
            and ct = dr_example_container
            and t = "\<lparr>tg_expanded = False, tg_label_edit = Some ''flex'', tg_label_cancel = Some ''none''\<rparr>"]
    by (auto simp: dr_example_state_def dr_example_container_def)
  then show ?thesis by simp
qed

end
