(* ===== verification/EditorRuns.thy ===== *)
theory EditorRuns
  imports InlineEditor
begin

text \<open>
  Runs of the cart-page editor: what the reachable states of \<open>InlineEditor\<close> promise
  over time. Answering every request in flight clears every loading state when the
  section listeners are bound once (\<open>answer_all\<close> answers the oldest request first,
  one response at a time). Every \<open>setTimeout\<close> callback is due within five seconds
  (the invariant \<open>timers_window\<close>, by rule induction over \<open>ie_reachable\<close>).
\<close>

subsection \<open>Definitions\<close>

definition answer_all :: "ie_state \<Rightarrow> fetch_response list \<Rightarrow> ie_state" where
  "answer_all s rs = foldl (\<lambda>s r. ie_step s (IeResponse 0 r)) s rs"

definition timers_window :: "'a ie_state_scheme \<Rightarrow> bool" where
  "timers_window s \<longleftrightarrow> (\<forall>p \<in> set (ie_timers s). ie_now s < fst p \<and> fst p \<le> ie_now s + 5000)"

definition ie_example_failed :: ie_state where
  "ie_example_failed = ie_step (ie_step ie_example_page (IeClick (update_click ''K1''))) (IeResponse 0 (HttpResponse 500 None))"

subsection \<open>Lemmas\<close>

lemma ie_pending_finish [simp]:
  "ie_pending (updateGiftWrap_finish k r s) = ie_pending s"
  "ie_pending (removeGiftWrap_finish k r s) = ie_pending s"
  by (simp_all add: updateGiftWrap_finish_def removeGiftWrap_finish_def ie_page_defs Let_def
           split: fetch_response.splits option.splits)

lemma ie_pending_respond0:
  "ie_pending s = p # ps \<Longrightarrow> ie_pending (respond 0 r s) = ps"
  by (simp add: respond_def ie_resume_def remove_nth_def split: ie_cont.splits)

lemma answer_all_Cons: "answer_all s (r # rs) = answer_all (ie_step s (IeResponse 0 r)) rs"
  by (simp add: answer_all_def)

lemma answer_all_pending:
  "length rs = length (ie_pending s) \<Longrightarrow> ie_pending (answer_all s rs) = []"
proof (induction rs arbitrary: s)
  case Nil
  then show ?case by (simp add: answer_all_def)
next
  case (Cons r rs)
  then obtain p ps where "ie_pending s = p # ps" by (cases "ie_pending s") auto
  then show ?case using Cons by (simp add: answer_all_Cons ie_pending_respond0)
qed

lemma answer_all_reachable: "ie_reachable s \<Longrightarrow> ie_reachable (answer_all s rs)"
proof (induction rs arbitrary: s)
  case Nil
  then show ?case by (simp add: answer_all_def)
next
  case (Cons r rs)
  then show ?case unfolding answer_all_Cons by (blast intro: ie_reachable.step)
qed

lemma answer_all_bound: "ie_section_bound (answer_all s rs) = ie_section_bound s"
  by (induction rs arbitrary: s) (simp_all add: answer_all_def)

lemma timers_window_schedule:
  "timers_window s \<Longrightarrow> 0 < d \<Longrightarrow> d \<le> 5000 \<Longrightarrow> timers_window (schedule d t s)"
  by (auto simp: timers_window_def schedule_def)

lemma timers_clock_ops [simp]:
  "ie_timers (setLoadingState r l s) = ie_timers s" "ie_now (setLoadingState r l s) = ie_now s"
  "ie_timers (refreshCartUI s) = ie_timers s" "ie_now (refreshCartUI s) = ie_now s"
  "ie_timers (send kc c s) = ie_timers s" "ie_now (send kc c s) = ie_now s"
  "ie_timers (clearErrors k s) = ie_timers s" "ie_now (clearErrors k s) = ie_now s"
  "ie_timers (fire_page_timer t s) = ie_timers s" "ie_now (fire_page_timer t s) = ie_now s"
  "ie_timers (input_field k n v s) = ie_timers s" "ie_now (input_field k n v s) = ie_now s"
  "ie_timers (bindEvents_section s) = ie_timers s" "ie_now (bindEvents_section s) = ie_now s"
  "ie_timers (removeGiftWrap_start j s) = ie_timers s" "ie_now (removeGiftWrap_start j s) = ie_now s"
  "ie_timers (removeGiftWrap_finish k rr s) = ie_timers s" "ie_now (removeGiftWrap_finish k rr s) = ie_now s"
  by (simp_all add: ie_page_defs fire_page_timer_def input_field_def bindEvents_section_def
                    removeGiftWrap_start_def removeGiftWrap_finish_def
               split: option.splits ie_timer.splits field_name.splits)

lemma timers_window_dom [simp]:
  "timers_window (s\<lparr>ie_rows := x\<rparr>) = timers_window s"
  "timers_window (s\<lparr>ie_buttons := y\<rparr>) = timers_window s"
  "timers_window (s\<lparr>ie_focus := z\<rparr>) = timers_window s"
  "timers_window (update_field_map n m s) = timers_window s"
  by (simp_all add: timers_window_def update_field_map_def split: field_name.splits)

lemma timers_window_showError: "timers_window s \<Longrightarrow> timers_window (showError k m s)"
  by (simp add: showError_def timers_window_schedule split: option.splits)

lemma timers_window_showFieldError: "timers_window s \<Longrightarrow> timers_window (showFieldError k n m s)"
  unfolding showFieldError_def by (rule timers_window_showError) (simp split: option.splits)

lemma timers_window_showSuccess: "timers_window s \<Longrightarrow> timers_window (showSuccess r s)"
  by (simp add: showSuccess_def Let_def timers_window_schedule split: option.splits)

lemma timers_window_passive:
  "timers_window s \<Longrightarrow> timers_window (setLoadingState r l s)"
  "timers_window s \<Longrightarrow> timers_window (refreshCartUI s)"
  "timers_window s \<Longrightarrow> timers_window (send kc c s)"
  "timers_window s \<Longrightarrow> timers_window (clearErrors k s)"
  "timers_window s \<Longrightarrow> timers_window (removeGiftWrap_start j s)"
  "timers_window s \<Longrightarrow> timers_window (removeGiftWrap_finish k rr s)"
  "timers_window s \<Longrightarrow> timers_window (input_field k n v s)"
  "timers_window s \<Longrightarrow> timers_window (bindEvents_section s)"
  "timers_window s \<Longrightarrow> timers_window (s\<lparr>ie_pending := ps\<rparr>)"
  "timers_window s \<Longrightarrow> timers_window (s\<lparr>ie_toggles := tg\<rparr>)"
  by (simp_all add: timers_window_def)

lemma timers_window_update:
  "timers_window s \<Longrightarrow> timers_window (updateGiftWrap_start k s)"
  "timers_window s \<Longrightarrow> timers_window (updateGiftWrap_finish k r s)"
  by (simp_all add: updateGiftWrap_start_def updateGiftWrap_finish_def Let_def timers_window_passive
                    timers_window_showFieldError timers_window_showError timers_window_showSuccess
               split: fetch_response.splits option.splits)

lemma timers_window_handlers:
  "timers_window s \<Longrightarrow> timers_window (handleCartSectionClick t s)"
  "timers_window s \<Longrightarrow> timers_window (handleCartSectionChange k ch s)"
  by (simp_all add: handleCartSectionClick_def handleCartSectionChange_def cancelGiftWrap_def Let_def
                    timers_window_update timers_window_passive split: option.splits)

lemma foldl_fire_clock:
  "ie_timers (foldl (\<lambda>s' p. fire_page_timer (snd p) s') x ys) = ie_timers x \<and>
   ie_now (foldl (\<lambda>s' p. fire_page_timer (snd p) s') x ys) = ie_now x"
  by (induction ys arbitrary: x) simp_all

lemma timers_window_tick: "timers_window s \<Longrightarrow> timers_window (tick fire_page_timer d s)"
  by (auto simp: tick_def Let_def timers_window_def foldl_fire_clock)

lemma timers_window_respond: "timers_window s \<Longrightarrow> timers_window (respond i r s)"
  by (simp add: respond_def ie_resume_def timers_window_update timers_window_passive split: ie_cont.splits)

lemma timers_window_step: "timers_window s \<Longrightarrow> timers_window (ie_step s e)"
proof (cases e)
  case (IeClick t)
  assume "timers_window s"
  then show ?thesis using IeClick by (simp add: funpow_preserves timers_window_handlers)
next
  case (IeToggle k c)
  assume "timers_window s"
  then show ?thesis using IeToggle
    by (simp add: toggle_line_def funpow_preserves timers_window_handlers timers_window_passive split: option.splits)
qed (simp_all add: timers_window_passive timers_window_respond timers_window_tick)

lemma ie_reachable_timers_window: "ie_reachable s \<Longrightarrow> timers_window s"
proof (induction rule: ie_reachable.induct)
  case (start s)
  then show ?case by (simp add: ie_page_start_def timers_window_def)
next
  case (step s e)
  then show ?case by (simp only: timers_window_step)
qed

lemma ie_example_failed_reachable: "ie_reachable ie_example_failed"
  unfolding ie_example_failed_def
  by (intro ie_reachable.step ie_reachable.start ie_example_start)

subsection \<open>Properties of runs\<close>

text \<open>C26. The loading state is always cleared (spec 4.2): in a reachable state with the section listeners bound at most once, once every request in flight has been answered, whatever the responses, no update button is loading or disabled.\<close>

theorem ie_loading_cleared:
  assumes "ie_reachable s" "ie_section_bound s \<le> 1" "length rs = length (ie_pending s)"
  shows "ie_pending (answer_all s rs) = []
       \<and> (\<forall>k b. ie_buttons (answer_all s rs) (PageButton k) = Some b \<longrightarrow> \<not> bt_loading b \<and> \<not> bt_disabled b)"
proof -
  have p: "ie_pending (answer_all s rs) = []" using assms(3) by (rule answer_all_pending)
  moreover have "\<not> bt_loading b \<and> \<not> bt_disabled b" if b: "ie_buttons (answer_all s rs) (PageButton k) = Some b" for k b
  proof -
  have "busy_ok (answer_all s rs)"
    using ie_reachable_update_inv [OF answer_all_reachable [OF assms(1)]] assms(2)
    by (simp add: ie_update_invD answer_all_bound)
  then have "bt_disabled b = bt_loading b \<and> upd_count (answer_all s rs) k = (if bt_loading b then 1 else 0)"
    using b by (rule busy_okD)
  then show ?thesis using p by (simp add: upd_count_def split: if_splits)
  qed
  ultimately show ?thesis by blast
qed

theorem ie_loading_cleared_witness:
  "ie_pending (answer_all (ie_step ie_example_page (IeClick (update_click ''K1''))) [HttpResponse 500 None]) = []
   \<and> (\<exists>b. ie_buttons (answer_all (ie_step ie_example_page (IeClick (update_click ''K1''))) [HttpResponse 500 None])
              (PageButton ''K1'') = Some b \<and> \<not> bt_loading b \<and> \<not> bt_disabled b)"
proof -
  let ?s = "answer_all (ie_step ie_example_page (IeClick (update_click ''K1''))) [HttpResponse 500 None]"
  have "length (ie_pending (ie_step ie_example_page (IeClick (update_click ''K1'')))) = 1"
    by (simp add: ie_example_page_def click_dispatched_def ie_example_button_def handleCartSectionClick_def
                  updateGiftWrap_start_valid_pending ie_example_field_def ie_example_trim)
  then have c: "ie_pending ?s = []
       \<and> (\<forall>k b. ie_buttons ?s (PageButton k) = Some b \<longrightarrow> \<not> bt_loading b \<and> \<not> bt_disabled b)"
    using ie_loading_cleared [OF ie_reachable.step [OF ie_reachable.start [OF ie_example_start]],
            of "IeClick (update_click ''K1'')" "[HttpResponse 500 None]"]
    by (simp add: ie_example_page_def)
  have "\<exists>b. ie_buttons ?s (PageButton ''K1'') = Some b"
    by (simp add: answer_all_def ie_example_page_def click_dispatched_def ie_example_button_def
                  handleCartSectionClick_def updateGiftWrap_start_valid ie_example_field_def ie_example_trim
                  respond_def ie_resume_def remove_nth_def send_def setLoadingState_def clearErrors_def
                  updateGiftWrap_finish_def showError_def schedule_def)
  then show ?thesis using c by blast
qed

text \<open>C27. In every reachable state of the cart page each pending \<open>setTimeout\<close> callback falls due after the current time and at most five seconds after it.\<close>

theorem ie_timers_within_5s:
  "ie_reachable s \<Longrightarrow> \<forall>(t, cb) \<in> set (ie_timers s). ie_now s < t \<and> t \<le> ie_now s + 5000"
proof -
  assume "ie_reachable s"
  then have "timers_window s" by (rule ie_reachable_timers_window)
  then show ?thesis by (auto simp: timers_window_def)
qed

theorem ie_timers_within_5s_witness:
  "ie_now ie_example_failed < fst (hd (ie_timers ie_example_failed))
   \<and> fst (hd (ie_timers ie_example_failed)) \<le> ie_now ie_example_failed + 5000"
proof -
  have "ie_timers ie_example_failed \<noteq> []"
    by (simp add: ie_example_failed_def ie_example_page_def click_dispatched_def ie_example_button_def
                  handleCartSectionClick_def updateGiftWrap_start_valid ie_example_field_def ie_example_trim
                  respond_def ie_resume_def remove_nth_def send_def setLoadingState_def clearErrors_def
                  updateGiftWrap_finish_def showError_def schedule_def ie_example_row_def)
  then have "hd (ie_timers ie_example_failed) \<in> set (ie_timers ie_example_failed)" by simp
  then show ?thesis using ie_timers_within_5s [OF ie_example_failed_reachable] by (auto simp: case_prod_beta)
qed

end
