(* ===== verification/Cart.thy ===== *)
theory Cart
  imports EditorRuns
begin

text \<open>
  The change endpoint the cart page talks to, as the specification describes its
  contract (section 6), and the shape of the requests the page sends. The endpoint is an
  external service, not code of this repository; its contract is stated here only to say
  what a well-formed request is. A cart is a map from item keys to lines (variant,
  quantity, properties). \<open>cart_change\<close> is \<open>/cart/change.js\<close>: the body's \<open>id\<close>
  names the line, \<open>quantity: 0\<close> removes it, \<open>properties\<close> replaces its
  properties; a body without a string \<open>id\<close> or naming no line is rejected.
  \<open>page_request_ok\<close> is the shape of a change request; \<open>log_ok\<close> says every request
  in the log has it, an invariant of the reachable cart-page states.
\<close>

subsection \<open>The endpoint contract\<close>

type_synonym line_props = "(string \<times> string) list"

record cart_line =
  cl_variant :: int
  cl_quantity :: int
  cl_props :: line_props

type_synonym cart = "item_key \<rightharpoonup> cart_line"

definition json_member :: "json \<Rightarrow> string \<Rightarrow> json option" where
  "json_member j k = (case json_get j k of Some (Some v) \<Rightarrow> Some v | _ \<Rightarrow> None)"

fun json_str_members :: "(string \<times> json) list \<Rightarrow> line_props option" where
  "json_str_members [] = Some []"
| "json_str_members ((k, JStr v) # ms) = map_option (\<lambda>ps. (k, v) # ps) (json_str_members ms)"
| "json_str_members (_ # ms) = None"

definition json_props :: "json option \<Rightarrow> line_props option" where
  \<comment> \<open>an absent \<open>properties\<close> member is no properties; otherwise a mapping to strings\<close>
  "json_props p = (case p of None \<Rightarrow> Some [] | Some (JObj ms) \<Rightarrow> json_str_members ms | Some _ \<Rightarrow> None)"

definition cart_change :: "json \<Rightarrow> cart \<Rightarrow> cart option" where
  "cart_change body c =
     (case json_member body ''id'' of
        Some (JStr k) \<Rightarrow>
          (case c k of
             None \<Rightarrow> None
           | Some l \<Rightarrow>
               (case json_member body ''quantity'' of
                  Some (JNum q) \<Rightarrow> if q = 0 then Some (c(k := None)) else Some (c(k \<mapsto> l\<lparr>cl_quantity := q\<rparr>))
                | Some _ \<Rightarrow> None
                | None \<Rightarrow>
                    (case json_member body ''properties'' of
                       None \<Rightarrow> Some c
                     | Some p \<Rightarrow> map_option (\<lambda>ps. c(k \<mapsto> l\<lparr>cl_props := ps\<rparr>)) (json_props (Some p)))))
      | _ \<Rightarrow> None)"

definition cart_example :: cart where
  "cart_example = [''K1'' \<mapsto> \<lparr>cl_variant = 4001, cl_quantity = 1,
      cl_props = [(''_GiftWrap'', ''Yes''), (''To'', ''Al''), (''From'', []), (''Message'', [])]\<rparr>]"

definition page_request_ok :: "fetch_call \<Rightarrow> bool" where
  "page_request_ok c \<longleftrightarrow>
     fc_url c = ''/cart/change.js'' \<and> fc_method c = ''POST'' \<and>
     (case json_member (fc_body c) ''id'' of Some (JStr _) \<Rightarrow> True | _ \<Rightarrow> False) \<and>
     (case json_member (fc_body c) ''quantity'' of
        None \<Rightarrow> json_props (json_member (fc_body c) ''properties'') \<noteq> None
      | Some (JNum q) \<Rightarrow> True
      | Some _ \<Rightarrow> False)"

definition page_effect_ok :: "ie_effect \<Rightarrow> bool" where
  "page_effect_ok e = (case e of IeFetch c \<Rightarrow> page_request_ok c | _ \<Rightarrow> True)"

definition log_ok :: "'a ie_state_scheme \<Rightarrow> bool" where
  "log_ok s \<longleftrightarrow> list_all page_effect_ok (ie_log s)"

definition ie_example_update_call :: fetch_call where
  "ie_example_update_call =
     change_properties_call ''K1'' \<lparr>gf_to = ''Ann'', gf_from = ''Bo'', gf_message = ''Happy birthday''\<rparr>"

subsection \<open>Lemmas\<close>

lemma json_member_post:
  "json_member (fc_body (json_post u ms)) k = map_of (rev (json_members ms)) k"
  by (simp add: json_member_def json_get_def json_post_def split: option.splits)

lemma json_member_JObj: "json_member (JObj ms) k = map_of (rev ms) k"
  by (simp add: json_member_def json_get_def split: option.splits)

lemma page_request_ok_accepted:
  "page_request_ok c \<Longrightarrow> json_member (fc_body c) ''id'' = Some (JStr k) \<Longrightarrow> k \<in> dom cart \<Longrightarrow>
     cart_change (fc_body c) cart \<noteq> None"
  by (auto simp: page_request_ok_def cart_change_def split: option.splits json.splits)

lemma page_request_ok_calls:
  "page_request_ok (change_properties_call k f)"
  "page_request_ok (remove_call (JsString k))"
  by (simp_all add: page_request_ok_def change_properties_call_def remove_call_def json_member_JObj
                    json_post_def json_props_def)

lemma log_frame_ops [simp]:
  "ie_log (setLoadingState r l s) = ie_log s"
  "ie_log (schedule d t s) = ie_log s"
  "ie_log (showSuccess r s) = ie_log s"
  "ie_log (showError k m s) = ie_log s"
  "ie_log (showFieldError k n m s) = ie_log s"
  "ie_log (clearErrors k s) = ie_log s"
  "ie_log (fire_page_timer t s) = ie_log s"
  "ie_log (input_field k n v s) = ie_log s"
  "ie_log (bindEvents_section s) = ie_log s"
  by (simp_all add: ie_page_defs fire_page_timer_def input_field_def bindEvents_section_def Let_def
               split: option.splits ie_timer.splits field_name.splits)

lemma log_ok_ops:
  "log_ok s \<Longrightarrow> log_ok (refreshCartUI s)"
  "log_ok s \<Longrightarrow> log_ok (updateGiftWrap_start k s)"
  "log_ok s \<Longrightarrow> log_ok (updateGiftWrap_finish k r s)"
  "log_ok s \<Longrightarrow> log_ok (removeGiftWrap_start (JsString k') s)"
  "log_ok s \<Longrightarrow> log_ok (removeGiftWrap_finish k rr s)"
  by (simp_all add: log_ok_def refreshCartUI_def page_effect_ok_def updateGiftWrap_start_def
                    updateGiftWrap_finish_def removeGiftWrap_start_def removeGiftWrap_finish_def send_def
                    page_request_ok_calls Let_def split: fetch_response.splits option.splits)

lemma log_ok_record [simp]:
  "log_ok (s\<lparr>ie_toggles := x\<rparr>) = log_ok s" "log_ok (s\<lparr>ie_pending := p\<rparr>) = log_ok s"
  by (simp_all add: log_ok_def)

lemma log_ok_handlers:
  "log_ok s \<Longrightarrow> log_ok (handleCartSectionClick t s)"
  "log_ok s \<Longrightarrow> log_ok (handleCartSectionChange k ch s)"
  by (simp_all add: handleCartSectionClick_def handleCartSectionChange_def cancelGiftWrap_def Let_def
                    log_ok_ops split: option.splits)

lemma foldl_fire_log [simp]:
  "ie_log (foldl (\<lambda>s' p. fire_page_timer (snd p) s') x ys) = ie_log x"
  by (induction ys arbitrary: x) simp_all

lemma log_ok_step: "log_ok s \<Longrightarrow> log_ok (ie_step s e)"
proof (cases e)
  case (IeClick t)
  assume "log_ok s"
  then show ?thesis using IeClick by (simp add: funpow_preserves log_ok_handlers)
next
  case (IeToggle k c)
  assume "log_ok s"
  then show ?thesis using IeToggle
    by (simp add: toggle_line_def funpow_preserves log_ok_handlers split: option.splits)
next
  case (IeResponse i r)
  assume "log_ok s"
  then show ?thesis using IeResponse
    by (simp add: respond_def ie_resume_def log_ok_ops split: ie_cont.splits)
next
  case (IeTick d)
  assume "log_ok s"
  then show ?thesis using IeTick by (simp add: tick_def Let_def log_ok_def)
qed (simp_all add: log_ok_def)

lemma ie_reachable_log_ok: "ie_reachable s \<Longrightarrow> log_ok s"
proof (induction rule: ie_reachable.induct)
  case (start s)
  then show ?case by (simp add: ie_page_start_def log_ok_def)
next
  case (step s e)
  then show ?case by (simp only: log_ok_step)
qed

subsection \<open>Requests of the cart page\<close>

text \<open>C28. Every request the cart page has sent, in every reachable state, is a \<open>POST /cart/change.js\<close> whose body names a line by a string \<open>id\<close> and that the change endpoint accepts for every cart holding that line: the page never sends the malformed removal of C34.\<close>

theorem ie_requests_well_formed:
  assumes "ie_reachable s" "IeFetch c \<in> set (ie_log s)"
  shows "fc_url c = ''/cart/change.js'' \<and>
         (\<exists>k. json_member (fc_body c) ''id'' = Some (JStr k) \<and>
              (\<forall>cart. k \<in> dom cart \<longrightarrow> cart_change (fc_body c) cart \<noteq> None))"
proof -
  have "page_request_ok c"
    using ie_reachable_log_ok [OF assms(1)] assms(2) by (auto simp: log_ok_def list_all_iff page_effect_ok_def)
  then obtain k where k: "json_member (fc_body c) ''id'' = Some (JStr k)"
    by (auto simp: page_request_ok_def split: option.splits json.splits)
  show ?thesis
    using \<open>page_request_ok c\<close> k page_request_ok_accepted by (auto simp: page_request_ok_def)
qed

theorem ie_requests_well_formed_witness:
  "fc_url ie_example_update_call = ''/cart/change.js''
   \<and> json_member (fc_body ie_example_update_call) ''id'' = Some (JStr ''K1'')
   \<and> cart_change (fc_body ie_example_update_call) cart_example \<noteq> None"
proof -
  have "IeFetch ie_example_update_call \<in> set (ie_log ie_example_failed)"
    by (simp add: ie_example_failed_def ie_example_update_call_def ie_example_page_def click_dispatched_def
                  ie_example_button_def handleCartSectionClick_def updateGiftWrap_start_valid ie_example_field_def
                  ie_example_trim ie_example_strings respond_def ie_resume_def remove_nth_def send_def
                  setLoadingState_def clearErrors_def updateGiftWrap_finish_def showError_def schedule_def
                  getGiftWrapFields_def field_text_def)
  from ie_requests_well_formed [OF ie_example_failed_reachable this]
  obtain k where "fc_url ie_example_update_call = ''/cart/change.js''"
    "json_member (fc_body ie_example_update_call) ''id'' = Some (JStr k)"
    "\<forall>cart. k \<in> dom cart \<longrightarrow> cart_change (fc_body ie_example_update_call) cart \<noteq> None"
    by blast
  moreover have "json_member (fc_body ie_example_update_call) ''id'' = Some (JStr ''K1'')"
    by (simp add: ie_example_update_call_def change_properties_call_def json_member_post)
  ultimately show ?thesis by (simp add: cart_example_def)
qed

end
