(* ===== verification/Spec2Isabelle.thy ===== *)
theory Spec2Isabelle
  imports GiftWrap CartDrawer Cart
begin

text \<open>
  A verification development for the gift-wrap add-on of a Shopify Dawn storefront
  (\<open>src/assets/gift-wrap.js\<close> and \<open>src/assets/cart-gift-wrap-inline.js\<close>).

  \<^bold>\<open>The program.\<close> Two browser controllers that share no state and talk to the same
  cart endpoints (\<open>/cart/add.js\<close>, \<open>/cart/change.js\<close>):
  \<^item> the add-time controller (\<open>gift-wrap.js\<close>): a checkbox that expands a field group
    (recipient, sender, message) and a form \<open>submit\<close> listener that, when the box is
    checked, replaces the form submission by one request adding the product and the
    gift-wrap product, guarded by the closure flag \<open>isAddingGiftWrap\<close>;
  \<^item> the post-add editor (\<open>cart-gift-wrap-inline.js\<close>, class \<open>GiftWrapInlineEditor\<close>):
    on the cart page, per cart line (\<open>itemKey\<close>), update of the gift-wrap properties
    and removal of the gift-wrap line; in the cart drawer, an expand/collapse toggle
    and an update that also rewrites the summary shown when collapsed.

  \<^bold>\<open>Theories.\<close>
  \<^item> \<open>Prelude\<close>: named collections, the item-key and log types, list lemmas.
  \<^item> \<open>JsRuntime\<close>: the runtime the code relies on, from the ECMAScript
    specification: \<open>trim\<close>, \<open>parseInt(_, 10)\<close>, integer \<open>ToString\<close>,
    \<open>JSON.stringify\<close> on the objects built, member reads of a parsed response,
    \<open>fetch\<close> calls and responses. Lemmas: trim is idempotent and empty exactly on
    whitespace; \<open>parseInt\<close> inverts integer printing.
  \<^item> \<open>GiftWrap\<close>: \<open>gift-wrap.js\<close>. The record \<open>gw_state\<close> holds the DOM values
    read and written, the \<open>isAddingGiftWrap\<close> flag of every initialised instance, the
    requests awaiting a response and the log of observable actions (\<open>gw_effect\<close>).
    \<open>setExpanded\<close>, \<open>showError\<close>, \<open>hideError\<close>, \<open>addProductsToCart\<close> (split at
    its \<open>await fetch\<close> into \<open>addProductsToCart_start\<close> and
    \<open>addProductsToCart_finish\<close>), the submit and change listeners and
    \<open>initializeGiftWrap\<close> are one definition each; \<open>gw_step\<close> runs one browser
    event and \<open>gw_reachable\<close> is the set of states reachable from a page.

  \<^item> \<open>InlineEditor\<close>: the cart-page half of \<open>cart-gift-wrap-inline.js\<close>. The record
    \<open>ie_state\<close> holds, per item key, the recipient, sender and message fields, the editor
    row with its error element, the inline toggle and the update button (its \<open>disabled\<close>
    flag, \<open>loading\<close> class, label and \<open>data-original-text\<close>), the number of times
    \<open>bindEvents\<close> attached the section listeners, a clock with the pending
    \<open>setTimeout\<close> callbacks, the requests awaiting a response (each with the
    continuation it resumes) and the log of requests and cart refreshes.
    \<open>updateGiftWrap\<close> and \<open>removeGiftWrap\<close> are split at \<open>await fetch\<close>
    (\<open>_start\<close>, \<open>_finish\<close>); every helper of the class they call is one definition;
    \<open>ie_step\<close> runs one event: a click or change runs the delegated handler once per
    bound copy, a response resumes the request it answers, \<open>IeTick d\<close> lets \<open>d\<close>
    milliseconds pass and fires the due timers in order.

  \<^item> \<open>CartDrawer\<close>: the drawer half of \<open>cart-gift-wrap-inline.js\<close>. The record
    \<open>dr_state\<close> extends \<open>ie_state\<close> with the \<open>.cart-drawer__gift-wrap\<close> containers
    (item key, fields, summary spans, editor block, toggle button with its labels, error
    element), the number of bound drawer listeners and the drawer requests in flight;
    the helpers shared with the page are the \<open>InlineEditor\<close> definitions on
    \<open>'a ie_state_scheme\<close>. \<open>updateCartDrawerGiftWrap\<close> is modelled with the block
    scoping of its two \<open>const giftWrapContainer\<close> bindings: the \<open>try\<close> block
    (\<open>drawer_try_start\<close>, \<open>drawer_try_finish\<close>) reads the inner binding through
    \<open>dr_read\<close>, and the method enters it uninitialised, so the block throws at its first
    read and its remaining lines, translated too, never run; \<open>drawer_complete\<close> is the
    \<open>catch\<close> and \<open>finally\<close>. \<open>dr_step\<close> runs one event of the whole page, page
    events through \<open>ie_step\<close>. It has no change event for the drawer: the only targets
    of \<open>handleCartDrawerChange\<close> are elements whose clicks \<open>handleCartDrawerClick\<close>
    cancels, so they never fire \<open>change\<close>.
  \<^item> \<open>EditorRuns\<close>: runs of the cart-page editor: \<open>answer_all\<close> answers the requests in
    flight one by one, and the invariant \<open>timers_window\<close> bounds the due times of the
    pending \<open>setTimeout\<close> callbacks.
  \<^item> \<open>Cart\<close>: the change endpoint's contract from the specification (section 6), an
    abstract cart (item key to line) and \<open>cart_change\<close>, stated only to define a
    well-formed change request (\<open>page_request_ok\<close>).

  \<^bold>\<open>What is proved.\<close>
  \<^item> Add-time controller (C1--C11): the request built from the form (C1), the in-flight
    guard as an invariant of every reachable state, per listener instance (C2, C3), every
    branch of the submit listener and of the response (C4--C9, C11) and the double
    initialisation (C10).
  \<^item> Cart-page editor (C12--C22): the update request (C12), the invariant that with the
    listeners bound once the disabled button admits at most one update per line in flight
    (C13, by rule induction over \<open>ie_reachable\<close> with the invariant \<open>busy_ok\<close>),
    the stuck label after a second \<open>bindEvents\<close> (C14), validation, success and failure
    of an update (C15--C17), the removal and its revert (C18, C21, C22) and the error timers
    (C19, C20).
  \<^item> Drawer editor (C23--C25): no drawer click sends a request, a click on a toggle
    checkbox included (C23); the update always fails through the temporal dead zone (C24);
    the toggle flips once per bound listener and never clears the fields (C25).
  \<^item> Runs (C26, C27): with the listeners bound once, answering every request clears every
    loading state (C26, from the invariant of C13); every pending callback is due within
    five seconds (C27, rule induction with \<open>timers_window\<close>).
  \<^item> Requests (C28): every request the cart page has sent in a reachable state is a change
    request with a string \<open>id\<close> that the endpoint accepts whenever the cart holds the
    line (rule induction with \<open>log_ok\<close>).

  \<^bold>\<open>Bounds and fuel.\<close> No loop of the sources is unbounded: listeners run a number of
  times fixed by the state (\<open>^^\<close> on a counter), and timers fire from a finite list.
  No definition needs fuel. \<open>parseInt\<close> results are exact integers (\<open>int\<close>);
  JavaScript numbers are exact only up to 2^53, a bound the variant ids and quantities
  of a storefront stay below, so the model does not round.

  \<^bold>\<open>Findings.\<close> The submit listener returns before \<open>preventDefault\<close> while a request
  is pending, so the form is submitted natively (C9). A second initialisation or a second
  \<open>bindEvents\<close> duplicates the listeners: one submission adds twice (C10), one update
  click sends two requests and leaves the label at \<open>Updating...\<close> (C14), and a drawer
  toggle click opens and closes the editor at once (C25). The \<open>finally\<close> block erases
  \<open>Updated!\<close> at once (C16). An older error timer hides a newer error early (C19). A
  2xx response with an unreadable body is reported as a failure (C11). The drawer update
  never sends its request, because of the redeclared \<open>giftWrapContainer\<close> (C24), and
  unchecking a drawer toggle never removes the gift wrap (C23). The quantity is not
  validated: a non-numeric value is sent as \<open>null\<close> (the body of C1).

  \<^bold>\<open>Not modelled.\<close> The cart endpoints themselves, an external service: the model
  sees them through the responses it is given. \<open>refreshCartUI\<close>'s
  \<open>window.location.reload()\<close> is logged, and the model's state goes on as if the page
  stayed; a reload is a fresh page. A section load that re-renders the cart section or
  the drawer replaces their DOM and is likewise a fresh page (\<open>ie_page_start\<close>);
  \<open>IeSectionLoad\<close> is the load of another section. The two awaits of
  \<open>updateGiftWrap\<close> (the \<open>fetch\<close> and \<open>response.json()\<close>) are one response step.
  \<open>trim\<close> removes the whitespace code points below 256 (HOL characters are bytes), not
  U+FEFF, U+2028, U+2029 or the other space separators above U+00FF. An error element
  that \<open>showError\<close> creates without attaching it gets a timer in the code with no
  visible effect; the model schedules none. Console logging, which has no effect on the
  page. The markup of the theme, which the sources only query.
\<close>

end
